theory Spec2Isabelle
  imports Main "HOL-Library.Word"
begin

unbundle bit_operations_syntax

section \<open>Python values and errors\<close>

text \<open>
  The keys of the decode table are either a single opcode byte (a Python int) or a
  tuple of two or three bytes for the prefixed opcodes.
\<close>

datatype opcode = Byte int | Tuple "int list"

text \<open>
  Every exception that the embedded code can raise is a value of \<open>py_error\<close>;
  a computation that may raise returns \<open>py_error + 'a\<close> with \<open>Inl\<close> the exception.
\<close>

datatype py_error =
    UnrecognisedInstructionError opcode
  | KeyError string
  | IndexError
  | TypeError
  | ValueError
  | PyException string

definition bindE :: "'e + 'a \<Rightarrow> ('a \<Rightarrow> 'e + 'b) \<Rightarrow> 'e + 'b" where
  "bindE m f = (case m of Inl e \<Rightarrow> Inl e | Inr x \<Rightarrow> f x)"

section \<open>The register file and the CPU object\<close>

text \<open>
  Modelled from the spec: the register file class behind \<^verbatim>\<open>cpu.reg\<close>, the memory bus
  and the I/O bus are not part of \<^verbatim>\<open>machinestates.py\<close>; only their uses are. Following
  sections 3, 4.1 and 6 of the specification, the 8-bit registers are stored as bytes,
  SP and PC as 16-bit words, a 16-bit view pairs two 8-bit registers with the high byte
  first, every write is masked to the width of the register written, flags are single
  bits of F (S, Z, 5, H, 3, P/V, N, C from bit 7 down to bit 0), the memory bus maps
  16-bit addresses to bytes, and the I/O bus answers reads by a function of the port
  address and records writes.
\<close>

datatype reg =
    A | F | B | C | D | E | H | L | I | R | IXH | IXL | IYH | IYL
  | AF | BC | DE | HL | IX | IY | SP | PC | SPH | SPL | PCH | PCL

definition reg_name :: "reg \<Rightarrow> string" where
  "reg_name r = (case r of
      A \<Rightarrow> ''A'' | F \<Rightarrow> ''F'' | B \<Rightarrow> ''B'' | C \<Rightarrow> ''C'' | D \<Rightarrow> ''D'' | E \<Rightarrow> ''E''
    | H \<Rightarrow> ''H'' | L \<Rightarrow> ''L'' | I \<Rightarrow> ''I'' | R \<Rightarrow> ''R''
    | IXH \<Rightarrow> ''IXH'' | IXL \<Rightarrow> ''IXL'' | IYH \<Rightarrow> ''IYH'' | IYL \<Rightarrow> ''IYL''
    | AF \<Rightarrow> ''AF'' | BC \<Rightarrow> ''BC'' | DE \<Rightarrow> ''DE'' | HL \<Rightarrow> ''HL'' | IX \<Rightarrow> ''IX'' | IY \<Rightarrow> ''IY''
    | SP \<Rightarrow> ''SP'' | PC \<Rightarrow> ''PC''
    | SPH \<Rightarrow> ''SPH'' | SPL \<Rightarrow> ''SPL'' | PCH \<Rightarrow> ''PCH'' | PCL \<Rightarrow> ''PCL'')"

record registers =
  r8 :: "reg \<Rightarrow> 8 word"
  r8_shadow :: "reg \<Rightarrow> 8 word"
  r_SP :: "16 word"
  r_PC :: "16 word"

definition halves :: "reg \<Rightarrow> (reg \<times> reg) option" where
  "halves r = (case r of
      AF \<Rightarrow> Some (A, F) | BC \<Rightarrow> Some (B, C) | DE \<Rightarrow> Some (D, E) | HL \<Rightarrow> Some (H, L)
    | IX \<Rightarrow> Some (IXH, IXL) | IY \<Rightarrow> Some (IYH, IYL) | _ \<Rightarrow> None)"

definition getattr :: "registers \<Rightarrow> reg \<Rightarrow> int" where
  "getattr rf r = (case r of
      SP \<Rightarrow> uint (r_SP rf)
    | PC \<Rightarrow> uint (r_PC rf)
    | SPH \<Rightarrow> uint (r_SP rf) div 256
    | SPL \<Rightarrow> uint (r_SP rf) mod 256
    | PCH \<Rightarrow> uint (r_PC rf) div 256
    | PCL \<Rightarrow> uint (r_PC rf) mod 256
    | _ \<Rightarrow> (case halves r of
              Some (h, l) \<Rightarrow> uint (r8 rf h) * 256 + uint (r8 rf l)
            | None \<Rightarrow> uint (r8 rf r)))"

definition setattr :: "registers \<Rightarrow> reg \<Rightarrow> int \<Rightarrow> registers" where
  "setattr rf r v = (case r of
      SP \<Rightarrow> rf\<lparr>r_SP := word_of_int v\<rparr>
    | PC \<Rightarrow> rf\<lparr>r_PC := word_of_int v\<rparr>
    | SPH \<Rightarrow> rf\<lparr>r_SP := word_of_int ((v mod 256) * 256 + uint (r_SP rf) mod 256)\<rparr>
    | SPL \<Rightarrow> rf\<lparr>r_SP := word_of_int ((uint (r_SP rf) div 256) * 256 + v mod 256)\<rparr>
    | PCH \<Rightarrow> rf\<lparr>r_PC := word_of_int ((v mod 256) * 256 + uint (r_PC rf) mod 256)\<rparr>
    | PCL \<Rightarrow> rf\<lparr>r_PC := word_of_int ((uint (r_PC rf) div 256) * 256 + v mod 256)\<rparr>
    | _ \<Rightarrow> (case halves r of
              Some (h, l) \<Rightarrow> rf\<lparr>r8 := (r8 rf)(h := word_of_int (v div 256), l := word_of_int v)\<rparr>
            | None \<Rightarrow> rf\<lparr>r8 := (r8 rf)(r := word_of_int v)\<rparr>))"

datatype flag = Flag_S | Flag_Z | Flag_5 | Flag_H | Flag_3 | Flag_P | Flag_V | Flag_N | Flag_C

definition flag_bit :: "flag \<Rightarrow> nat" where
  "flag_bit f = (case f of
      Flag_S \<Rightarrow> 7 | Flag_Z \<Rightarrow> 6 | Flag_5 \<Rightarrow> 5 | Flag_H \<Rightarrow> 4 | Flag_3 \<Rightarrow> 3
    | Flag_P \<Rightarrow> 2 | Flag_V \<Rightarrow> 2 | Flag_N \<Rightarrow> 1 | Flag_C \<Rightarrow> 0)"

definition getflag :: "registers \<Rightarrow> flag \<Rightarrow> int" where
  "getflag rf f = (if bit (r8 rf F) (flag_bit f) then 1 else 0)"

definition setflag :: "registers \<Rightarrow> flag \<Rightarrow> registers" where
  "setflag rf f = rf\<lparr>r8 := (r8 rf)(F := set_bit (flag_bit f) (r8 rf F))\<rparr>"

definition resetflag :: "registers \<Rightarrow> flag \<Rightarrow> registers" where
  "resetflag rf f = rf\<lparr>r8 := (r8 rf)(F := unset_bit (flag_bit f) (r8 rf F))\<rparr>"

definition ex :: "registers \<Rightarrow> registers" where
  "ex rf = rf\<lparr>r8 := (r8 rf)(A := r8_shadow rf A, F := r8_shadow rf F),
              r8_shadow := (r8_shadow rf)(A := r8 rf A, F := r8 rf F)\<rparr>"

definition exx :: "registers \<Rightarrow> registers" where
  "exx rf = rf\<lparr>r8 := (r8 rf)(B := r8_shadow rf B, C := r8_shadow rf C, D := r8_shadow rf D,
                             E := r8_shadow rf E, H := r8_shadow rf H, L := r8_shadow rf L),
               r8_shadow := (r8_shadow rf)(B := r8 rf B, C := r8 rf C, D := r8 rf D,
                             E := r8 rf E, H := r8 rf H, L := r8 rf L)\<rparr>"

datatype trace = Instruction opcode | Marker string

record cpu =
  reg :: registers
  membus :: "16 word \<Rightarrow> 8 word"
  iobus_in :: "int \<Rightarrow> int \<Rightarrow> 8 word"
  iobus_out :: "(int \<times> int \<times> int) list"
  iff1 :: int
  iff2 :: int
  interrupt_mode :: int
  int_latch :: bool
  most_recent_instruction :: "trace option"

definition membus_read :: "cpu \<Rightarrow> int \<Rightarrow> int" where
  "membus_read c a = uint (membus c (word_of_int a))"

definition membus_write :: "cpu \<Rightarrow> int \<Rightarrow> int \<Rightarrow> cpu" where
  "membus_write c a v = c\<lparr>membus := (membus c)(word_of_int a := word_of_int v)\<rparr>"

definition iobus_read :: "cpu \<Rightarrow> int \<Rightarrow> int \<Rightarrow> int" where
  "iobus_read c low high = uint (iobus_in c low high)"

definition iobus_write :: "cpu \<Rightarrow> int \<Rightarrow> int \<Rightarrow> int \<Rightarrow> cpu" where
  "iobus_write c low high v = c\<lparr>iobus_out := iobus_out c @ [(low, high, v)]\<rparr>"

section \<open>Micro-operations and machine states as data\<close>

text \<open>
  The source builds every micro-operation and every machine state as a closure. Here
  each factory function of the source is a constructor that records the factory's
  arguments (an omitted keyword argument is \<open>None\<close> or the default written in the
  source), and the closure's body is given by the interpreters below. The bodies of the
  lambda expressions of the decode table are terms of \<open>expr\<close>.
\<close>

datatype expr =
    Const int
  | Reg reg
  | Kwarg string
  | Arg
  | GetFlag flag
  | Iff2
  | IntLatch
  | Add expr expr
  | Sub expr expr
  | BitAnd expr expr
  | BitOr expr expr
  | BitXor expr expr
  | LShift expr expr
  | RShift expr expr
  | Invert expr
  | USub expr
  | Not expr
  | Gt expr expr
  | Lt expr expr
  | Eq expr expr
  | IfExp expr expr expr

text \<open>\<open>Lambda1 e\<close> is \<^verbatim>\<open>lambda state: e\<close>, \<open>Lambda2 e\<close> is \<^verbatim>\<open>lambda state, v: e\<close>.\<close>

datatype lam = Lambda1 expr | Lambda2 expr

datatype valarg = NoValue | Literal int | Callable lam

datatype transformer = add_register reg | subfrom reg

datatype transform = NoTransform | TransformCallable transformer | TransformDict "(string \<times> transformer) list"

datatype action =
    JP valarg "string option" "reg option"
  | JR valarg string
  | LDr reg valarg string
  | LDrs reg reg
  | RRr string "reg option" valarg
  | EX' "reg option" "reg option"
  | EXX
  | do_each "action list"
  | inc reg
  | dec reg
  | inta
  | on_zero reg action
  | on_flag flag action
  | unless_flag flag action
  | on_condition lam action
  | force_flag flag valarg
  | clear_flag flag
  | early_abort
  | set_flags string "string option" "reg option" valarg "reg option"
  | di
  | ei
  | im int
  | restore_iff
  | daa

text \<open>
  The constructors of \<open>state_ctor\<close> list the arguments in the order of the source's
  signatures: \<^verbatim>\<open>OCF(prefix, data_source, extra)\<close> (the data source itself lives in the
  configuration; the flag says whether one was given),
  \<^verbatim>\<open>OD(compound, action, key, signed)\<close>, \<^verbatim>\<open>MR(address, indirect, compound, action, incaddr)\<close>,
  \<^verbatim>\<open>MW(address, indirect, value, source, action, extra)\<close>, \<^verbatim>\<open>SR(compound, action, extra)\<close>,
  \<^verbatim>\<open>SW(source, key, extra, action)\<close>, \<^verbatim>\<open>IO(ticks, locked, transform, action, key)\<close>,
  \<^verbatim>\<open>PR(high, low, action, dest)\<close>, \<^verbatim>\<open>PW(high, low, action, source)\<close>. The \<^verbatim>\<open>verbose\<close>
  arguments only print and are left out.
\<close>

datatype state_ctor =
    OCF "opcode option" bool int
  | OD "(int \<Rightarrow> int \<Rightarrow> int) option" "action option" string bool
  | MR "int option" "reg option" "(int \<Rightarrow> int \<Rightarrow> int) option" "action option" bool
  | MW "int option" "reg option" valarg "reg option" "action option" int
  | SR "(int \<Rightarrow> int \<Rightarrow> int) option" "action option" int
  | SW "reg option" string int "action option"
  | IO int bool transform "action option" string
  | PR "reg option" "reg option" "action option" "reg option"
  | PW "reg option" "reg option" "action option" "reg option"

text \<open>
  A \<^verbatim>\<open>run\<close> method is a generator. A \<open>point\<close> is a place where a generator is suspended,
  with the local variables that are live there: \<open>Start\<close> before the first call of
  \<^verbatim>\<open>next\<close>, otherwise the \<^verbatim>\<open>yield\<close> that was reached. A natural number counts the
  \<^verbatim>\<open>yield\<close>s that a \<^verbatim>\<open>for n in range(...)\<close> loop still has to make.
\<close>

datatype point =
    Start
  | OCF_1 int
  | OCF_2 int opcode
  | OCF_3 nat "action list" "state_ctor list"
  | OD_1 int
  | OD_2 int int
  | MR_1 int
  | MR_2 int int
  | MW_1 int
  | MW_2 int int
  | MW_3 nat int
  | SR_1 int
  | SR_2 nat int
  | SW_1 nat
  | SW_2 int
  | IO_n nat
  | PR_1 int int
  | PR_2 int
  | PR_3 int
  | PW_1 int int
  | PW_2 int int int
  | PW_3 int

type_synonym kwargs = "string \<rightharpoonup> int"

text \<open>
  A machine state object: how it was constructed, where its generator stands, its
  \<^verbatim>\<open>kwargs\<close> dictionary and whether \<^verbatim>\<open>data_source\<close> is set. The attribute \<^verbatim>\<open>args\<close> is
  always the empty list in the source and is not represented.
\<close>

record mstate =
  ctor :: state_ctor
  at :: point
  bag :: kwargs
  has_data_source :: bool

text \<open>
  What a running machine state (the head of the pipeline, \<^verbatim>\<open>self\<close> in \<^verbatim>\<open>run\<close> and
  \<^verbatim>\<open>state\<close> in the micro-operations) can reach: the CPU, its own \<^verbatim>\<open>kwargs\<close>, the states
  queued behind it in the pipeline, and the items that the data source will still yield.
\<close>

record ctx =
  cpu :: cpu
  kwargs :: kwargs
  queued :: "mstate list"
  ds :: "int list"

text \<open>
  \<open>instantiate k\<close> is the call \<^verbatim>\<open>k()\<close> of a state class: only \<^verbatim>\<open>OCF\<close> sets
  \<^verbatim>\<open>data_source\<close> in its constructor. \<open>set_data_source\<close> is the method of that name.
\<close>

definition instantiate :: "state_ctor \<Rightarrow> mstate" where
  "instantiate k =
     \<lparr>ctor = k, at = Start, bag = Map.empty,
      has_data_source = (case k of OCF p d e \<Rightarrow> d | _ \<Rightarrow> False)\<rparr>"

definition set_data_source :: "bool \<Rightarrow> mstate \<Rightarrow> mstate" where
  "set_data_source d m = m\<lparr>has_data_source := d\<rparr>"

section \<open>Evaluating lambda expressions\<close>

text \<open>
  Python integers are unbounded: \<^verbatim>\<open>&\<close>, \<^verbatim>\<open>|\<close>, \<^verbatim>\<open>^\<close>, \<^verbatim>\<open>~\<close> are the bit operations of
  \<open>int\<close>, \<^verbatim>\<open><<\<close> is \<open>push_bit\<close> and \<^verbatim>\<open>>>\<close> is \<open>drop_bit\<close> (both raise on a negative
  count). \<^verbatim>\<open>True\<close> and \<^verbatim>\<open>False\<close> are 1 and 0. The third argument of \<open>eval\<close> is
  the value bound to the lambda's second parameter, if it has one.
\<close>

fun eval :: "expr \<Rightarrow> ctx \<Rightarrow> int option \<Rightarrow> py_error + int" where
  "eval (Const n) s v = Inr n"
| "eval (Reg r) s v = Inr (getattr (reg (cpu s)) r)"
| "eval (Kwarg k) s v = (case kwargs s k of None \<Rightarrow> Inl (KeyError k) | Some x \<Rightarrow> Inr x)"
| "eval Arg s v = (case v of None \<Rightarrow> Inl TypeError | Some x \<Rightarrow> Inr x)"
| "eval (GetFlag f) s v = Inr (getflag (reg (cpu s)) f)"
| "eval Iff2 s v = Inr (iff2 (cpu s))"
| "eval IntLatch s v = Inr (if int_latch (cpu s) then 1 else 0)"
| "eval (Add a b) s v = bindE (eval a s v) (\<lambda>x. bindE (eval b s v) (\<lambda>y. Inr (x + y)))"
| "eval (Sub a b) s v = bindE (eval a s v) (\<lambda>x. bindE (eval b s v) (\<lambda>y. Inr (x - y)))"
| "eval (BitAnd a b) s v = bindE (eval a s v) (\<lambda>x. bindE (eval b s v) (\<lambda>y. Inr (x AND y)))"
| "eval (BitOr a b) s v = bindE (eval a s v) (\<lambda>x. bindE (eval b s v) (\<lambda>y. Inr (x OR y)))"
| "eval (BitXor a b) s v = bindE (eval a s v) (\<lambda>x. bindE (eval b s v) (\<lambda>y. Inr (x XOR y)))"
| "eval (LShift a b) s v = bindE (eval a s v) (\<lambda>x. bindE (eval b s v)
      (\<lambda>y. if y < 0 then Inl ValueError else Inr (push_bit (nat y) x)))"
| "eval (RShift a b) s v = bindE (eval a s v) (\<lambda>x. bindE (eval b s v)
      (\<lambda>y. if y < 0 then Inl ValueError else Inr (drop_bit (nat y) x)))"
| "eval (Invert a) s v = bindE (eval a s v) (\<lambda>x. Inr (NOT x))"
| "eval (USub a) s v = bindE (eval a s v) (\<lambda>x. Inr (- x))"
| "eval (Not a) s v = bindE (eval a s v) (\<lambda>x. Inr (if x = 0 then 1 else 0))"
| "eval (Gt a b) s v = bindE (eval a s v) (\<lambda>x. bindE (eval b s v) (\<lambda>y. Inr (if x > y then 1 else 0)))"
| "eval (Lt a b) s v = bindE (eval a s v) (\<lambda>x. bindE (eval b s v) (\<lambda>y. Inr (if x < y then 1 else 0)))"
| "eval (Eq a b) s v = bindE (eval a s v) (\<lambda>x. bindE (eval b s v) (\<lambda>y. Inr (if x = y then 1 else 0)))"
| "eval (IfExp t a b) s v = bindE (eval t s v) (\<lambda>c. if c \<noteq> 0 then eval a s v else eval b s v)"

text \<open>
  Calling a lambda with \<^verbatim>\<open>f(state, *args)\<close>: the number of arguments has to fit the
  number of parameters, otherwise Python raises \<^verbatim>\<open>TypeError\<close>.
\<close>

fun call :: "lam \<Rightarrow> ctx \<Rightarrow> int list \<Rightarrow> py_error + int" where
  "call (Lambda1 e) s [] = eval e s None"
| "call (Lambda2 e) s [v] = eval e s (Some v)"
| "call f s args = Inl TypeError"

definition lookup :: "ctx \<Rightarrow> string \<Rightarrow> py_error + int" where
  "lookup s k = (case kwargs s k of None \<Rightarrow> Inl (KeyError k) | Some x \<Rightarrow> Inr x)"

definition store :: "ctx \<Rightarrow> string \<Rightarrow> int \<Rightarrow> ctx" where
  "store s k x = s\<lparr>kwargs := (kwargs s)(k \<mapsto> x)\<rparr>"

definition get_reg :: "ctx \<Rightarrow> reg \<Rightarrow> int" where
  "get_reg s r = getattr (reg (cpu s)) r"

definition set_reg :: "ctx \<Rightarrow> reg \<Rightarrow> int \<Rightarrow> ctx" where
  "set_reg s r x = s\<lparr>cpu := (cpu s)\<lparr>reg := setattr (reg (cpu s)) r x\<rparr>\<rparr>"

definition set_flag :: "ctx \<Rightarrow> flag \<Rightarrow> ctx" where
  "set_flag s f = s\<lparr>cpu := (cpu s)\<lparr>reg := setflag (reg (cpu s)) f\<rparr>\<rparr>"

definition reset_flag :: "ctx \<Rightarrow> flag \<Rightarrow> ctx" where
  "reset_flag s f = s\<lparr>cpu := (cpu s)\<lparr>reg := resetflag (reg (cpu s)) f\<rparr>\<rparr>"

definition put_flag :: "ctx \<Rightarrow> flag \<Rightarrow> bool \<Rightarrow> ctx" where
  "put_flag s f b = (if b then set_flag s f else reset_flag s f)"

definition apply_transformer :: "transformer \<Rightarrow> ctx \<Rightarrow> int \<Rightarrow> int" where
  "apply_transformer t s d = (case t of
      add_register r \<Rightarrow> get_reg s r + d
    | subfrom r \<Rightarrow> get_reg s r - d)"

section \<open>The micro-operations\<close>

definition high_after_low :: "int \<Rightarrow> int \<Rightarrow> int" where
  "high_after_low x y = (push_bit 8 x) OR y"

text \<open>The loop \<^verbatim>\<open>while p > 1: p = (p&0x1) ^ (p >> 1)\<close> of \<^verbatim>\<open>set_flags\<close>.\<close>

function parity_loop :: "int \<Rightarrow> int" where
  "parity_loop p = (if p > 1 then parity_loop ((p AND 1) XOR (drop_bit 1 p)) else p)"
  by pat_completeness auto

termination
proof (relation "measure nat")
  show "wf (measure nat)"
    by simp
next
  fix p :: int
  assume p: "1 < p"
  have "nat ((p AND 1) XOR drop_bit 1 p) < nat p"
  proof (cases "even p")
    case True
    then show ?thesis
      using p by (simp add: and_one_eq drop_bit_eq_div)
  next
    case False
    then have m: "p mod 2 = 1"
      by presburger
    have "1 XOR (p div 2) \<le> p div 2 + 1"
      by (simp add: one_xor_eq)
    moreover have "p div 2 + 1 < p"
      using p False by presburger
    ultimately show ?thesis
      using p by (simp add: and_one_eq drop_bit_eq_div m)
  qed
  then show "((p AND 1) XOR drop_bit 1 p, p) \<in> measure nat"
    by simp
qed

text \<open>
  One round of the loop \<^verbatim>\<open>for n in range(0,7)\<close> at the end of \<^verbatim>\<open>set_flags\<close>: the
  template character \<^verbatim>\<open>flags[7-n]\<close> decides about bit \<open>n\<close> of F.
\<close>

definition force_bit :: "string \<Rightarrow> nat \<Rightarrow> ctx \<Rightarrow> ctx" where
  "force_bit flags n s =
     (if flags ! (7 - n) = CHR ''1'' then set_reg s F (get_reg s F OR push_bit n 1)
      else if flags ! (7 - n) = CHR ''0'' then set_reg s F (get_reg s F AND (0xFF - push_bit n 1))
      else s)"

text \<open>
  The body of \<^verbatim>\<open>set_flags\<close> once the value \<^verbatim>\<open>D\<close> is known. The template is indexed
  at 0, 1, 2, 4, 5 and 7, and position 7 is read on every path, so a template shorter
  than eight characters raises \<^verbatim>\<open>IndexError\<close>.
\<close>

definition set_flags_body :: "string \<Rightarrow> string option \<Rightarrow> reg option \<Rightarrow> int \<Rightarrow> ctx \<Rightarrow> py_error + ctx" where
  "set_flags_body flags key dest DD s0 =
     (if length flags < 8 then Inl IndexError
      else
        let d = DD AND 0xFF;
            s1 = (if flags ! 0 = CHR ''S'' then put_flag s0 Flag_S (drop_bit 7 d AND 1 = 1) else s0);
            s2 = (if flags ! 1 = CHR ''Z'' then put_flag s1 Flag_Z (d = 0) else s1);
            s3 = (if flags ! 2 = CHR ''5'' then put_flag s2 Flag_5 (drop_bit 5 d AND 1 = 1) else s2);
            s4 = (if flags ! 4 = CHR ''3'' then put_flag s3 Flag_3 (drop_bit 3 d AND 1 = 1) else s3);
            s5 = (if flags ! 5 = CHR ''*'' then put_flag s4 Flag_P (iff2 (cpu s4) = 1)
                  else if flags ! 5 = CHR ''V'' then put_flag s4 Flag_V (DD > 127 \<or> DD < - 128)
                  else if flags ! 5 = CHR ''P'' then put_flag s4 Flag_P (parity_loop d = 0)
                  else s4);
            s6 = (if flags ! 7 = CHR ''C'' then put_flag s5 Flag_C (DD > 255 \<or> DD < 0) else s5);
            s7 = fold (force_bit flags) [0..<7] s6;
            s8 = (case key of Some k \<Rightarrow> store s7 k d | None \<Rightarrow> s7);
            s9 = (case dest of Some r \<Rightarrow> set_reg s8 r d | None \<Rightarrow> s8)
        in Inr s9)"

definition daa_body :: "ctx \<Rightarrow> ctx" where
  "daa_body s =
     (let A0 = get_reg s A;
          Cf = drop_bit 0 (get_reg s F) AND 1;
          Hf = drop_bit 4 (get_reg s F) AND 1;
          Nf = drop_bit 1 (get_reg s F) AND 1;
          A1 = (if Nf = 0
                then (if A0 AND 0xF > 9 \<or> Hf \<noteq> 0 then A0 + 0x06 else A0)
                else (if A0 AND 0xF > 9 \<or> Hf \<noteq> 0 then A0 - 0x06 else A0));
          adj = (drop_bit 4 A1 > 9 \<or> Cf \<noteq> 0);
          A2 = (if adj then (if Nf = 0 then A1 + 0x60 else A1 - 0x60) else A1);
          F0 = (if adj then 0x01 else 0x00);
          A3 = A2 AND 0xFF;
          F1 = F0 OR push_bit 1 Nf;
          F2 = F1 OR (A3 AND 0xA8);
          F3 = (if A3 = 0x00 then F2 OR 0x40 else F2)
      in set_reg (set_reg s A A3) F F3)"

text \<open>
  \<open>apply_action a args s\<close> is the call \<^verbatim>\<open>a(state, *args)\<close> of the closure that the
  factory \<open>a\<close> returned; \<open>apply_each\<close> is the loop of \<^verbatim>\<open>do_each\<close>.
\<close>

fun apply_action :: "action \<Rightarrow> int list \<Rightarrow> ctx \<Rightarrow> py_error + ctx"
  and apply_each :: "action list \<Rightarrow> int list \<Rightarrow> ctx \<Rightarrow> py_error + ctx" where
  "apply_action (JP val key source) args s =
     bindE (case val of
              Callable f \<Rightarrow> call f s []
            | Literal n \<Rightarrow> Inr n
            | NoValue \<Rightarrow> (case source of
                Some r \<Rightarrow> Inr (get_reg s r)
              | None \<Rightarrow> (case key of
                  Some k \<Rightarrow> lookup s k
                | None \<Rightarrow> (case args of a # _ \<Rightarrow> Inr a | [] \<Rightarrow> lookup s ''value''))))
       (\<lambda>target. Inr (set_reg s PC target))"
| "apply_action (JR val key) args s =
     bindE (case val of
              Callable f \<Rightarrow> call f s []
            | Literal n \<Rightarrow> Inr n
            | NoValue \<Rightarrow> (case args of a # _ \<Rightarrow> Inr a | [] \<Rightarrow> lookup s key))
       (\<lambda>target. Inr (set_reg s PC (get_reg s PC + target)))"
| "apply_action (LDr r val key) args s =
     bindE (case val of
              Callable f \<Rightarrow> call f s args
            | Literal n \<Rightarrow> Inr n
            | NoValue \<Rightarrow> (case args of a # _ \<Rightarrow> Inr a | [] \<Rightarrow> lookup s key))
       (\<lambda>v. Inr (set_reg s r v))"
| "apply_action (LDrs r r') args s = Inr (set_reg s r (get_reg s r'))"
| "apply_action (RRr n r val) args s =
     bindE (case r of
              Some r' \<Rightarrow> Inr (get_reg s r')
            | None \<Rightarrow> (case val of
                Callable f \<Rightarrow> call f s args
              | Literal n \<Rightarrow> Inr n
              | NoValue \<Rightarrow> (case args of a # _ \<Rightarrow> Inr a | [] \<Rightarrow> Inl (PyException []))))
       (\<lambda>v. Inr (store s n v))"
| "apply_action (EX' a b) args s =
     (case (a, b) of
        (Some ra, Some rb) \<Rightarrow> Inr (set_reg (set_reg s ra (get_reg s rb)) rb (get_reg s ra))
      | _ \<Rightarrow> Inr (s\<lparr>cpu := (cpu s)\<lparr>reg := ex (reg (cpu s))\<rparr>\<rparr>))"
| "apply_action EXX args s = Inr (s\<lparr>cpu := (cpu s)\<lparr>reg := exx (reg (cpu s))\<rparr>\<rparr>)"
| "apply_action (do_each actions) args s = apply_each actions args s"
| "apply_action (inc r) args s =
     (if length (reg_name r) mod 2 = 0
      then Inr (set_reg s r ((get_reg s r + 1) AND 0xFFFF))
      else Inr (set_reg s r ((get_reg s r + 1) AND 0xFF)))"
| "apply_action (dec r) args s =
     (if length (reg_name r) mod 2 = 0
      then Inr (set_reg s r ((0xFFFF + get_reg s r) AND 0xFFFF))
      else Inr (set_reg s r ((0xFF + get_reg s r) AND 0xFF)))"
| "apply_action inta args s = Inr (s\<lparr>ds := tl (ds s)\<rparr>)"
| "apply_action (on_zero r a) args s =
     (if get_reg s r = 0 then apply_action a args s else Inr s)"
| "apply_action (on_flag f a) args s =
     (if getflag (reg (cpu s)) f = 1 then apply_action a args s else Inr s)"
| "apply_action (unless_flag f a) args s =
     (if getflag (reg (cpu s)) f = 0 then apply_action a args s else Inr s)"
| "apply_action (on_condition cond a) args s =
     bindE (call cond s args) (\<lambda>c. if c \<noteq> 0 then apply_action a args s else Inr s)"
| "apply_action (force_flag f val) args s =
     (case val of
        Callable g \<Rightarrow> bindE (call g s args)
          (\<lambda>v. if v = 0 then Inr (reset_flag s f) else Inr (set_flag s f))
      | Literal v \<Rightarrow> (if v = 0 then Inr (reset_flag s f) else Inr (set_flag s f))
      | NoValue \<Rightarrow> Inr (set_flag s f))"
| "apply_action (clear_flag f) args s = Inr (reset_flag s f)"
| "apply_action early_abort args s = Inr (s\<lparr>queued := []\<rparr>)"
| "apply_action (set_flags flags key source val dest) args s =
     bindE (case val of
              Callable g \<Rightarrow> call g s args
            | Literal n \<Rightarrow> Inr n
            | NoValue \<Rightarrow> (case source of
                Some r \<Rightarrow> Inr (get_reg s r)
              | None \<Rightarrow> (case args of
                  a # _ \<Rightarrow> Inr a
                | [] \<Rightarrow> (case key of Some k \<Rightarrow> lookup s k | None \<Rightarrow> Inl (KeyError ''None'')))))
       (\<lambda>DD. set_flags_body flags key dest DD s)"
| "apply_action di args s = Inr (s\<lparr>cpu := (cpu s)\<lparr>iff1 := 0, iff2 := 0\<rparr>\<rparr>)"
| "apply_action ei args s = Inr (s\<lparr>cpu := (cpu s)\<lparr>iff1 := 1, iff2 := 1\<rparr>\<rparr>)"
| "apply_action (im m) args s = Inr (s\<lparr>cpu := (cpu s)\<lparr>interrupt_mode := m\<rparr>\<rparr>)"
| "apply_action restore_iff args s = Inr (s\<lparr>cpu := (cpu s)\<lparr>iff1 := iff2 (cpu s)\<rparr>\<rparr>)"
| "apply_action daa args s = Inr (daa_body s)"
| "apply_each [] args s = Inr s"
| "apply_each (a # actions) args s = bindE (apply_action a args s) (apply_each actions args)"

section \<open>The decode table\<close>

text \<open>The templates that the source uses to keep the table short.\<close>

definition ADC16 :: "reg \<Rightarrow> action list" where
  "ADC16 r =
     [RRr ''value'' (Some HL) NoValue,
      RRr ''summand'' (Some r) NoValue,
      force_flag Flag_H (Callable (Lambda1 (IfExp (Gt (Add (Add (BitAnd (RShift (Kwarg ''summand'') (Const 8)) (Const 0xF)) (BitAnd (RShift (Kwarg ''value'') (Const 8)) (Const 0xF))) (RShift (Add (Add (BitAnd (Kwarg ''summand'') (Const 0xFF)) (BitAnd (Kwarg ''value'') (Const 0xFF))) (GetFlag Flag_C)) (Const 8))) (Const 0xF)) (Const 1) (Const 0)))),
      LDr HL (Callable (Lambda1 (BitAnd (Add (Add (Kwarg ''summand'') (Kwarg ''value'')) (GetFlag Flag_C)) (Const 0xFFFF)))) ''value'',
      set_flags ''S-5-3V0C'' (Some ''value'') None (Callable (Lambda1 (Add (Add (RShift (Kwarg ''summand'') (Const 8)) (RShift (Kwarg ''value'') (Const 8))) (RShift (Add (Add (BitAnd (Kwarg ''summand'') (Const 0xFF)) (BitAnd (Kwarg ''value'') (Const 0xFF))) (GetFlag Flag_C)) (Const 8))))) None,
      force_flag Flag_Z (Callable (Lambda1 (IfExp (Eq (Reg HL) (Const 0x0000)) (Const 1) (Const 0))))]"

definition SBC16 :: "reg \<Rightarrow> action list" where
  "SBC16 r =
     [RRr ''value'' (Some HL) NoValue,
      RRr ''summand'' None (Callable (Lambda1 (BitAnd (USub (Reg r)) (Const 0xFFFF)))),
      force_flag Flag_H (Callable (Lambda1 (IfExp (Gt (Add (Add (BitAnd (RShift (Kwarg ''summand'') (Const 8)) (Const 0xF)) (BitAnd (RShift (Kwarg ''value'') (Const 8)) (Const 0xF))) (RShift (Sub (Add (BitAnd (Kwarg ''summand'') (Const 0xFF)) (BitAnd (Kwarg ''value'') (Const 0xFF))) (GetFlag Flag_C)) (Const 8))) (Const 0xF)) (Const 1) (Const 0)))),
      LDr HL (Callable (Lambda1 (BitAnd (Sub (Add (Kwarg ''summand'') (Kwarg ''value'')) (GetFlag Flag_C)) (Const 0xFFFF)))) ''value'',
      set_flags ''S-5-3V1C'' (Some ''value'') None (Callable (Lambda1 (Add (Add (RShift (Kwarg ''summand'') (Const 8)) (RShift (Kwarg ''value'') (Const 8))) (RShift (Sub (Add (BitAnd (Kwarg ''summand'') (Const 0xFF)) (BitAnd (Kwarg ''value'') (Const 0xFF))) (GetFlag Flag_C)) (Const 8))))) None,
      force_flag Flag_Z (Callable (Lambda1 (IfExp (Eq (Reg HL) (Const 0x0000)) (Const 1) (Const 0))))]"

definition RLC :: "reg option \<Rightarrow> string \<Rightarrow> action" where
  "RLC r' key = (case r' of
      Some r \<Rightarrow> set_flags ''--503-0C'' (Some ''value'') None
        (Callable (Lambda1 (BitOr (LShift (Reg r) (Const 1)) (RShift (Reg r) (Const 7))))) (Some r)
    | None \<Rightarrow> set_flags ''--503-0C'' (Some key) None
        (Callable (Lambda2 (BitOr (LShift Arg (Const 1)) (RShift Arg (Const 7))))) None)"

definition RL :: "reg option \<Rightarrow> string \<Rightarrow> action" where
  "RL r' key = (case r' of
      Some r \<Rightarrow> set_flags ''--503-0C'' (Some ''value'') None
        (Callable (Lambda1 (BitOr (LShift (Reg r) (Const 1)) (GetFlag Flag_C)))) (Some r)
    | None \<Rightarrow> set_flags ''--503-0C'' (Some key) None
        (Callable (Lambda2 (BitOr (LShift Arg (Const 1)) (GetFlag Flag_C)))) None)"

definition RRC :: "reg option \<Rightarrow> string \<Rightarrow> action" where
  "RRC r' key = (case r' of
      Some r \<Rightarrow> set_flags ''--503-0C'' (Some ''value'') None
        (Callable (Lambda1 (BitOr (BitOr (RShift (Reg r) (Const 1)) (LShift (BitAnd (Reg r) (Const 0x01)) (Const 7))) (LShift (BitAnd (Reg r) (Const 0x01)) (Const 8))))) (Some r)
    | None \<Rightarrow> set_flags ''--503-0C'' (Some key) None
        (Callable (Lambda2 (BitOr (BitOr (RShift Arg (Const 1)) (LShift (BitAnd Arg (Const 0x01)) (Const 7))) (LShift (BitAnd Arg (Const 0x01)) (Const 8))))) None)"

definition RR :: "reg option \<Rightarrow> string \<Rightarrow> action" where
  "RR r' key = (case r' of
      Some r \<Rightarrow> set_flags ''--503-0C'' (Some ''value'') None
        (Callable (Lambda1 (BitOr (BitOr (RShift (Reg r) (Const 1)) (LShift (GetFlag Flag_C) (Const 7))) (LShift (BitAnd (Reg r) (Const 0x01)) (Const 8))))) (Some r)
    | None \<Rightarrow> set_flags ''--503-0C'' (Some key) None
        (Callable (Lambda2 (BitOr (BitOr (RShift Arg (Const 1)) (LShift (GetFlag Flag_C) (Const 7))) (LShift (BitAnd Arg (Const 0x01)) (Const 8))))) None)"

definition SLA :: "reg option \<Rightarrow> string \<Rightarrow> action" where
  "SLA r' key = (case r' of
      Some r \<Rightarrow> set_flags ''--503-0C'' (Some ''value'') None
        (Callable (Lambda1 (LShift (Reg r) (Const 1)))) (Some r)
    | None \<Rightarrow> set_flags ''--503-0C'' (Some key) None
        (Callable (Lambda2 (LShift Arg (Const 1)))) None)"

definition SRA :: "reg option \<Rightarrow> string \<Rightarrow> action" where
  "SRA r' key = (case r' of
      Some r \<Rightarrow> set_flags ''--503-0C'' (Some ''value'') None
        (Callable (Lambda1 (BitOr (BitOr (RShift (Reg r) (Const 1)) (BitAnd (Reg r) (Const 0x80))) (LShift (BitAnd (Reg r) (Const 0x01)) (Const 8))))) (Some r)
    | None \<Rightarrow> set_flags ''--503-0C'' (Some key) None
        (Callable (Lambda2 (BitOr (BitOr (RShift Arg (Const 1)) (BitAnd Arg (Const 0x80))) (LShift (BitAnd Arg (Const 0x01)) (Const 8))))) None)"

definition SL1 :: "reg option \<Rightarrow> string \<Rightarrow> action" where
  "SL1 r' key = (case r' of
      Some r \<Rightarrow> set_flags ''--503-0C'' (Some ''value'') None
        (Callable (Lambda1 (BitOr (LShift (Reg r) (Const 1)) (Const 0x01)))) (Some r)
    | None \<Rightarrow> set_flags ''--503-0C'' (Some key) None
        (Callable (Lambda2 (BitOr (LShift Arg (Const 1)) (Const 0x01)))) None)"

definition SRL :: "reg option \<Rightarrow> string \<Rightarrow> action" where
  "SRL r' key = (case r' of
      Some r \<Rightarrow> set_flags ''--503-0C'' (Some ''value'') None
        (Callable (Lambda1 (BitOr (RShift (Reg r) (Const 1)) (LShift (BitAnd (Reg r) (Const 0x01)) (Const 8))))) (Some r)
    | None \<Rightarrow> set_flags ''--503-0C'' (Some key) None
        (Callable (Lambda2 (BitOr (RShift Arg (Const 1)) (LShift (BitAnd Arg (Const 0x01)) (Const 8))))) None)"

definition BIT :: "int \<Rightarrow> reg option \<Rightarrow> action" where
  "BIT n r' = (case r' of
      Some r \<Rightarrow> set_flags ''SZ513P0-'' (Some ''value'') None
        (Callable (Lambda1 (BitAnd (Reg r) (LShift (Const 1) (Const n))))) None
    | None \<Rightarrow> set_flags ''SZ513P0-'' (Some ''value'') None
        (Callable (Lambda2 (BitAnd Arg (LShift (Const 1) (Const n))))) None)"

definition RES :: "int \<Rightarrow> reg option \<Rightarrow> string \<Rightarrow> action" where
  "RES n r' key = (case r' of
      Some r \<Rightarrow> LDr r (Callable (Lambda1 (BitAnd (Reg r) (Sub (Const 0xFF) (LShift (Const 1) (Const n)))))) ''value''
    | None \<Rightarrow> RRr key None (Callable (Lambda2 (BitAnd Arg (Sub (Const 0xFF) (LShift (Const 1) (Const n)))))))"

definition SET :: "int \<Rightarrow> reg option \<Rightarrow> string \<Rightarrow> action" where
  "SET n r' key = (case r' of
      Some r \<Rightarrow> LDr r (Callable (Lambda1 (BitOr (Reg r) (LShift (Const 1) (Const n))))) ''value''
    | None \<Rightarrow> RRr key None (Callable (Lambda2 (BitOr Arg (LShift (Const 1) (Const n))))))"

text \<open>
  An entry of the table is the tuple of the source: the extra clock cycles of the
  opcode fetch, the actions at its end, the machine states that follow, the mnemonic and
  the number of bytes. Six entries of the source are tuples of four elements, without the
  number of bytes; their last component is \<open>None\<close>. Each value of the dictionary is a
  constant named after its key: \<open>ins_C5\<close> is the value at \<^verbatim>\<open>0xC5\<close> and \<open>ins_DD_CB\<close>
  the one at \<^verbatim>\<open>(0xDD, 0xCB)\<close>.
\<close>

type_synonym entry = "int \<times> action list \<times> state_ctor list \<times> string \<times> int option"

definition ins_00 :: entry where
  "ins_00 =
     (0, [],
      [],
      ''NOP'', (Some 1))"

definition ins_01 :: entry where
  "ins_01 =
     (0, [],
      [OD (Some high_after_low) None ''value'' False, OD (Some high_after_low) (Some (LDr BC NoValue ''value'')) ''value'' False],
      ''LD BC,nn'', (Some 3))"

definition ins_02 :: entry where
  "ins_02 =
     (0, [],
      [MW None (Some BC) NoValue (Some A) None 0],
      ''LD (BC),A'', (Some 1))"

definition ins_03 :: entry where
  "ins_03 =
     (0, [LDr BC (Callable (Lambda1 (BitAnd (Add (Reg BC) (Const 1)) (Const 0xFFFF)))) ''value''],
      [],
      ''INC BC'', (Some 1))"

definition ins_04 :: entry where
  "ins_04 =
     (0, [force_flag Flag_H (Callable (Lambda1 (IfExp (Gt (Add (BitAnd (Reg B) (Const 0xF)) (Const 1)) (Const 0xF)) (Const 1) (Const 0)))), set_flags ''SZ5-3V0-'' (Some ''value'') None (Callable (Lambda1 (Add (Reg B) (Const 1)))) None, LDr B NoValue ''value''],
      [],
      ''INC B'', (Some 1))"

definition ins_05 :: entry where
  "ins_05 =
     (0, [force_flag Flag_H (Callable (Lambda1 (IfExp (Lt (Sub (BitAnd (Reg B) (Const 0xF)) (Const 1)) (Const 0x0)) (Const 1) (Const 0)))), set_flags ''SZ5-3V1-'' (Some ''value'') None (Callable (Lambda1 (Sub (Reg B) (Const 1)))) None, LDr B NoValue ''value''],
      [],
      ''DEC B'', (Some 1))"

definition ins_06 :: entry where
  "ins_06 =
     (0, [],
      [OD (Some high_after_low) (Some (LDr B NoValue ''value'')) ''value'' False],
      ''LD B,n'', (Some 2))"

definition ins_07 :: entry where
  "ins_07 =
     (0, [RLC (Some A) ''value''],
      [],
      ''RLCA'', (Some 1))"

definition ins_08 :: entry where
  "ins_08 =
     (0, [EX' None None],
      [],
      (''EX AF,AF'' @ [CHR 0x27]), (Some 1))"

definition ins_09 :: entry where
  "ins_09 =
     (0, [force_flag Flag_H (Callable (Lambda1 (IfExp (Gt (Add (Add (BitAnd (Reg B) (Const 0xF)) (BitAnd (Reg H) (Const 0xF))) (RShift (Add (Reg C) (Reg L)) (Const 8))) (Const 0xF)) (Const 1) (Const 0)))), set_flags ''--5-3-0C'' (Some ''value'') None (Callable (Lambda1 (Add (Add (Reg B) (Reg H)) (RShift (Add (Reg C) (Reg L)) (Const 8))))) None, LDr HL (Callable (Lambda1 (BitAnd (Add (Reg HL) (Reg BC)) (Const 0xFFFF)))) ''value''],
      [IO 4 True NoTransform None ''value'', IO 3 True NoTransform None ''value''],
      ''ADD HL,BC'', (Some 1))"

definition ins_0B :: entry where
  "ins_0B =
     (0, [LDr BC (Callable (Lambda1 (BitAnd (Sub (Reg BC) (Const 1)) (Const 0xFFFF)))) ''value''],
      [],
      ''DEC BC'', (Some 1))"

definition ins_0C :: entry where
  "ins_0C =
     (0, [force_flag Flag_H (Callable (Lambda1 (IfExp (Gt (Add (BitAnd (Reg C) (Const 0xF)) (Const 1)) (Const 0xF)) (Const 1) (Const 0)))), set_flags ''SZ5-3V0-'' (Some ''value'') None (Callable (Lambda1 (Add (Reg C) (Const 1)))) None, LDr C NoValue ''value''],
      [],
      ''INC C'', (Some 1))"

definition ins_0D :: entry where
  "ins_0D =
     (0, [force_flag Flag_H (Callable (Lambda1 (IfExp (Lt (Sub (BitAnd (Reg C) (Const 0xF)) (Const 1)) (Const 0x0)) (Const 1) (Const 0)))), set_flags ''SZ5H3V1-'' (Some ''value'') None (Callable (Lambda1 (Sub (Reg C) (Const 1)))) None, LDr C NoValue ''value''],
      [],
      ''DEC C'', (Some 1))"

definition ins_0E :: entry where
  "ins_0E =
     (0, [],
      [OD (Some high_after_low) (Some (LDr C NoValue ''value'')) ''value'' False],
      ''LD C,n'', (Some 2))"

definition ins_0F :: entry where
  "ins_0F =
     (0, [set_flags ''--503-0C'' (Some ''value'') None (Callable (Lambda1 (BitOr (BitOr (RShift (Reg A) (Const 1)) (LShift (BitAnd (Reg A) (Const 0x01)) (Const 7))) (LShift (BitAnd (Reg A) (Const 0x01)) (Const 8))))) (Some A)],
      [],
      ''RRCA'', (Some 1))"

definition ins_0A :: entry where
  "ins_0A =
     (0, [],
      [MR None (Some BC) (Some high_after_low) (Some (LDr A NoValue ''value'')) True],
      ''LD A,(BC)'', (Some 1))"

definition ins_10 :: entry where
  "ins_10 =
     (1, [],
      [OD (Some high_after_low) (Some (do_each [LDr B (Callable (Lambda2 (BitAnd (Sub (Reg B) (Const 1)) (Const 0xFF)))) ''value'', on_condition (Lambda2 (Eq (Reg B) (Const 0x00))) (early_abort), RRr ''value'' None NoValue])) ''value'' True, IO 5 True NoTransform (Some (JR NoValue ''value'')) ''value''],
      ''DJNZ n'', (Some 2))"

definition ins_11 :: entry where
  "ins_11 =
     (0, [],
      [OD (Some high_after_low) None ''value'' False, OD (Some high_after_low) (Some (LDr DE NoValue ''value'')) ''value'' False],
      ''LD DE,nn'', (Some 3))"

definition ins_12 :: entry where
  "ins_12 =
     (0, [],
      [MW None (Some DE) NoValue (Some A) None 0],
      ''LD (DE),A'', (Some 1))"

definition ins_13 :: entry where
  "ins_13 =
     (0, [LDr DE (Callable (Lambda1 (BitAnd (Add (Reg DE) (Const 1)) (Const 0xFFFF)))) ''value''],
      [],
      ''INC DE'', (Some 1))"

definition ins_14 :: entry where
  "ins_14 =
     (0, [force_flag Flag_H (Callable (Lambda1 (IfExp (Gt (Add (BitAnd (Reg D) (Const 0xF)) (Const 1)) (Const 0xF)) (Const 1) (Const 0)))), set_flags ''SZ5-3V0-'' (Some ''value'') None (Callable (Lambda1 (Add (Reg D) (Const 1)))) None, LDr D NoValue ''value''],
      [],
      ''INC D'', (Some 1))"

definition ins_15 :: entry where
  "ins_15 =
     (0, [force_flag Flag_H (Callable (Lambda1 (IfExp (Lt (Sub (BitAnd (Reg D) (Const 0xF)) (Const 1)) (Const 0x0)) (Const 1) (Const 0)))), set_flags ''SZ5H3V1-'' (Some ''value'') None (Callable (Lambda1 (Sub (Reg D) (Const 1)))) None, LDr D NoValue ''value''],
      [],
      ''DEC D'', (Some 1))"

definition ins_16 :: entry where
  "ins_16 =
     (0, [],
      [OD (Some high_after_low) (Some (LDr D NoValue ''value'')) ''value'' False],
      ''LD D,n'', (Some 2))"

definition ins_17 :: entry where
  "ins_17 =
     (0, [RL (Some A) ''value''],
      [],
      ''RLA'', (Some 1))"

definition ins_18 :: entry where
  "ins_18 =
     (0, [],
      [OD (Some high_after_low) None ''value'' True, IO 5 True NoTransform (Some (JR NoValue ''value'')) ''value''],
      ''JR n'', (Some 2))"

definition ins_19 :: entry where
  "ins_19 =
     (0, [force_flag Flag_H (Callable (Lambda1 (IfExp (Gt (Add (Add (BitAnd (Reg D) (Const 0xF)) (BitAnd (Reg H) (Const 0xF))) (RShift (Add (Reg E) (Reg L)) (Const 8))) (Const 0xF)) (Const 1) (Const 0)))), set_flags ''--5-3-0C'' (Some ''value'') None (Callable (Lambda1 (Add (Add (Reg D) (Reg H)) (RShift (Add (Reg E) (Reg L)) (Const 8))))) None, LDr HL (Callable (Lambda1 (BitAnd (Add (Reg HL) (Reg DE)) (Const 0xFFFF)))) ''value''],
      [IO 4 True NoTransform None ''value'', IO 3 True NoTransform None ''value''],
      ''ADD HL,DE'', (Some 1))"

definition ins_1B :: entry where
  "ins_1B =
     (0, [LDr DE (Callable (Lambda1 (BitAnd (Sub (Reg DE) (Const 1)) (Const 0xFFFF)))) ''value''],
      [],
      ''DEC DE'', (Some 1))"

definition ins_1A :: entry where
  "ins_1A =
     (0, [],
      [MR None (Some DE) (Some high_after_low) (Some (LDr A NoValue ''value'')) True],
      ''LD A,(DE)'', (Some 1))"

definition ins_1C :: entry where
  "ins_1C =
     (0, [force_flag Flag_H (Callable (Lambda1 (IfExp (Gt (Add (BitAnd (Reg E) (Const 0xF)) (Const 1)) (Const 0xF)) (Const 1) (Const 0)))), set_flags ''SZ5-3V0-'' (Some ''value'') None (Callable (Lambda1 (Add (Reg E) (Const 1)))) None, LDr E NoValue ''value''],
      [],
      ''INC E'', (Some 1))"

definition ins_1D :: entry where
  "ins_1D =
     (0, [force_flag Flag_H (Callable (Lambda1 (IfExp (Lt (Sub (BitAnd (Reg E) (Const 0xF)) (Const 1)) (Const 0x0)) (Const 1) (Const 0)))), set_flags ''SZ5H3V1-'' (Some ''value'') None (Callable (Lambda1 (Sub (Reg E) (Const 1)))) None, LDr E NoValue ''value''],
      [],
      ''DEC E'', (Some 1))"

definition ins_1E :: entry where
  "ins_1E =
     (0, [],
      [OD (Some high_after_low) (Some (LDr E NoValue ''value'')) ''value'' False],
      ''LD E,n'', (Some 2))"

definition ins_1F :: entry where
  "ins_1F =
     (0, [RR (Some A) ''value''],
      [],
      ''RRA'', (Some 1))"

definition ins_20 :: entry where
  "ins_20 =
     (0, [],
      [OD (Some high_after_low) (Some (do_each [RRr ''value'' None NoValue, on_flag Flag_Z (early_abort)])) ''value'' True, IO 5 True NoTransform (Some (JR NoValue ''value'')) ''value''],
      ''JR NZ,n'', (Some 2))"

definition ins_21 :: entry where
  "ins_21 =
     (0, [],
      [OD (Some high_after_low) None ''value'' False, OD (Some high_after_low) (Some (LDr HL NoValue ''value'')) ''value'' False],
      ''LD HL,nn'', (Some 3))"

definition ins_22 :: entry where
  "ins_22 =
     (0, [],
      [OD (Some high_after_low) None ''address'' False, OD (Some high_after_low) None ''address'' False, MW None None NoValue (Some L) None 0, MW None None NoValue (Some H) None 0],
      ''LD (nn),HL'', (Some 3))"

definition ins_23 :: entry where
  "ins_23 =
     (0, [LDr HL (Callable (Lambda1 (BitAnd (Add (Reg HL) (Const 1)) (Const 0xFFFF)))) ''value''],
      [],
      ''INC HL'', (Some 1))"

definition ins_24 :: entry where
  "ins_24 =
     (0, [force_flag Flag_H (Callable (Lambda1 (IfExp (Gt (Add (BitAnd (Reg H) (Const 0xF)) (Const 1)) (Const 0xF)) (Const 1) (Const 0)))), set_flags ''SZ5-3V0-'' (Some ''value'') None (Callable (Lambda1 (Add (Reg H) (Const 1)))) None, LDr H NoValue ''value''],
      [],
      ''INC H'', (Some 1))"

definition ins_25 :: entry where
  "ins_25 =
     (0, [force_flag Flag_H (Callable (Lambda1 (IfExp (Lt (Sub (BitAnd (Reg H) (Const 0xF)) (Const 1)) (Const 0x0)) (Const 1) (Const 0)))), set_flags ''SZ5H3V1-'' (Some ''value'') None (Callable (Lambda1 (Sub (Reg H) (Const 1)))) None, LDr H NoValue ''value''],
      [],
      ''DEC H'', (Some 1))"

definition ins_26 :: entry where
  "ins_26 =
     (0, [],
      [OD (Some high_after_low) (Some (LDr H NoValue ''value'')) ''value'' False],
      ''LD H,n'', (Some 2))"

definition ins_27 :: entry where
  "ins_27 =
     (0, [daa],
      [],
      ''DAA'', (Some 2))"

definition ins_28 :: entry where
  "ins_28 =
     (0, [],
      [OD (Some high_after_low) (Some (do_each [RRr ''value'' None NoValue, unless_flag Flag_Z (early_abort)])) ''value'' True, IO 5 True NoTransform (Some (JR NoValue ''value'')) ''value''],
      ''JR Z,n'', (Some 2))"

definition ins_29 :: entry where
  "ins_29 =
     (0, [force_flag Flag_H (Callable (Lambda1 (IfExp (Gt (Add (Add (BitAnd (Reg H) (Const 0xF)) (BitAnd (Reg H) (Const 0xF))) (RShift (Add (Reg L) (Reg L)) (Const 8))) (Const 0xF)) (Const 1) (Const 0)))), set_flags ''--5-3-0C'' (Some ''value'') None (Callable (Lambda1 (Add (Add (Reg H) (Reg H)) (RShift (Add (Reg L) (Reg L)) (Const 8))))) None, LDr HL (Callable (Lambda1 (BitAnd (Add (Reg HL) (Reg HL)) (Const 0xFFFF)))) ''value''],
      [IO 4 True NoTransform None ''value'', IO 3 True NoTransform None ''value''],
      ''ADD HL,HL'', (Some 1))"

definition ins_2A :: entry where
  "ins_2A =
     (0, [],
      [OD (Some high_after_low) None ''address'' False, OD (Some high_after_low) None ''address'' False, MR None None (Some high_after_low) (Some (LDr L NoValue ''value'')) True, MR None None (Some high_after_low) (Some (LDr H NoValue ''value'')) True],
      ''LD HL,(nn)'', (Some 3))"

definition ins_2B :: entry where
  "ins_2B =
     (0, [LDr HL (Callable (Lambda1 (BitAnd (Sub (Reg HL) (Const 1)) (Const 0xFFFF)))) ''value''],
      [],
      ''DEC HL'', (Some 1))"

definition ins_2C :: entry where
  "ins_2C =
     (0, [force_flag Flag_H (Callable (Lambda1 (IfExp (Gt (Add (BitAnd (Reg L) (Const 0xF)) (Const 1)) (Const 0xF)) (Const 1) (Const 0)))), set_flags ''SZ5-3V0-'' (Some ''value'') None (Callable (Lambda1 (Add (Reg L) (Const 1)))) None, LDr L NoValue ''value''],
      [],
      ''INC L'', (Some 1))"

definition ins_2D :: entry where
  "ins_2D =
     (0, [force_flag Flag_H (Callable (Lambda1 (IfExp (Lt (Sub (BitAnd (Reg L) (Const 0xF)) (Const 1)) (Const 0x0)) (Const 1) (Const 0)))), set_flags ''SZ5H3V1-'' (Some ''value'') None (Callable (Lambda1 (Sub (Reg L) (Const 1)))) None, LDr L NoValue ''value''],
      [],
      ''DEC L'', (Some 1))"

definition ins_2E :: entry where
  "ins_2E =
     (0, [],
      [OD (Some high_after_low) (Some (LDr L NoValue ''value'')) ''value'' False],
      ''LD L,n'', None)"

definition ins_2F :: entry where
  "ins_2F =
     (0, [set_flags ''--*1*-1-'' (Some ''value'') (Some A) NoValue None, LDr A (Callable (Lambda1 (BitAnd (Invert (Reg A)) (Const 0xFF)))) ''value''],
      [],
      ''CPL'', (Some 1))"

definition ins_30 :: entry where
  "ins_30 =
     (0, [],
      [OD (Some high_after_low) (Some (do_each [RRr ''value'' None NoValue, on_flag Flag_C (early_abort)])) ''value'' True, IO 5 True NoTransform (Some (JR NoValue ''value'')) ''value''],
      ''JR NC,n'', (Some 2))"

definition ins_31 :: entry where
  "ins_31 =
     (0, [],
      [OD (Some high_after_low) None ''value'' False, OD (Some high_after_low) (Some (LDr SP NoValue ''value'')) ''value'' False],
      ''LD SP,nn'', (Some 3))"

definition ins_32 :: entry where
  "ins_32 =
     (0, [],
      [OD (Some high_after_low) None ''address'' False, OD (Some high_after_low) None ''address'' False, MW None None NoValue (Some A) None 0],
      ''LD (nn),A'', (Some 3))"

definition ins_33 :: entry where
  "ins_33 =
     (0, [LDr SP (Callable (Lambda1 (BitAnd (Add (Reg SP) (Const 1)) (Const 0xFFFF)))) ''value''],
      [],
      ''INC SP'', (Some 1))"

definition ins_34 :: entry where
  "ins_34 =
     (0, [],
      [MR None (Some HL) (Some high_after_low) (Some (do_each [force_flag Flag_H (Callable (Lambda2 (IfExp (Gt (Add (BitAnd (Arg) (Const 0xF)) (Const 1)) (Const 0xF)) (Const 1) (Const 0)))), set_flags ''SZ5-3V0-'' (Some ''value'') None (Callable (Lambda2 (Add (Arg) (Const 1)))) None])) True, MW None (Some HL) NoValue None None 0],
      ''INC (HL)'', (Some 1))"

definition ins_35 :: entry where
  "ins_35 =
     (0, [],
      [MR None (Some HL) (Some high_after_low) (Some (do_each [force_flag Flag_H (Callable (Lambda2 (IfExp (Lt (Sub (BitAnd (Arg) (Const 0xF)) (Const 1)) (Const 0x0)) (Const 1) (Const 0)))), set_flags ''SZ5H3V1-'' (Some ''value'') None (Callable (Lambda2 (Sub (Arg) (Const 1)))) None])) True, MW None (Some HL) NoValue None None 0],
      ''DEC (HL)'', (Some 1))"

definition ins_36 :: entry where
  "ins_36 =
     (0, [],
      [OD (Some high_after_low) None ''value'' False, MW None (Some HL) NoValue None None 0],
      ''LD (HL),n'', (Some 2))"

definition ins_37 :: entry where
  "ins_37 =
     (0, [LDr F (Callable (Lambda1 (BitOr (BitOr (BitAnd (Reg F) (Const 0xC4)) (BitAnd (Reg A) (Const 0x28))) (Const 0x01)))) ''value''],
      [],
      ''SCF'', (Some 1))"

definition ins_38 :: entry where
  "ins_38 =
     (0, [],
      [OD (Some high_after_low) (Some (do_each [RRr ''value'' None NoValue, unless_flag Flag_C (early_abort)])) ''value'' True, IO 5 True NoTransform (Some (JR NoValue ''value'')) ''value''],
      ''JR C,n'', (Some 2))"

definition ins_39 :: entry where
  "ins_39 =
     (0, [force_flag Flag_H (Callable (Lambda1 (IfExp (Gt (Add (Add (BitAnd (Reg SPH) (Const 0xF)) (BitAnd (Reg H) (Const 0xF))) (RShift (Add (Reg SPL) (Reg L)) (Const 8))) (Const 0xF)) (Const 1) (Const 0)))), set_flags ''--5-3-0C'' (Some ''value'') None (Callable (Lambda1 (Add (Add (Reg SPH) (Reg H)) (RShift (Add (Reg SPL) (Reg L)) (Const 8))))) None, LDr HL (Callable (Lambda1 (BitAnd (Add (Reg SP) (Reg HL)) (Const 0xFFFF)))) ''value''],
      [IO 4 True NoTransform None ''value'', IO 3 True NoTransform None ''value''],
      ''ADD HL,SP'', (Some 1))"

definition ins_3B :: entry where
  "ins_3B =
     (0, [LDr SP (Callable (Lambda1 (BitAnd (Sub (Reg SP) (Const 1)) (Const 0xFFFF)))) ''value''],
      [],
      ''DEC SP'', (Some 1))"

definition ins_3C :: entry where
  "ins_3C =
     (0, [force_flag Flag_H (Callable (Lambda1 (IfExp (Gt (Add (BitAnd (Reg A) (Const 0xF)) (Const 1)) (Const 0xF)) (Const 1) (Const 0)))), set_flags ''SZ5-3V0-'' (Some ''value'') None (Callable (Lambda1 (Add (Reg A) (Const 1)))) None, LDr A NoValue ''value''],
      [],
      ''INC A'', (Some 1))"

definition ins_3D :: entry where
  "ins_3D =
     (0, [force_flag Flag_H (Callable (Lambda1 (IfExp (Lt (Sub (BitAnd (Reg A) (Const 0xF)) (Const 1)) (Const 0x0)) (Const 1) (Const 0)))), set_flags ''SZ5H3V1-'' (Some ''value'') None (Callable (Lambda1 (Sub (Reg A) (Const 1)))) None, LDr A NoValue ''value''],
      [],
      ''DEC A'', (Some 1))"

definition ins_3A :: entry where
  "ins_3A =
     (0, [],
      [OD (Some high_after_low) None ''address'' False, OD (Some high_after_low) None ''address'' False, MR None None (Some high_after_low) (Some (LDr A NoValue ''value'')) True],
      ''LD A,(nn)'', (Some 3))"

definition ins_3E :: entry where
  "ins_3E =
     (0, [],
      [OD (Some high_after_low) (Some (LDr A NoValue ''value'')) ''value'' False],
      ''LD A,n'', (Some 2))"

definition ins_3F :: entry where
  "ins_3F =
     (0, [LDr F (Callable (Lambda1 (BitOr (BitAnd (Reg F) (Const 0xEC)) (BitAnd (Invert (Reg F)) (Const 0x11))))) ''value''],
      [],
      ''CCF'', (Some 1))"

definition ins_40 :: entry where
  "ins_40 =
     (0, [LDrs B B],
      [],
      ''LD B,B'', (Some 1))"

definition ins_41 :: entry where
  "ins_41 =
     (0, [LDrs B C],
      [],
      ''LD B,C'', (Some 1))"

definition ins_42 :: entry where
  "ins_42 =
     (0, [LDrs B D],
      [],
      ''LD B,D'', (Some 1))"

definition ins_43 :: entry where
  "ins_43 =
     (0, [LDrs B E],
      [],
      ''LD B,E'', (Some 1))"

definition ins_44 :: entry where
  "ins_44 =
     (0, [LDrs B H],
      [],
      ''LD B,H'', (Some 1))"

definition ins_45 :: entry where
  "ins_45 =
     (0, [LDrs B L],
      [],
      ''LD B,L'', (Some 1))"

definition ins_46 :: entry where
  "ins_46 =
     (0, [],
      [MR None (Some HL) (Some high_after_low) (Some (LDr B NoValue ''value'')) True],
      ''LD B,(HL)'', (Some 1))"

definition ins_47 :: entry where
  "ins_47 =
     (0, [LDrs B A],
      [],
      ''LD B,A'', (Some 1))"

definition ins_48 :: entry where
  "ins_48 =
     (0, [LDrs C B],
      [],
      ''LD C,B'', (Some 1))"

definition ins_49 :: entry where
  "ins_49 =
     (0, [LDrs C C],
      [],
      ''LD C,C'', (Some 1))"

definition ins_4A :: entry where
  "ins_4A =
     (0, [LDrs C D],
      [],
      ''LD C,D'', (Some 1))"

definition ins_4B :: entry where
  "ins_4B =
     (0, [LDrs C E],
      [],
      ''LD C,E'', (Some 1))"

definition ins_4C :: entry where
  "ins_4C =
     (0, [LDrs C H],
      [],
      ''LD C,H'', (Some 1))"

definition ins_4D :: entry where
  "ins_4D =
     (0, [LDrs C L],
      [],
      ''LD C,L'', (Some 1))"

definition ins_4E :: entry where
  "ins_4E =
     (0, [],
      [MR None (Some HL) (Some high_after_low) (Some (LDr C NoValue ''value'')) True],
      ''LD C,(HL)'', (Some 1))"

definition ins_4F :: entry where
  "ins_4F =
     (0, [LDrs C A],
      [],
      ''LD C,A'', (Some 1))"

definition ins_50 :: entry where
  "ins_50 =
     (0, [LDrs D B],
      [],
      ''LD D,B'', (Some 1))"

definition ins_51 :: entry where
  "ins_51 =
     (0, [LDrs D C],
      [],
      ''LD D,C'', (Some 1))"

definition ins_52 :: entry where
  "ins_52 =
     (0, [LDrs D D],
      [],
      ''LD D,D'', (Some 1))"

definition ins_53 :: entry where
  "ins_53 =
     (0, [LDrs D E],
      [],
      ''LD D,E'', (Some 1))"

definition ins_54 :: entry where
  "ins_54 =
     (0, [LDrs D H],
      [],
      ''LD D,H'', (Some 1))"

definition ins_55 :: entry where
  "ins_55 =
     (0, [LDrs D L],
      [],
      ''LD D,L'', (Some 1))"

definition ins_56 :: entry where
  "ins_56 =
     (0, [],
      [MR None (Some HL) (Some high_after_low) (Some (LDr D NoValue ''value'')) True],
      ''LD D,(HL)'', (Some 1))"

definition ins_57 :: entry where
  "ins_57 =
     (0, [LDrs D A],
      [],
      ''LD D,A'', (Some 1))"

definition ins_58 :: entry where
  "ins_58 =
     (0, [LDrs E B],
      [],
      ''LD E,B'', (Some 1))"

definition ins_59 :: entry where
  "ins_59 =
     (0, [LDrs E C],
      [],
      ''LD E,C'', (Some 1))"

definition ins_5A :: entry where
  "ins_5A =
     (0, [LDrs E D],
      [],
      ''LD E,D'', (Some 1))"

definition ins_5B :: entry where
  "ins_5B =
     (0, [LDrs E E],
      [],
      ''LD E,E'', (Some 1))"

definition ins_5C :: entry where
  "ins_5C =
     (0, [LDrs E H],
      [],
      ''LD E,H'', (Some 1))"

definition ins_5D :: entry where
  "ins_5D =
     (0, [LDrs E L],
      [],
      ''LD E,L'', (Some 1))"

definition ins_5E :: entry where
  "ins_5E =
     (0, [],
      [MR None (Some HL) (Some high_after_low) (Some (LDr E NoValue ''value'')) True],
      ''LD E,(HL)'', (Some 1))"

definition ins_5F :: entry where
  "ins_5F =
     (0, [LDrs E A],
      [],
      ''LD E,A'', (Some 1))"

definition ins_60 :: entry where
  "ins_60 =
     (0, [LDrs H B],
      [],
      ''LD H,B'', (Some 1))"

definition ins_61 :: entry where
  "ins_61 =
     (0, [LDrs H C],
      [],
      ''LD H,C'', (Some 1))"

definition ins_62 :: entry where
  "ins_62 =
     (0, [LDrs H D],
      [],
      ''LD H,D'', (Some 1))"

definition ins_63 :: entry where
  "ins_63 =
     (0, [LDrs H E],
      [],
      ''LD H,E'', (Some 1))"

definition ins_64 :: entry where
  "ins_64 =
     (0, [LDrs H H],
      [],
      ''LD H,H'', (Some 1))"

definition ins_65 :: entry where
  "ins_65 =
     (0, [LDrs H L],
      [],
      ''LD H,L'', (Some 1))"

definition ins_66 :: entry where
  "ins_66 =
     (0, [],
      [MR None (Some HL) (Some high_after_low) (Some (LDr H NoValue ''value'')) True],
      ''LD H,(HL)'', (Some 1))"

definition ins_67 :: entry where
  "ins_67 =
     (0, [LDrs H A],
      [],
      ''LD H,A'', (Some 1))"

definition ins_68 :: entry where
  "ins_68 =
     (0, [LDrs L B],
      [],
      ''LD L,B'', (Some 1))"

definition ins_69 :: entry where
  "ins_69 =
     (0, [LDrs L C],
      [],
      ''LD L,C'', (Some 1))"

definition ins_6A :: entry where
  "ins_6A =
     (0, [LDrs L D],
      [],
      ''LD L,D'', (Some 1))"

definition ins_6B :: entry where
  "ins_6B =
     (0, [LDrs L E],
      [],
      ''LD L,E'', (Some 1))"

definition ins_6C :: entry where
  "ins_6C =
     (0, [LDrs L H],
      [],
      ''LD L,H'', (Some 1))"

definition ins_6D :: entry where
  "ins_6D =
     (0, [LDrs L L],
      [],
      ''LD L,L'', (Some 1))"

definition ins_6E :: entry where
  "ins_6E =
     (0, [],
      [MR None (Some HL) (Some high_after_low) (Some (LDr L NoValue ''value'')) True],
      ''LD L,(HL)'', (Some 1))"

definition ins_6F :: entry where
  "ins_6F =
     (0, [LDrs L A],
      [],
      ''LD L,A'', (Some 1))"

definition ins_70 :: entry where
  "ins_70 =
     (0, [],
      [MW None (Some HL) NoValue (Some B) None 0],
      ''LD (HL),B'', (Some 1))"

definition ins_71 :: entry where
  "ins_71 =
     (0, [],
      [MW None (Some HL) NoValue (Some C) None 0],
      ''LD (HL),C'', (Some 1))"

definition ins_72 :: entry where
  "ins_72 =
     (0, [],
      [MW None (Some HL) NoValue (Some D) None 0],
      ''LD (HL),D'', (Some 1))"

definition ins_73 :: entry where
  "ins_73 =
     (0, [],
      [MW None (Some HL) NoValue (Some E) None 0],
      ''LD (HL),E'', (Some 1))"

definition ins_74 :: entry where
  "ins_74 =
     (0, [],
      [MW None (Some HL) NoValue (Some H) None 0],
      ''LD (HL),H'', (Some 1))"

definition ins_75 :: entry where
  "ins_75 =
     (0, [],
      [MW None (Some HL) NoValue (Some L) None 0],
      ''LD (HL),L'', (Some 1))"

definition ins_76 :: entry where
  "ins_76 =
     (0, [on_condition (Lambda1 (Not (IntLatch))) (dec PC)],
      [],
      ''HALT'', (Some 1))"

definition ins_77 :: entry where
  "ins_77 =
     (0, [],
      [MW None (Some HL) NoValue (Some A) None 0],
      ''LD (HL),A'', (Some 1))"

definition ins_78 :: entry where
  "ins_78 =
     (0, [LDrs A B],
      [],
      ''LD A,B'', (Some 1))"

definition ins_79 :: entry where
  "ins_79 =
     (0, [LDrs A C],
      [],
      ''LD A,C'', (Some 1))"

definition ins_7A :: entry where
  "ins_7A =
     (0, [LDrs A D],
      [],
      ''LD A,D'', (Some 1))"

definition ins_7B :: entry where
  "ins_7B =
     (0, [LDrs A E],
      [],
      ''LD A,E'', (Some 1))"

definition ins_7C :: entry where
  "ins_7C =
     (0, [LDrs A H],
      [],
      ''LD A,H'', (Some 1))"

definition ins_7D :: entry where
  "ins_7D =
     (0, [LDrs A L],
      [],
      ''LD A,L'', (Some 1))"

definition ins_7E :: entry where
  "ins_7E =
     (0, [],
      [MR None (Some HL) (Some high_after_low) (Some (LDr A NoValue ''value'')) True],
      ''LD A, (HL)'', (Some 1))"

definition ins_7F :: entry where
  "ins_7F =
     (0, [LDrs A A],
      [],
      ''LD A,A'', (Some 1))"

definition ins_80 :: entry where
  "ins_80 =
     (0, [force_flag Flag_H (Callable (Lambda1 (IfExp (Gt (Add (BitAnd (Reg A) (Const 0xF)) (BitAnd (Reg B) (Const 0xF))) (Const 0xF)) (Const 1) (Const 0)))), set_flags ''SZ5-3V0C'' (Some ''value'') None (Callable (Lambda1 (Add (Reg A) (Reg B)))) None, LDr A NoValue ''value''],
      [],
      ''ADD B'', (Some 1))"

definition ins_81 :: entry where
  "ins_81 =
     (0, [force_flag Flag_H (Callable (Lambda1 (IfExp (Gt (Add (BitAnd (Reg A) (Const 0xF)) (BitAnd (Reg C) (Const 0xF))) (Const 0xF)) (Const 1) (Const 0)))), set_flags ''SZ5H3V0C'' (Some ''value'') None (Callable (Lambda1 (Add (Reg A) (Reg C)))) None, LDr A NoValue ''value''],
      [],
      ''ADD C'', (Some 1))"

definition ins_82 :: entry where
  "ins_82 =
     (0, [force_flag Flag_H (Callable (Lambda1 (IfExp (Gt (Add (BitAnd (Reg A) (Const 0xF)) (BitAnd (Reg D) (Const 0xF))) (Const 0xF)) (Const 1) (Const 0)))), set_flags ''SZ5H3V0C'' (Some ''value'') None (Callable (Lambda1 (Add (Reg A) (Reg D)))) None, LDr A NoValue ''value''],
      [],
      ''ADD D'', (Some 1))"

definition ins_83 :: entry where
  "ins_83 =
     (0, [force_flag Flag_H (Callable (Lambda1 (IfExp (Gt (Add (BitAnd (Reg A) (Const 0xF)) (BitAnd (Reg E) (Const 0xF))) (Const 0xF)) (Const 1) (Const 0)))), set_flags ''SZ5H3V0C'' (Some ''value'') None (Callable (Lambda1 (Add (Reg A) (Reg E)))) None, LDr A NoValue ''value''],
      [],
      ''ADD E'', (Some 1))"

definition ins_84 :: entry where
  "ins_84 =
     (0, [force_flag Flag_H (Callable (Lambda1 (IfExp (Gt (Add (BitAnd (Reg A) (Const 0xF)) (BitAnd (Reg H) (Const 0xF))) (Const 0xF)) (Const 1) (Const 0)))), set_flags ''SZ5H3V0C'' (Some ''value'') None (Callable (Lambda1 (Add (Reg A) (Reg H)))) None, LDr A NoValue ''value''],
      [],
      ''ADD H'', (Some 1))"

definition ins_85 :: entry where
  "ins_85 =
     (0, [force_flag Flag_H (Callable (Lambda1 (IfExp (Gt (Add (BitAnd (Reg A) (Const 0xF)) (BitAnd (Reg L) (Const 0xF))) (Const 0xF)) (Const 1) (Const 0)))), set_flags ''SZ5H3V0C'' (Some ''value'') None (Callable (Lambda1 (Add (Reg A) (Reg L)))) None, LDr A NoValue ''value''],
      [],
      ''ADD L'', (Some 1))"

definition ins_86 :: entry where
  "ins_86 =
     (0, [],
      [MR None (Some HL) (Some high_after_low) (Some (do_each [force_flag Flag_H (Callable (Lambda2 (IfExp (Gt (Add (BitAnd (Reg A) (Const 0xF)) (BitAnd (Arg) (Const 0xF))) (Const 0xF)) (Const 1) (Const 0)))), set_flags ''SZ5H3V0C'' (Some ''value'') None (Callable (Lambda2 (Add (Reg A) (Arg)))) (Some A)])) True],
      ''ADD (HL)'', (Some 1))"

definition ins_87 :: entry where
  "ins_87 =
     (0, [force_flag Flag_H (Callable (Lambda1 (IfExp (Gt (Add (BitAnd (Reg A) (Const 0xF)) (BitAnd (Reg A) (Const 0xF))) (Const 0xF)) (Const 1) (Const 0)))), set_flags ''SZ5H3V0C'' (Some ''value'') None (Callable (Lambda1 (Add (Reg A) (Reg A)))) None, LDr A NoValue ''value''],
      [],
      ''ADD A'', (Some 1))"

definition ins_88 :: entry where
  "ins_88 =
     (0, [force_flag Flag_H (Callable (Lambda1 (IfExp (Gt (Add (Add (BitAnd (Reg A) (Const 0xF)) (BitAnd (Reg B) (Const 0xF))) (GetFlag Flag_C)) (Const 0xF)) (Const 1) (Const 0)))), set_flags ''SZ5H3V0C'' (Some ''value'') None (Callable (Lambda1 (Add (Add (Reg A) (Reg B)) (GetFlag Flag_C)))) None, LDr A NoValue ''value''],
      [],
      ''ADC B'', (Some 1))"

definition ins_89 :: entry where
  "ins_89 =
     (0, [force_flag Flag_H (Callable (Lambda1 (IfExp (Gt (Add (Add (BitAnd (Reg A) (Const 0xF)) (BitAnd (Reg C) (Const 0xF))) (GetFlag Flag_C)) (Const 0xF)) (Const 1) (Const 0)))), set_flags ''SZ5H3V0C'' (Some ''value'') None (Callable (Lambda1 (Add (Add (Reg A) (Reg C)) (GetFlag Flag_C)))) None, LDr A NoValue ''value''],
      [],
      ''ADC C'', (Some 1))"

definition ins_8A :: entry where
  "ins_8A =
     (0, [force_flag Flag_H (Callable (Lambda1 (IfExp (Gt (Add (Add (BitAnd (Reg A) (Const 0xF)) (BitAnd (Reg D) (Const 0xF))) (GetFlag Flag_C)) (Const 0xF)) (Const 1) (Const 0)))), set_flags ''SZ5H3V0C'' (Some ''value'') None (Callable (Lambda1 (Add (Add (Reg A) (Reg D)) (GetFlag Flag_C)))) None, LDr A NoValue ''value''],
      [],
      ''ADC D'', (Some 1))"

definition ins_8B :: entry where
  "ins_8B =
     (0, [force_flag Flag_H (Callable (Lambda1 (IfExp (Gt (Add (Add (BitAnd (Reg A) (Const 0xF)) (BitAnd (Reg E) (Const 0xF))) (GetFlag Flag_C)) (Const 0xF)) (Const 1) (Const 0)))), set_flags ''SZ5H3V0C'' (Some ''value'') None (Callable (Lambda1 (Add (Add (Reg A) (Reg E)) (GetFlag Flag_C)))) None, LDr A NoValue ''value''],
      [],
      ''ADC E'', (Some 1))"

definition ins_8C :: entry where
  "ins_8C =
     (0, [force_flag Flag_H (Callable (Lambda1 (IfExp (Gt (Add (Add (BitAnd (Reg A) (Const 0xF)) (BitAnd (Reg H) (Const 0xF))) (GetFlag Flag_C)) (Const 0xF)) (Const 1) (Const 0)))), set_flags ''SZ5H3V0C'' (Some ''value'') None (Callable (Lambda1 (Add (Add (Reg A) (Reg H)) (GetFlag Flag_C)))) None, LDr A NoValue ''value''],
      [],
      ''ADC H'', (Some 1))"

definition ins_8D :: entry where
  "ins_8D =
     (0, [force_flag Flag_H (Callable (Lambda1 (IfExp (Gt (Add (Add (BitAnd (Reg A) (Const 0xF)) (BitAnd (Reg L) (Const 0xF))) (GetFlag Flag_C)) (Const 0xF)) (Const 1) (Const 0)))), set_flags ''SZ5H3V0C'' (Some ''value'') None (Callable (Lambda1 (Add (Add (Reg A) (Reg L)) (GetFlag Flag_C)))) None, LDr A NoValue ''value''],
      [],
      ''ADC L'', (Some 1))"

definition ins_8E :: entry where
  "ins_8E =
     (0, [],
      [MR None (Some HL) (Some high_after_low) (Some (do_each [force_flag Flag_H (Callable (Lambda2 (IfExp (Gt (Add (Add (BitAnd (Reg A) (Const 0xF)) (BitAnd (Arg) (Const 0xF))) (GetFlag Flag_C)) (Const 0xF)) (Const 1) (Const 0)))), set_flags ''SZ5H3V0C'' (Some ''value'') None (Callable (Lambda2 (Add (Add (Reg A) (Arg)) (GetFlag Flag_C)))) (Some A)])) True],
      ''ADC (HL)'', (Some 1))"

definition ins_8F :: entry where
  "ins_8F =
     (0, [force_flag Flag_H (Callable (Lambda1 (IfExp (Gt (Add (Add (BitAnd (Reg A) (Const 0xF)) (BitAnd (Reg A) (Const 0xF))) (GetFlag Flag_C)) (Const 0xF)) (Const 1) (Const 0)))), set_flags ''SZ5H3V0C'' (Some ''value'') None (Callable (Lambda1 (Add (Add (Reg A) (Reg A)) (GetFlag Flag_C)))) None, LDr A NoValue ''value''],
      [],
      ''ADC A'', (Some 1))"

definition ins_90 :: entry where
  "ins_90 =
     (0, [force_flag Flag_H (Callable (Lambda1 (IfExp (Lt (Sub (BitAnd (Reg A) (Const 0xF)) (BitAnd (Reg B) (Const 0xF))) (Const 0x0)) (Const 1) (Const 0)))), set_flags ''SZ5H3V1C'' (Some ''value'') None (Callable (Lambda1 (Sub (Reg A) (Reg B)))) None, LDr A NoValue ''value''],
      [],
      ''SUB B'', (Some 1))"

definition ins_91 :: entry where
  "ins_91 =
     (0, [force_flag Flag_H (Callable (Lambda1 (IfExp (Lt (Sub (BitAnd (Reg A) (Const 0xF)) (BitAnd (Reg C) (Const 0xF))) (Const 0x0)) (Const 1) (Const 0)))), set_flags ''SZ5H3V1C'' (Some ''value'') None (Callable (Lambda1 (Sub (Reg A) (Reg C)))) None, LDr A NoValue ''value''],
      [],
      ''SUB C'', (Some 1))"

definition ins_92 :: entry where
  "ins_92 =
     (0, [force_flag Flag_H (Callable (Lambda1 (IfExp (Lt (Sub (BitAnd (Reg A) (Const 0xF)) (BitAnd (Reg D) (Const 0xF))) (Const 0x0)) (Const 1) (Const 0)))), set_flags ''SZ5H3V1C'' (Some ''value'') None (Callable (Lambda1 (Sub (Reg A) (Reg D)))) None, LDr A NoValue ''value''],
      [],
      ''SUB D'', (Some 1))"

definition ins_93 :: entry where
  "ins_93 =
     (0, [force_flag Flag_H (Callable (Lambda1 (IfExp (Lt (Sub (BitAnd (Reg A) (Const 0xF)) (BitAnd (Reg E) (Const 0xF))) (Const 0x0)) (Const 1) (Const 0)))), set_flags ''SZ5H3V1C'' (Some ''value'') None (Callable (Lambda1 (Sub (Reg A) (Reg E)))) None, LDr A NoValue ''value''],
      [],
      ''SUB E'', (Some 1))"

definition ins_94 :: entry where
  "ins_94 =
     (0, [force_flag Flag_H (Callable (Lambda1 (IfExp (Lt (Sub (BitAnd (Reg A) (Const 0xF)) (BitAnd (Reg H) (Const 0xF))) (Const 0x0)) (Const 1) (Const 0)))), set_flags ''SZ5H3V1C'' (Some ''value'') None (Callable (Lambda1 (Sub (Reg A) (Reg H)))) None, LDr A NoValue ''value''],
      [],
      ''SUB H'', (Some 1))"

definition ins_95 :: entry where
  "ins_95 =
     (0, [force_flag Flag_H (Callable (Lambda1 (IfExp (Lt (Sub (BitAnd (Reg A) (Const 0xF)) (BitAnd (Reg L) (Const 0xF))) (Const 0x0)) (Const 1) (Const 0)))), set_flags ''SZ5H3V1C'' (Some ''value'') None (Callable (Lambda1 (Sub (Reg A) (Reg L)))) None, LDr A NoValue ''value''],
      [],
      ''SUB L'', (Some 1))"

definition ins_96 :: entry where
  "ins_96 =
     (0, [],
      [MR None (Some HL) (Some high_after_low) (Some (do_each [force_flag Flag_H (Callable (Lambda2 (IfExp (Lt (Sub (BitAnd (Reg A) (Const 0xF)) (BitAnd (Arg) (Const 0xF))) (Const 0x0)) (Const 1) (Const 0)))), set_flags ''SZ5H3V1C'' (Some ''value'') None (Callable (Lambda2 (Sub (Reg A) (Arg)))) (Some A)])) True],
      ''SUB (HL)'', None)"

definition ins_97 :: entry where
  "ins_97 =
     (0, [force_flag Flag_H (Callable (Lambda1 (IfExp (Lt (Sub (BitAnd (Reg A) (Const 0xF)) (BitAnd (Reg A) (Const 0xF))) (Const 0x0)) (Const 1) (Const 0)))), set_flags ''SZ5H3V1C'' (Some ''value'') None (Callable (Lambda1 (Sub (Reg A) (Reg A)))) None, LDr A NoValue ''value''],
      [],
      ''SUB A'', (Some 1))"

definition ins_98 :: entry where
  "ins_98 =
     (0, [force_flag Flag_H (Callable (Lambda1 (IfExp (Lt (Sub (Sub (BitAnd (Reg A) (Const 0xF)) (BitAnd (Reg B) (Const 0xF))) (GetFlag Flag_C)) (Const 0x0)) (Const 1) (Const 0)))), set_flags ''SZ5H3V1C'' (Some ''value'') None (Callable (Lambda1 (Sub (Sub (Reg A) (Reg B)) (GetFlag Flag_C)))) None, LDr A NoValue ''value''],
      [],
      ''SBC B'', (Some 1))"

definition ins_99 :: entry where
  "ins_99 =
     (0, [force_flag Flag_H (Callable (Lambda1 (IfExp (Lt (Sub (Sub (BitAnd (Reg A) (Const 0xF)) (BitAnd (Reg C) (Const 0xF))) (GetFlag Flag_C)) (Const 0x0)) (Const 1) (Const 0)))), set_flags ''SZ5H3V1C'' (Some ''value'') None (Callable (Lambda1 (Sub (Sub (Reg A) (Reg C)) (GetFlag Flag_C)))) None, LDr A NoValue ''value''],
      [],
      ''SBC C'', (Some 1))"

definition ins_9A :: entry where
  "ins_9A =
     (0, [force_flag Flag_H (Callable (Lambda1 (IfExp (Lt (Sub (Sub (BitAnd (Reg A) (Const 0xF)) (BitAnd (Reg D) (Const 0xF))) (GetFlag Flag_C)) (Const 0x0)) (Const 1) (Const 0)))), set_flags ''SZ5H3V1C'' (Some ''value'') None (Callable (Lambda1 (Sub (Sub (Reg A) (Reg D)) (GetFlag Flag_C)))) None, LDr A NoValue ''value''],
      [],
      ''SBC D'', (Some 1))"

definition ins_9B :: entry where
  "ins_9B =
     (0, [force_flag Flag_H (Callable (Lambda1 (IfExp (Lt (Sub (Sub (BitAnd (Reg A) (Const 0xF)) (BitAnd (Reg E) (Const 0xF))) (GetFlag Flag_C)) (Const 0x0)) (Const 1) (Const 0)))), set_flags ''SZ5H3V1C'' (Some ''value'') None (Callable (Lambda1 (Sub (Sub (Reg A) (Reg E)) (GetFlag Flag_C)))) None, LDr A NoValue ''value''],
      [],
      ''SBC E'', (Some 1))"

definition ins_9C :: entry where
  "ins_9C =
     (0, [force_flag Flag_H (Callable (Lambda1 (IfExp (Lt (Sub (Sub (BitAnd (Reg A) (Const 0xF)) (BitAnd (Reg H) (Const 0xF))) (GetFlag Flag_C)) (Const 0x0)) (Const 1) (Const 0)))), set_flags ''SZ5H3V1C'' (Some ''value'') None (Callable (Lambda1 (Sub (Sub (Reg A) (Reg H)) (GetFlag Flag_C)))) None, LDr A NoValue ''value''],
      [],
      ''SBC H'', (Some 1))"

definition ins_9D :: entry where
  "ins_9D =
     (0, [force_flag Flag_H (Callable (Lambda1 (IfExp (Lt (Sub (Sub (BitAnd (Reg A) (Const 0xF)) (BitAnd (Reg L) (Const 0xF))) (GetFlag Flag_C)) (Const 0x0)) (Const 1) (Const 0)))), set_flags ''SZ5H3V1C'' (Some ''value'') None (Callable (Lambda1 (Sub (Sub (Reg A) (Reg L)) (GetFlag Flag_C)))) None, LDr A NoValue ''value''],
      [],
      ''SBC L'', (Some 1))"

definition ins_9E :: entry where
  "ins_9E =
     (0, [],
      [MR None (Some HL) (Some high_after_low) (Some (do_each [force_flag Flag_H (Callable (Lambda2 (IfExp (Lt (Sub (Sub (BitAnd (Reg A) (Const 0xF)) (BitAnd (Arg) (Const 0xF))) (GetFlag Flag_C)) (Const 0x0)) (Const 1) (Const 0)))), set_flags ''SZ5H3V1C'' (Some ''value'') None (Callable (Lambda2 (Sub (Sub (Reg A) (Arg)) (GetFlag Flag_C)))) (Some A)])) True],
      ''SBC (HL)'', (Some 1))"

definition ins_9F :: entry where
  "ins_9F =
     (0, [force_flag Flag_H (Callable (Lambda1 (IfExp (Lt (Sub (Sub (BitAnd (Reg A) (Const 0xF)) (BitAnd (Reg A) (Const 0xF))) (GetFlag Flag_C)) (Const 0x0)) (Const 1) (Const 0)))), set_flags ''SZ5H3V1C'' (Some ''value'') None (Callable (Lambda1 (Sub (Sub (Reg A) (Reg A)) (GetFlag Flag_C)))) None, LDr A NoValue ''value''],
      [],
      ''SBC A'', (Some 1))"

definition ins_A0 :: entry where
  "ins_A0 =
     (0, [set_flags ''SZ513P00'' (Some ''value'') None (Callable (Lambda1 (BitAnd (Reg A) (Reg B)))) None, LDr A NoValue ''value''],
      [],
      ''AND B'', (Some 1))"

definition ins_A1 :: entry where
  "ins_A1 =
     (0, [set_flags ''SZ513P00'' (Some ''value'') None (Callable (Lambda1 (BitAnd (Reg A) (Reg C)))) None, LDr A NoValue ''value''],
      [],
      ''AND C'', (Some 1))"

definition ins_A2 :: entry where
  "ins_A2 =
     (0, [set_flags ''SZ513P00'' (Some ''value'') None (Callable (Lambda1 (BitAnd (Reg A) (Reg D)))) None, LDr A NoValue ''value''],
      [],
      ''AND D'', (Some 1))"

definition ins_A3 :: entry where
  "ins_A3 =
     (0, [set_flags ''SZ513P00'' (Some ''value'') None (Callable (Lambda1 (BitAnd (Reg A) (Reg E)))) None, LDr A NoValue ''value''],
      [],
      ''AND E'', (Some 1))"

definition ins_A4 :: entry where
  "ins_A4 =
     (0, [set_flags ''SZ513P00'' (Some ''value'') None (Callable (Lambda1 (BitAnd (Reg A) (Reg H)))) None, LDr A NoValue ''value''],
      [],
      ''AND H'', (Some 1))"

definition ins_A5 :: entry where
  "ins_A5 =
     (0, [set_flags ''SZ513P00'' (Some ''value'') None (Callable (Lambda1 (BitAnd (Reg A) (Reg L)))) None, LDr A NoValue ''value''],
      [],
      ''AND L'', (Some 1))"

definition ins_A6 :: entry where
  "ins_A6 =
     (0, [],
      [MR None (Some HL) (Some high_after_low) (Some (set_flags ''SZ513P00'' (Some ''value'') None (Callable (Lambda2 (BitAnd (Reg A) (Arg)))) (Some A))) True],
      ''AND (HL)'', (Some 1))"

definition ins_A7 :: entry where
  "ins_A7 =
     (0, [set_flags ''SZ513P00'' (Some ''value'') None (Callable (Lambda1 (BitAnd (Reg A) (Reg A)))) None, LDr A NoValue ''value''],
      [],
      ''AND A'', (Some 1))"

definition ins_A8 :: entry where
  "ins_A8 =
     (0, [set_flags ''SZ503P00'' (Some ''value'') None (Callable (Lambda1 (BitXor (Reg A) (Reg B)))) None, LDr A NoValue ''value''],
      [],
      ''XOR B'', (Some 1))"

definition ins_A9 :: entry where
  "ins_A9 =
     (0, [set_flags ''SZ503P00'' (Some ''value'') None (Callable (Lambda1 (BitXor (Reg A) (Reg C)))) None, LDr A NoValue ''value''],
      [],
      ''XOR C'', (Some 1))"

definition ins_AA :: entry where
  "ins_AA =
     (0, [set_flags ''SZ503P00'' (Some ''value'') None (Callable (Lambda1 (BitXor (Reg A) (Reg D)))) None, LDr A NoValue ''value''],
      [],
      ''XOR D'', (Some 1))"

definition ins_AB :: entry where
  "ins_AB =
     (0, [set_flags ''SZ503P00'' (Some ''value'') None (Callable (Lambda1 (BitXor (Reg A) (Reg E)))) None, LDr A NoValue ''value''],
      [],
      ''XOR E'', (Some 1))"

definition ins_AC :: entry where
  "ins_AC =
     (0, [set_flags ''SZ503P00'' (Some ''value'') None (Callable (Lambda1 (BitXor (Reg A) (Reg H)))) None, LDr A NoValue ''value''],
      [],
      ''XOR H'', (Some 1))"

definition ins_AD :: entry where
  "ins_AD =
     (0, [set_flags ''SZ503P00'' (Some ''value'') None (Callable (Lambda1 (BitXor (Reg A) (Reg L)))) None, LDr A NoValue ''value''],
      [],
      ''XOR L'', (Some 1))"

definition ins_AE :: entry where
  "ins_AE =
     (0, [],
      [MR None (Some HL) (Some high_after_low) (Some (set_flags ''SZ503P00'' (Some ''value'') None (Callable (Lambda2 (BitXor (Reg A) (Arg)))) (Some A))) True],
      ''XOR (HL)'', (Some 1))"

definition ins_AF :: entry where
  "ins_AF =
     (0, [set_flags ''SZ503P00'' (Some ''value'') None (Callable (Lambda1 (BitXor (Reg A) (Reg A)))) None, LDr A NoValue ''value''],
      [],
      ''XOR A'', (Some 1))"

definition ins_B0 :: entry where
  "ins_B0 =
     (0, [set_flags ''SZ503P00'' (Some ''value'') None (Callable (Lambda1 (BitOr (Reg A) (Reg B)))) None, LDr A NoValue ''value''],
      [],
      ''OR B'', (Some 1))"

definition ins_B1 :: entry where
  "ins_B1 =
     (0, [set_flags ''SZ503P00'' (Some ''value'') None (Callable (Lambda1 (BitOr (Reg A) (Reg C)))) None, LDr A NoValue ''value''],
      [],
      ''OR C'', (Some 1))"

definition ins_B2 :: entry where
  "ins_B2 =
     (0, [set_flags ''SZ503P00'' (Some ''value'') None (Callable (Lambda1 (BitOr (Reg A) (Reg D)))) None, LDr A NoValue ''value''],
      [],
      ''OR D'', (Some 1))"

definition ins_B3 :: entry where
  "ins_B3 =
     (0, [set_flags ''SZ503P00'' (Some ''value'') None (Callable (Lambda1 (BitOr (Reg A) (Reg E)))) None, LDr A NoValue ''value''],
      [],
      ''OR E'', (Some 1))"

definition ins_B4 :: entry where
  "ins_B4 =
     (0, [set_flags ''SZ503P00'' (Some ''value'') None (Callable (Lambda1 (BitOr (Reg A) (Reg H)))) None, LDr A NoValue ''value''],
      [],
      ''OR H'', (Some 1))"

definition ins_B5 :: entry where
  "ins_B5 =
     (0, [set_flags ''SZ503P00'' (Some ''value'') None (Callable (Lambda1 (BitOr (Reg A) (Reg L)))) None, LDr A NoValue ''value''],
      [],
      ''OR L'', (Some 1))"

definition ins_B6 :: entry where
  "ins_B6 =
     (0, [],
      [MR None (Some HL) (Some high_after_low) (Some (set_flags ''SZ503P00'' (Some ''value'') None (Callable (Lambda2 (BitOr (Reg A) (Arg)))) (Some A))) True],
      ''OR (HL)'', (Some 1))"

definition ins_B7 :: entry where
  "ins_B7 =
     (0, [set_flags ''SZ503P00'' (Some ''value'') None (Callable (Lambda1 (BitOr (Reg A) (Reg A)))) None, LDr A NoValue ''value''],
      [],
      ''OR A'', (Some 1))"

definition ins_B8 :: entry where
  "ins_B8 =
     (0, [set_flags ''SZ5H3V1C'' (Some ''value'') None (Callable (Lambda1 (Sub (Reg A) (Reg B)))) None],
      [],
      ''CP B'', (Some 1))"

definition ins_B9 :: entry where
  "ins_B9 =
     (0, [set_flags ''SZ5H3V1C'' (Some ''value'') None (Callable (Lambda1 (Sub (Reg A) (Reg C)))) None],
      [],
      ''CP C'', (Some 1))"

definition ins_BA :: entry where
  "ins_BA =
     (0, [set_flags ''SZ5H3V1C'' (Some ''value'') None (Callable (Lambda1 (Sub (Reg A) (Reg D)))) None],
      [],
      ''CP D'', (Some 1))"

definition ins_BB :: entry where
  "ins_BB =
     (0, [set_flags ''SZ5H3V1C'' (Some ''value'') None (Callable (Lambda1 (Sub (Reg A) (Reg E)))) None],
      [],
      ''CP E'', (Some 1))"

definition ins_BC :: entry where
  "ins_BC =
     (0, [set_flags ''SZ5H3V1C'' (Some ''value'') None (Callable (Lambda1 (Sub (Reg A) (Reg H)))) None],
      [],
      ''CP H'', (Some 1))"

definition ins_BD :: entry where
  "ins_BD =
     (0, [set_flags ''SZ5H3V1C'' (Some ''value'') None (Callable (Lambda1 (Sub (Reg A) (Reg L)))) None],
      [],
      ''CP L'', (Some 1))"

definition ins_BE :: entry where
  "ins_BE =
     (0, [],
      [MR None (Some HL) (Some high_after_low) (Some (set_flags ''SZ5H3V1C'' (Some ''value'') None (Callable (Lambda2 (Sub (Reg A) (Arg)))) None)) True],
      ''CP (HL)'', (Some 1))"

definition ins_BF :: entry where
  "ins_BF =
     (0, [set_flags ''SZ5H3V1C'' (Some ''value'') None (Callable (Lambda1 (Sub (Reg A) (Reg A)))) None],
      [],
      ''CP A'', (Some 1))"

definition ins_C0 :: entry where
  "ins_C0 =
     (1, [on_flag Flag_Z (early_abort)],
      [SR (Some high_after_low) None 0, SR (Some high_after_low) (Some (JP NoValue None None)) 0],
      ''RET NZ'', (Some 1))"

definition ins_C1 :: entry where
  "ins_C1 =
     (0, [],
      [SR (Some high_after_low) None 0, SR (Some high_after_low) (Some (LDr BC NoValue ''value'')) 0],
      ''POP BC'', (Some 1))"

definition ins_C2 :: entry where
  "ins_C2 =
     (0, [],
      [OD (Some high_after_low) None ''value'' False, OD (Some high_after_low) (Some (unless_flag Flag_Z (JP NoValue None None))) ''value'' False],
      ''JP NZ,nn'', (Some 3))"

definition ins_C3 :: entry where
  "ins_C3 =
     (0, [],
      [OD (Some high_after_low) None ''value'' False, OD (Some high_after_low) (Some (JP NoValue None None)) ''value'' False],
      ''JP nn'', (Some 3))"

definition ins_C4 :: entry where
  "ins_C4 =
     (0, [],
      [OD (Some high_after_low) None ''value'' False, OD (Some high_after_low) (Some (do_each [RRr ''target'' None NoValue, on_flag Flag_Z (early_abort)])) ''value'' False, SW (Some PCH) ''value'' 0 None, SW (Some PCL) ''value'' 0 (Some (JP NoValue (Some ''target'') None))],
      ''CALL NZ,nn'', (Some 3))"

definition ins_C5 :: entry where
  "ins_C5 =
     (1, [],
      [SW (Some B) ''value'' 0 None, SW (Some C) ''value'' 0 None],
      ''PUSH BC'', (Some 1))"

definition ins_C6 :: entry where
  "ins_C6 =
     (0, [],
      [OD (Some high_after_low) (Some (do_each [force_flag Flag_H (Callable (Lambda2 (IfExp (Gt (Add (BitAnd (Reg A) (Const 0xF)) (BitAnd (Arg) (Const 0xF))) (Const 0xF)) (Const 1) (Const 0)))), set_flags ''SZ5H3V0C'' (Some ''value'') None (Callable (Lambda2 (Add (Reg A) (Arg)))) (Some A)])) ''value'' False],
      ''ADD n'', (Some 2))"

definition ins_C7 :: entry where
  "ins_C7 =
     (1, [],
      [SW (Some PCH) ''value'' 0 None, SW (Some PCL) ''value'' 0 (Some (JP (Literal 0x0000) None None))],
      ''RST 00H'', (Some 1))"

definition ins_C8 :: entry where
  "ins_C8 =
     (1, [unless_flag Flag_Z (early_abort)],
      [SR (Some high_after_low) None 0, SR (Some high_after_low) (Some (JP NoValue None None)) 0],
      ''RET NZ'', (Some 1))"

definition ins_C9 :: entry where
  "ins_C9 =
     (0, [],
      [SR (Some high_after_low) None 0, SR (Some high_after_low) (Some (JP NoValue None None)) 0],
      ''RET'', (Some 1))"

definition ins_CA :: entry where
  "ins_CA =
     (0, [],
      [OD (Some high_after_low) None ''value'' False, OD (Some high_after_low) (Some (on_flag Flag_Z (JP NoValue None None))) ''value'' False],
      ''JP Z,nn'', (Some 3))"

definition ins_CB :: entry where
  "ins_CB =
     (0, [],
      [OCF (Some (Byte 0xCB)) False 0],
      '''', (Some 0))"

definition ins_CC :: entry where
  "ins_CC =
     (0, [],
      [OD (Some high_after_low) None ''value'' False, OD (Some high_after_low) (Some (do_each [RRr ''target'' None NoValue, unless_flag Flag_Z (early_abort)])) ''value'' False, SW (Some PCH) ''value'' 0 None, SW (Some PCL) ''value'' 0 (Some (JP NoValue (Some ''target'') None))],
      ''CALL Z,nn'', (Some 3))"

definition ins_CD :: entry where
  "ins_CD =
     (0, [],
      [OD (Some high_after_low) None ''value'' False, OD (Some high_after_low) (Some (RRr ''target'' None NoValue)) ''value'' False, SW (Some PCH) ''value'' 0 None, SW (Some PCL) ''value'' 0 (Some (JP NoValue (Some ''target'') None))],
      ''CALL nn'', (Some 3))"

definition ins_CE :: entry where
  "ins_CE =
     (0, [],
      [OD (Some high_after_low) (Some (do_each [force_flag Flag_H (Callable (Lambda2 (IfExp (Gt (Add (Add (BitAnd (Reg A) (Const 0xF)) (BitAnd (Arg) (Const 0xF))) (GetFlag Flag_C)) (Const 0xF)) (Const 1) (Const 0)))), set_flags ''SZ5H3V0C'' (Some ''value'') None (Callable (Lambda2 (Add (Add (Reg A) (Arg)) (GetFlag Flag_C)))) (Some A)])) ''value'' False],
      ''ADC n'', (Some 2))"

definition ins_CF :: entry where
  "ins_CF =
     (1, [],
      [SW (Some PCH) ''value'' 0 None, SW (Some PCL) ''value'' 0 (Some (JP (Literal 0x0008) None None))],
      ''RST 08H'', (Some 1))"

definition ins_D0 :: entry where
  "ins_D0 =
     (1, [on_flag Flag_C (early_abort)],
      [SR (Some high_after_low) None 0, SR (Some high_after_low) (Some (JP NoValue None None)) 0],
      ''RET NC'', (Some 1))"

definition ins_D1 :: entry where
  "ins_D1 =
     (0, [],
      [SR (Some high_after_low) None 0, SR (Some high_after_low) (Some (LDr DE NoValue ''value'')) 0],
      ''POP DE'', (Some 1))"

definition ins_D2 :: entry where
  "ins_D2 =
     (0, [],
      [OD (Some high_after_low) None ''value'' False, OD (Some high_after_low) (Some (unless_flag Flag_C (JP NoValue None None))) ''value'' False],
      ''JP NC,nn'', (Some 3))"

definition ins_D3 :: entry where
  "ins_D3 =
     (0, [],
      [OD (Some high_after_low) None ''address'' False, PW (Some A) None None (Some A)],
      ''OUT (n),A'', (Some 2))"

definition ins_D4 :: entry where
  "ins_D4 =
     (0, [],
      [OD (Some high_after_low) None ''value'' False, OD (Some high_after_low) (Some (do_each [RRr ''target'' None NoValue, on_flag Flag_C (early_abort)])) ''value'' False, SW (Some PCH) ''value'' 0 None, SW (Some PCL) ''value'' 0 (Some (JP NoValue (Some ''target'') None))],
      ''CALL NC,nn'', (Some 3))"

definition ins_D5 :: entry where
  "ins_D5 =
     (1, [],
      [SW (Some D) ''value'' 0 None, SW (Some E) ''value'' 0 None],
      ''PUSH DE'', (Some 1))"

definition ins_D6 :: entry where
  "ins_D6 =
     (0, [],
      [OD (Some high_after_low) (Some (do_each [force_flag Flag_H (Callable (Lambda2 (IfExp (Lt (Sub (BitAnd (Reg A) (Const 0xF)) (BitAnd (Arg) (Const 0xF))) (Const 0x0)) (Const 1) (Const 0)))), set_flags ''SZ5H3V1C'' (Some ''value'') None (Callable (Lambda2 (Sub (Reg A) (Arg)))) (Some A)])) ''value'' False],
      ''SUB n'', (Some 2))"

definition ins_D7 :: entry where
  "ins_D7 =
     (1, [],
      [SW (Some PCH) ''value'' 0 None, SW (Some PCL) ''value'' 0 (Some (JP (Literal 0x0010) None None))],
      ''RST 10H'', (Some 1))"

definition ins_D8 :: entry where
  "ins_D8 =
     (1, [unless_flag Flag_C (early_abort)],
      [SR (Some high_after_low) None 0, SR (Some high_after_low) (Some (JP NoValue None None)) 0],
      ''RET C'', (Some 1))"

definition ins_DA :: entry where
  "ins_DA =
     (0, [],
      [OD (Some high_after_low) None ''value'' False, OD (Some high_after_low) (Some (on_flag Flag_C (JP NoValue None None))) ''value'' False],
      ''JP C,nn'', (Some 3))"

definition ins_DB :: entry where
  "ins_DB =
     (0, [],
      [OD (Some high_after_low) None ''value'' False, PR (Some A) None None (Some A)],
      ''IN A,n'', (Some 2))"

definition ins_DC :: entry where
  "ins_DC =
     (0, [],
      [OD (Some high_after_low) None ''value'' False, OD (Some high_after_low) (Some (do_each [RRr ''target'' None NoValue, unless_flag Flag_C (early_abort)])) ''value'' False, SW (Some PCH) ''value'' 0 None, SW (Some PCL) ''value'' 0 (Some (JP NoValue (Some ''target'') None))],
      ''CALL C,nn'', (Some 3))"

definition ins_DE :: entry where
  "ins_DE =
     (0, [],
      [OD (Some high_after_low) (Some (do_each [force_flag Flag_H (Callable (Lambda2 (IfExp (Lt (Sub (Sub (BitAnd (Reg A) (Const 0xF)) (BitAnd (Arg) (Const 0xF))) (GetFlag Flag_C)) (Const 0x0)) (Const 1) (Const 0)))), set_flags ''SZ5H3V1C'' (Some ''value'') None (Callable (Lambda2 (Sub (Sub (Reg A) (Arg)) (GetFlag Flag_C)))) (Some A)])) ''value'' False],
      ''SBC n'', (Some 2))"

definition ins_D9 :: entry where
  "ins_D9 =
     (0, [EXX],
      [],
      ''EXX'', (Some 1))"

definition ins_DD :: entry where
  "ins_DD =
     (0, [],
      [OCF (Some (Byte 0xDD)) False 0],
      '''', (Some 0))"

definition ins_DF :: entry where
  "ins_DF =
     (1, [],
      [SW (Some PCH) ''value'' 0 None, SW (Some PCL) ''value'' 0 (Some (JP (Literal 0x0018) None None))],
      ''RST 18H'', (Some 1))"

definition ins_E0 :: entry where
  "ins_E0 =
     (1, [on_flag Flag_P (early_abort)],
      [SR (Some high_after_low) None 0, SR (Some high_after_low) (Some (JP NoValue None None)) 0],
      ''RET PO'', (Some 1))"

definition ins_E1 :: entry where
  "ins_E1 =
     (0, [],
      [SR (Some high_after_low) None 0, SR (Some high_after_low) (Some (LDr HL NoValue ''value'')) 0],
      ''POP HL'', (Some 1))"

definition ins_E2 :: entry where
  "ins_E2 =
     (0, [],
      [OD (Some high_after_low) None ''value'' False, OD (Some high_after_low) (Some (unless_flag Flag_P (JP NoValue None None))) ''value'' False],
      ''JP PO,nn'', (Some 3))"

definition ins_E3 :: entry where
  "ins_E3 =
     (0, [RRr ''H'' (Some H) NoValue, RRr ''L'' (Some L) NoValue],
      [SR (Some high_after_low) None 0, SR (Some high_after_low) (Some (LDr HL NoValue ''value'')) 1, SW None ''H'' 0 None, SW None ''L'' 2 None],
      ''EX (SP),HL'', (Some 1))"

definition ins_E4 :: entry where
  "ins_E4 =
     (0, [],
      [OD (Some high_after_low) None ''value'' False, OD (Some high_after_low) (Some (do_each [RRr ''target'' None NoValue, on_flag Flag_P (early_abort)])) ''value'' False, SW (Some PCH) ''value'' 0 None, SW (Some PCL) ''value'' 0 (Some (JP NoValue (Some ''target'') None))],
      ''CALL PO,nn'', (Some 3))"

definition ins_E5 :: entry where
  "ins_E5 =
     (1, [],
      [SW (Some H) ''value'' 0 None, SW (Some L) ''value'' 0 None],
      ''PUSH HL'', (Some 1))"

definition ins_E6 :: entry where
  "ins_E6 =
     (0, [],
      [OD (Some high_after_low) (Some (set_flags ''SZ513P00'' (Some ''value'') None (Callable (Lambda2 (BitAnd (Reg A) (Arg)))) (Some A))) ''value'' False],
      ''AND n'', (Some 2))"

definition ins_E7 :: entry where
  "ins_E7 =
     (1, [],
      [SW (Some PCH) ''value'' 0 None, SW (Some PCL) ''value'' 0 (Some (JP (Literal 0x0020) None None))],
      ''RST 20H'', (Some 1))"

definition ins_E8 :: entry where
  "ins_E8 =
     (1, [unless_flag Flag_P (early_abort)],
      [SR (Some high_after_low) None 0, SR (Some high_after_low) (Some (JP NoValue None None)) 0],
      ''RET PE'', (Some 1))"

definition ins_E9 :: entry where
  "ins_E9 =
     (0, [JP NoValue None (Some HL)],
      [],
      ''JP (HL)'', (Some 1))"

definition ins_EA :: entry where
  "ins_EA =
     (0, [],
      [OD (Some high_after_low) None ''value'' False, OD (Some high_after_low) (Some (on_flag Flag_P (JP NoValue None None))) ''value'' False],
      ''JP PE,nn'', (Some 3))"

definition ins_EB :: entry where
  "ins_EB =
     (0, [EX' (Some DE) (Some HL)],
      [],
      ''EX DE,HL'', (Some 1))"

definition ins_EC :: entry where
  "ins_EC =
     (0, [],
      [OD (Some high_after_low) None ''value'' False, OD (Some high_after_low) (Some (do_each [RRr ''target'' None NoValue, unless_flag Flag_P (early_abort)])) ''value'' False, SW (Some PCH) ''value'' 0 None, SW (Some PCL) ''value'' 0 (Some (JP NoValue (Some ''target'') None))],
      ''CALL PE,nn'', (Some 3))"

definition ins_ED :: entry where
  "ins_ED =
     (0, [],
      [OCF (Some (Byte 0xED)) False 0],
      '''', (Some 0))"

definition ins_EE :: entry where
  "ins_EE =
     (0, [],
      [OD (Some high_after_low) (Some (set_flags ''SZ503P00'' (Some ''value'') None (Callable (Lambda2 (BitXor (Reg A) (Arg)))) (Some A))) ''value'' False],
      ''XOR n'', (Some 2))"

definition ins_EF :: entry where
  "ins_EF =
     (1, [],
      [SW (Some PCH) ''value'' 0 None, SW (Some PCL) ''value'' 0 (Some (JP (Literal 0x0028) None None))],
      ''RST 28H'', (Some 1))"

definition ins_F0 :: entry where
  "ins_F0 =
     (1, [on_flag Flag_S (early_abort)],
      [SR (Some high_after_low) None 0, SR (Some high_after_low) (Some (JP NoValue None None)) 0],
      ''RET P'', (Some 1))"

definition ins_F1 :: entry where
  "ins_F1 =
     (0, [],
      [SR (Some high_after_low) None 0, SR (Some high_after_low) (Some (LDr AF NoValue ''value'')) 0],
      ''POP AF'', (Some 1))"

definition ins_F2 :: entry where
  "ins_F2 =
     (0, [],
      [OD (Some high_after_low) None ''value'' False, OD (Some high_after_low) (Some (unless_flag Flag_S (JP NoValue None None))) ''value'' False],
      ''JP P,nn'', (Some 3))"

definition ins_F3 :: entry where
  "ins_F3 =
     (0, [di],
      [],
      ''DI'', (Some 1))"

definition ins_F4 :: entry where
  "ins_F4 =
     (0, [],
      [OD (Some high_after_low) None ''value'' False, OD (Some high_after_low) (Some (do_each [RRr ''target'' None NoValue, on_flag Flag_S (early_abort)])) ''value'' False, SW (Some PCH) ''value'' 0 None, SW (Some PCL) ''value'' 0 (Some (JP NoValue (Some ''target'') None))],
      ''CALL P,nn'', (Some 3))"

definition ins_F5 :: entry where
  "ins_F5 =
     (1, [],
      [SW (Some A) ''value'' 0 None, SW (Some F) ''value'' 0 None],
      ''PUSH AF'', (Some 1))"

definition ins_F6 :: entry where
  "ins_F6 =
     (0, [],
      [OD (Some high_after_low) (Some (set_flags ''SZ503P00'' (Some ''value'') None (Callable (Lambda2 (BitOr (Reg A) (Arg)))) (Some A))) ''value'' False],
      ''OR n'', (Some 2))"

definition ins_F7 :: entry where
  "ins_F7 =
     (1, [],
      [SW (Some PCH) ''value'' 0 None, SW (Some PCL) ''value'' 0 (Some (JP (Literal 0x0030) None None))],
      ''RST 30H'', (Some 1))"

definition ins_F8 :: entry where
  "ins_F8 =
     (1, [unless_flag Flag_S (early_abort)],
      [SR (Some high_after_low) None 0, SR (Some high_after_low) (Some (JP NoValue None None)) 0],
      ''RET M'', (Some 1))"

definition ins_F9 :: entry where
  "ins_F9 =
     (0, [LDrs SP HL],
      [],
      ''LD SP,HL'', (Some 1))"

definition ins_FA :: entry where
  "ins_FA =
     (0, [],
      [OD (Some high_after_low) None ''value'' False, OD (Some high_after_low) (Some (on_flag Flag_S (JP NoValue None None))) ''value'' False],
      ''JP M,nn'', (Some 3))"

definition ins_FB :: entry where
  "ins_FB =
     (0, [ei],
      [],
      ''EI'', (Some 1))"

definition ins_FC :: entry where
  "ins_FC =
     (0, [],
      [OD (Some high_after_low) None ''value'' False, OD (Some high_after_low) (Some (do_each [RRr ''target'' None NoValue, unless_flag Flag_S (early_abort)])) ''value'' False, SW (Some PCH) ''value'' 0 None, SW (Some PCL) ''value'' 0 (Some (JP NoValue (Some ''target'') None))],
      ''CALL M,nn'', (Some 3))"

definition ins_FD :: entry where
  "ins_FD =
     (0, [],
      [OCF (Some (Byte 0xFD)) False 0],
      '''', (Some 0))"

definition ins_FE :: entry where
  "ins_FE =
     (0, [],
      [OD (Some high_after_low) (Some (set_flags ''SZ5H3V1C'' (Some ''value'') None (Callable (Lambda2 (Sub (Reg A) (Arg)))) None)) ''value'' False],
      ''CP n'', (Some 2))"

definition ins_FF :: entry where
  "ins_FF =
     (1, [],
      [SW (Some PCH) ''value'' 0 None, SW (Some PCL) ''value'' 0 (Some (JP (Literal 0x0038) None None))],
      ''RST 38H'', (Some 1))"

definition ins_CB_00 :: entry where
  "ins_CB_00 =
     (0, [RLC (Some B) ''value''],
      [],
      ''RLC B'', (Some 2))"

definition ins_CB_01 :: entry where
  "ins_CB_01 =
     (0, [RLC (Some C) ''value''],
      [],
      ''RLC C'', (Some 2))"

definition ins_CB_02 :: entry where
  "ins_CB_02 =
     (0, [RLC (Some D) ''value''],
      [],
      ''RLC D'', (Some 2))"

definition ins_CB_03 :: entry where
  "ins_CB_03 =
     (0, [RLC (Some E) ''value''],
      [],
      ''RLC E'', (Some 2))"

definition ins_CB_04 :: entry where
  "ins_CB_04 =
     (0, [RLC (Some H) ''value''],
      [],
      ''RLC H'', (Some 2))"

definition ins_CB_05 :: entry where
  "ins_CB_05 =
     (0, [RLC (Some L) ''value''],
      [],
      ''RLC L'', (Some 2))"

definition ins_CB_06 :: entry where
  "ins_CB_06 =
     (0, [],
      [MR None (Some HL) (Some high_after_low) (Some (RLC None ''value'')) True, MW None (Some HL) NoValue None None 0],
      ''RLC (HL)'', (Some 2))"

definition ins_CB_07 :: entry where
  "ins_CB_07 =
     (0, [RLC (Some A) ''value''],
      [],
      ''RLC A'', (Some 2))"

definition ins_CB_08 :: entry where
  "ins_CB_08 =
     (0, [RRC (Some B) ''value''],
      [],
      ''RRC B'', (Some 2))"

definition ins_CB_09 :: entry where
  "ins_CB_09 =
     (0, [RRC (Some C) ''value''],
      [],
      ''RRC C'', (Some 2))"

definition ins_CB_0A :: entry where
  "ins_CB_0A =
     (0, [RRC (Some D) ''value''],
      [],
      ''RRC D'', (Some 2))"

definition ins_CB_0B :: entry where
  "ins_CB_0B =
     (0, [RRC (Some E) ''value''],
      [],
      ''RRC E'', (Some 2))"

definition ins_CB_0C :: entry where
  "ins_CB_0C =
     (0, [RRC (Some H) ''value''],
      [],
      ''RRC H'', (Some 2))"

definition ins_CB_0D :: entry where
  "ins_CB_0D =
     (0, [RRC (Some L) ''value''],
      [],
      ''RRC L'', (Some 2))"

definition ins_CB_0E :: entry where
  "ins_CB_0E =
     (0, [],
      [MR None (Some HL) (Some high_after_low) (Some (RRC None ''value'')) True, MW None (Some HL) NoValue None None 0],
      ''RRC (HL)'', (Some 2))"

definition ins_CB_0F :: entry where
  "ins_CB_0F =
     (0, [RRC (Some A) ''value''],
      [],
      ''RRC A'', (Some 2))"

definition ins_CB_10 :: entry where
  "ins_CB_10 =
     (0, [RL (Some B) ''value''],
      [],
      ''RL B'', (Some 2))"

definition ins_CB_11 :: entry where
  "ins_CB_11 =
     (0, [RL (Some C) ''value''],
      [],
      ''RL C'', (Some 2))"

definition ins_CB_12 :: entry where
  "ins_CB_12 =
     (0, [RL (Some D) ''value''],
      [],
      ''RL D'', (Some 2))"

definition ins_CB_13 :: entry where
  "ins_CB_13 =
     (0, [RL (Some E) ''value''],
      [],
      ''RL E'', (Some 2))"

definition ins_CB_14 :: entry where
  "ins_CB_14 =
     (0, [RL (Some H) ''value''],
      [],
      ''RL H'', (Some 2))"

definition ins_CB_15 :: entry where
  "ins_CB_15 =
     (0, [RL (Some L) ''value''],
      [],
      ''RL L'', (Some 2))"

definition ins_CB_16 :: entry where
  "ins_CB_16 =
     (0, [],
      [MR None (Some HL) (Some high_after_low) (Some (RL None ''value'')) True, MW None (Some HL) NoValue None None 0],
      ''RL (HL)'', (Some 2))"

definition ins_CB_17 :: entry where
  "ins_CB_17 =
     (0, [RL (Some A) ''value''],
      [],
      ''RL A'', (Some 2))"

definition ins_CB_18 :: entry where
  "ins_CB_18 =
     (0, [RR (Some B) ''value''],
      [],
      ''RR B'', (Some 2))"

definition ins_CB_19 :: entry where
  "ins_CB_19 =
     (0, [RR (Some C) ''value''],
      [],
      ''RR C'', (Some 2))"

definition ins_CB_1A :: entry where
  "ins_CB_1A =
     (0, [RR (Some D) ''value''],
      [],
      ''RR D'', (Some 2))"

definition ins_CB_1B :: entry where
  "ins_CB_1B =
     (0, [RR (Some E) ''value''],
      [],
      ''RR E'', (Some 2))"

definition ins_CB_1C :: entry where
  "ins_CB_1C =
     (0, [RR (Some H) ''value''],
      [],
      ''RR H'', (Some 2))"

definition ins_CB_1D :: entry where
  "ins_CB_1D =
     (0, [RR (Some L) ''value''],
      [],
      ''RR L'', (Some 2))"

definition ins_CB_1E :: entry where
  "ins_CB_1E =
     (0, [],
      [MR None (Some HL) (Some high_after_low) (Some (RR None ''value'')) True, MW None (Some HL) NoValue None None 0],
      ''RR (HL)'', (Some 2))"

definition ins_CB_1F :: entry where
  "ins_CB_1F =
     (0, [RR (Some A) ''value''],
      [],
      ''RR A'', (Some 2))"

definition ins_CB_20 :: entry where
  "ins_CB_20 =
     (0, [SLA (Some B) ''value''],
      [],
      ''SLA B'', (Some 2))"

definition ins_CB_21 :: entry where
  "ins_CB_21 =
     (0, [SLA (Some C) ''value''],
      [],
      ''SLA C'', (Some 2))"

definition ins_CB_22 :: entry where
  "ins_CB_22 =
     (0, [SLA (Some D) ''value''],
      [],
      ''SLA D'', (Some 2))"

definition ins_CB_23 :: entry where
  "ins_CB_23 =
     (0, [SLA (Some E) ''value''],
      [],
      ''SLA E'', (Some 2))"

definition ins_CB_24 :: entry where
  "ins_CB_24 =
     (0, [SLA (Some H) ''value''],
      [],
      ''SLA H'', (Some 2))"

definition ins_CB_25 :: entry where
  "ins_CB_25 =
     (0, [SLA (Some L) ''value''],
      [],
      ''SLA L'', (Some 2))"

definition ins_CB_26 :: entry where
  "ins_CB_26 =
     (0, [],
      [MR None (Some HL) (Some high_after_low) (Some (SLA None ''value'')) True, MW None (Some HL) NoValue None None 0],
      ''SLA (HL)'', (Some 2))"

definition ins_CB_27 :: entry where
  "ins_CB_27 =
     (0, [SLA (Some A) ''value''],
      [],
      ''SLA A'', (Some 2))"

definition ins_CB_28 :: entry where
  "ins_CB_28 =
     (0, [SRA (Some B) ''value''],
      [],
      ''SRA B'', (Some 2))"

definition ins_CB_29 :: entry where
  "ins_CB_29 =
     (0, [SRA (Some C) ''value''],
      [],
      ''SRA C'', (Some 2))"

definition ins_CB_2A :: entry where
  "ins_CB_2A =
     (0, [SRA (Some D) ''value''],
      [],
      ''SRA D'', (Some 2))"

definition ins_CB_2B :: entry where
  "ins_CB_2B =
     (0, [SRA (Some E) ''value''],
      [],
      ''SRA E'', (Some 2))"

definition ins_CB_2C :: entry where
  "ins_CB_2C =
     (0, [SRA (Some H) ''value''],
      [],
      ''SRA H'', (Some 2))"

definition ins_CB_2D :: entry where
  "ins_CB_2D =
     (0, [SRA (Some L) ''value''],
      [],
      ''SRA L'', (Some 2))"

definition ins_CB_2E :: entry where
  "ins_CB_2E =
     (0, [],
      [MR None (Some HL) (Some high_after_low) (Some (SRA None ''value'')) True, MW None (Some HL) NoValue None None 0],
      ''SRA (HL)'', (Some 2))"

definition ins_CB_2F :: entry where
  "ins_CB_2F =
     (0, [SRA (Some A) ''value''],
      [],
      ''SRA A'', (Some 2))"

definition ins_CB_30 :: entry where
  "ins_CB_30 =
     (0, [SL1 (Some B) ''value''],
      [],
      ''SL1 B (undocumemnted)'', (Some 2))"

definition ins_CB_31 :: entry where
  "ins_CB_31 =
     (0, [SL1 (Some C) ''value''],
      [],
      ''SL1 C (undocumemnted)'', (Some 2))"

definition ins_CB_32 :: entry where
  "ins_CB_32 =
     (0, [SL1 (Some D) ''value''],
      [],
      ''SL1 D (undocumemnted)'', (Some 2))"

definition ins_CB_33 :: entry where
  "ins_CB_33 =
     (0, [SL1 (Some E) ''value''],
      [],
      ''SL1 E (undocumemnted)'', (Some 2))"

definition ins_CB_34 :: entry where
  "ins_CB_34 =
     (0, [SL1 (Some H) ''value''],
      [],
      ''SL1 H (undocumemnted)'', (Some 2))"

definition ins_CB_35 :: entry where
  "ins_CB_35 =
     (0, [SL1 (Some L) ''value''],
      [],
      ''SL1 L (undocumemnted)'', (Some 2))"

definition ins_CB_36 :: entry where
  "ins_CB_36 =
     (0, [],
      [MR None (Some HL) (Some high_after_low) (Some (SL1 None ''value'')) True, MW None (Some HL) NoValue None None 0],
      ''SL1 (HL) (undocumemnted)'', (Some 2))"

definition ins_CB_37 :: entry where
  "ins_CB_37 =
     (0, [SL1 (Some A) ''value''],
      [],
      ''SL1 A (undocumemnted)'', (Some 2))"

definition ins_CB_38 :: entry where
  "ins_CB_38 =
     (0, [SRL (Some B) ''value''],
      [],
      ''SRL B'', (Some 2))"

definition ins_CB_39 :: entry where
  "ins_CB_39 =
     (0, [SRL (Some C) ''value''],
      [],
      ''SRL C'', (Some 2))"

definition ins_CB_3A :: entry where
  "ins_CB_3A =
     (0, [SRL (Some D) ''value''],
      [],
      ''SRL D'', (Some 2))"

definition ins_CB_3B :: entry where
  "ins_CB_3B =
     (0, [SRL (Some E) ''value''],
      [],
      ''SRL E'', (Some 2))"

definition ins_CB_3C :: entry where
  "ins_CB_3C =
     (0, [SRL (Some H) ''value''],
      [],
      ''SRL H'', (Some 2))"

definition ins_CB_3D :: entry where
  "ins_CB_3D =
     (0, [SRL (Some L) ''value''],
      [],
      ''SRL L'', (Some 2))"

definition ins_CB_3E :: entry where
  "ins_CB_3E =
     (0, [],
      [MR None (Some HL) (Some high_after_low) (Some (SRL None ''value'')) True, MW None (Some HL) NoValue None None 0],
      ''SRL (HL)'', (Some 2))"

definition ins_CB_3F :: entry where
  "ins_CB_3F =
     (0, [SRL (Some A) ''value''],
      [],
      ''SRL A'', (Some 2))"

definition ins_CB_40 :: entry where
  "ins_CB_40 =
     (0, [BIT 0 (Some B)],
      [],
      ''BIT 0,B'', (Some 2))"

definition ins_CB_41 :: entry where
  "ins_CB_41 =
     (0, [BIT 0 (Some C)],
      [],
      ''BIT 0,C'', (Some 2))"

definition ins_CB_42 :: entry where
  "ins_CB_42 =
     (0, [BIT 0 (Some D)],
      [],
      ''BIT 0,D'', (Some 2))"

definition ins_CB_43 :: entry where
  "ins_CB_43 =
     (0, [BIT 0 (Some E)],
      [],
      ''BIT 0,E'', (Some 2))"

definition ins_CB_44 :: entry where
  "ins_CB_44 =
     (0, [BIT 0 (Some H)],
      [],
      ''BIT 0,H'', (Some 2))"

definition ins_CB_45 :: entry where
  "ins_CB_45 =
     (0, [BIT 0 (Some L)],
      [],
      ''BIT 0,L'', (Some 2))"

definition ins_CB_46 :: entry where
  "ins_CB_46 =
     (0, [],
      [MR None (Some HL) (Some high_after_low) (Some (BIT 0 None)) True],
      ''BIT 0,(HL)'', (Some 2))"

definition ins_CB_47 :: entry where
  "ins_CB_47 =
     (0, [BIT 0 (Some A)],
      [],
      ''BIT 0,A'', (Some 2))"

definition ins_CB_48 :: entry where
  "ins_CB_48 =
     (0, [BIT 1 (Some B)],
      [],
      ''BIT 1,B'', (Some 2))"

definition ins_CB_49 :: entry where
  "ins_CB_49 =
     (0, [BIT 1 (Some C)],
      [],
      ''BIT 1,C'', (Some 2))"

definition ins_CB_4A :: entry where
  "ins_CB_4A =
     (0, [BIT 1 (Some D)],
      [],
      ''BIT 1,D'', (Some 2))"

definition ins_CB_4B :: entry where
  "ins_CB_4B =
     (0, [BIT 1 (Some E)],
      [],
      ''BIT 1,E'', (Some 2))"

definition ins_CB_4C :: entry where
  "ins_CB_4C =
     (0, [BIT 1 (Some H)],
      [],
      ''BIT 1,H'', (Some 2))"

definition ins_CB_4D :: entry where
  "ins_CB_4D =
     (0, [BIT 1 (Some L)],
      [],
      ''BIT 1,L'', (Some 2))"

definition ins_CB_4E :: entry where
  "ins_CB_4E =
     (0, [],
      [MR None (Some HL) (Some high_after_low) (Some (BIT 1 None)) True],
      ''BIT 1,(HL)'', (Some 2))"

definition ins_CB_4F :: entry where
  "ins_CB_4F =
     (0, [BIT 1 (Some A)],
      [],
      ''BIT 1,A'', (Some 2))"

definition ins_CB_50 :: entry where
  "ins_CB_50 =
     (0, [BIT 2 (Some B)],
      [],
      ''BIT 2,B'', (Some 2))"

definition ins_CB_51 :: entry where
  "ins_CB_51 =
     (0, [BIT 2 (Some C)],
      [],
      ''BIT 2,C'', (Some 2))"

definition ins_CB_52 :: entry where
  "ins_CB_52 =
     (0, [BIT 2 (Some D)],
      [],
      ''BIT 2,D'', (Some 2))"

definition ins_CB_53 :: entry where
  "ins_CB_53 =
     (0, [BIT 2 (Some E)],
      [],
      ''BIT 2,E'', (Some 2))"

definition ins_CB_54 :: entry where
  "ins_CB_54 =
     (0, [BIT 2 (Some H)],
      [],
      ''BIT 2,H'', (Some 2))"

definition ins_CB_55 :: entry where
  "ins_CB_55 =
     (0, [BIT 2 (Some L)],
      [],
      ''BIT 2,L'', (Some 2))"

definition ins_CB_56 :: entry where
  "ins_CB_56 =
     (0, [],
      [MR None (Some HL) (Some high_after_low) (Some (BIT 2 None)) True],
      ''BIT 2,(HL)'', (Some 2))"

definition ins_CB_57 :: entry where
  "ins_CB_57 =
     (0, [BIT 2 (Some A)],
      [],
      ''BIT 2,A'', (Some 2))"

definition ins_CB_58 :: entry where
  "ins_CB_58 =
     (0, [BIT 3 (Some B)],
      [],
      ''BIT 3,B'', (Some 2))"

definition ins_CB_59 :: entry where
  "ins_CB_59 =
     (0, [BIT 3 (Some C)],
      [],
      ''BIT 3,C'', (Some 2))"

definition ins_CB_5A :: entry where
  "ins_CB_5A =
     (0, [BIT 3 (Some D)],
      [],
      ''BIT 3,D'', (Some 2))"

definition ins_CB_5B :: entry where
  "ins_CB_5B =
     (0, [BIT 3 (Some E)],
      [],
      ''BIT 3,E'', (Some 2))"

definition ins_CB_5C :: entry where
  "ins_CB_5C =
     (0, [BIT 3 (Some H)],
      [],
      ''BIT 3,H'', (Some 2))"

definition ins_CB_5D :: entry where
  "ins_CB_5D =
     (0, [BIT 3 (Some L)],
      [],
      ''BIT 3,L'', (Some 2))"

definition ins_CB_5E :: entry where
  "ins_CB_5E =
     (0, [],
      [MR None (Some HL) (Some high_after_low) (Some (BIT 3 None)) True],
      ''BIT 3,(HL)'', (Some 2))"

definition ins_CB_5F :: entry where
  "ins_CB_5F =
     (0, [BIT 3 (Some A)],
      [],
      ''BIT 3,A'', (Some 2))"

definition ins_CB_60 :: entry where
  "ins_CB_60 =
     (0, [BIT 4 (Some B)],
      [],
      ''BIT 4,B'', (Some 2))"

definition ins_CB_61 :: entry where
  "ins_CB_61 =
     (0, [BIT 4 (Some C)],
      [],
      ''BIT 4,C'', (Some 2))"

definition ins_CB_62 :: entry where
  "ins_CB_62 =
     (0, [BIT 4 (Some D)],
      [],
      ''BIT 4,D'', (Some 2))"

definition ins_CB_63 :: entry where
  "ins_CB_63 =
     (0, [BIT 4 (Some E)],
      [],
      ''BIT 4,E'', (Some 2))"

definition ins_CB_64 :: entry where
  "ins_CB_64 =
     (0, [BIT 4 (Some H)],
      [],
      ''BIT 4,H'', (Some 2))"

definition ins_CB_65 :: entry where
  "ins_CB_65 =
     (0, [BIT 4 (Some L)],
      [],
      ''BIT 4,L'', (Some 2))"

definition ins_CB_66 :: entry where
  "ins_CB_66 =
     (0, [],
      [MR None (Some HL) (Some high_after_low) (Some (BIT 4 None)) True],
      ''BIT 4,(HL)'', (Some 2))"

definition ins_CB_67 :: entry where
  "ins_CB_67 =
     (0, [BIT 4 (Some A)],
      [],
      ''BIT 4,A'', (Some 2))"

definition ins_CB_68 :: entry where
  "ins_CB_68 =
     (0, [BIT 5 (Some B)],
      [],
      ''BIT 5,B'', (Some 2))"

definition ins_CB_69 :: entry where
  "ins_CB_69 =
     (0, [BIT 5 (Some C)],
      [],
      ''BIT 5,C'', (Some 2))"

definition ins_CB_6A :: entry where
  "ins_CB_6A =
     (0, [BIT 5 (Some D)],
      [],
      ''BIT 5,D'', (Some 2))"

definition ins_CB_6B :: entry where
  "ins_CB_6B =
     (0, [BIT 5 (Some E)],
      [],
      ''BIT 5,E'', (Some 2))"

definition ins_CB_6C :: entry where
  "ins_CB_6C =
     (0, [BIT 5 (Some H)],
      [],
      ''BIT 5,H'', (Some 2))"

definition ins_CB_6D :: entry where
  "ins_CB_6D =
     (0, [BIT 5 (Some L)],
      [],
      ''BIT 5,L'', (Some 2))"

definition ins_CB_6E :: entry where
  "ins_CB_6E =
     (0, [],
      [MR None (Some HL) (Some high_after_low) (Some (BIT 5 None)) True],
      ''BIT 5,(HL)'', (Some 2))"

definition ins_CB_6F :: entry where
  "ins_CB_6F =
     (0, [BIT 5 (Some A)],
      [],
      ''BIT 5,A'', (Some 2))"

definition ins_CB_70 :: entry where
  "ins_CB_70 =
     (0, [BIT 6 (Some B)],
      [],
      ''BIT 6,B'', (Some 2))"

definition ins_CB_71 :: entry where
  "ins_CB_71 =
     (0, [BIT 6 (Some C)],
      [],
      ''BIT 6,C'', (Some 2))"

definition ins_CB_72 :: entry where
  "ins_CB_72 =
     (0, [BIT 6 (Some D)],
      [],
      ''BIT 6,D'', (Some 2))"

definition ins_CB_73 :: entry where
  "ins_CB_73 =
     (0, [BIT 6 (Some E)],
      [],
      ''BIT 6,E'', (Some 2))"

definition ins_CB_74 :: entry where
  "ins_CB_74 =
     (0, [BIT 6 (Some H)],
      [],
      ''BIT 6,H'', (Some 2))"

definition ins_CB_75 :: entry where
  "ins_CB_75 =
     (0, [BIT 6 (Some L)],
      [],
      ''BIT 6,L'', (Some 2))"

definition ins_CB_76 :: entry where
  "ins_CB_76 =
     (0, [],
      [MR None (Some HL) (Some high_after_low) (Some (BIT 6 None)) True],
      ''BIT 6,(HL)'', (Some 2))"

definition ins_CB_77 :: entry where
  "ins_CB_77 =
     (0, [BIT 6 (Some A)],
      [],
      ''BIT 6,A'', (Some 2))"

definition ins_CB_78 :: entry where
  "ins_CB_78 =
     (0, [BIT 7 (Some B)],
      [],
      ''BIT 7,B'', (Some 2))"

definition ins_CB_79 :: entry where
  "ins_CB_79 =
     (0, [BIT 7 (Some C)],
      [],
      ''BIT 7,C'', (Some 2))"

definition ins_CB_7A :: entry where
  "ins_CB_7A =
     (0, [BIT 7 (Some D)],
      [],
      ''BIT 7,D'', (Some 2))"

definition ins_CB_7B :: entry where
  "ins_CB_7B =
     (0, [BIT 7 (Some E)],
      [],
      ''BIT 7,E'', (Some 2))"

definition ins_CB_7C :: entry where
  "ins_CB_7C =
     (0, [BIT 7 (Some H)],
      [],
      ''BIT 7,H'', (Some 2))"

definition ins_CB_7D :: entry where
  "ins_CB_7D =
     (0, [BIT 7 (Some L)],
      [],
      ''BIT 7,L'', (Some 2))"

definition ins_CB_7E :: entry where
  "ins_CB_7E =
     (0, [],
      [MR None (Some HL) (Some high_after_low) (Some (BIT 7 None)) True],
      ''BIT 7,(HL)'', (Some 2))"

definition ins_CB_7F :: entry where
  "ins_CB_7F =
     (0, [BIT 7 (Some A)],
      [],
      ''BIT 7,A'', (Some 2))"

definition ins_CB_80 :: entry where
  "ins_CB_80 =
     (0, [RES 0 (Some B) ''value''],
      [],
      ''RES 0,B'', (Some 2))"

definition ins_CB_81 :: entry where
  "ins_CB_81 =
     (0, [RES 0 (Some C) ''value''],
      [],
      ''RES 0,C'', (Some 2))"

definition ins_CB_82 :: entry where
  "ins_CB_82 =
     (0, [RES 0 (Some D) ''value''],
      [],
      ''RES 0,D'', (Some 2))"

definition ins_CB_83 :: entry where
  "ins_CB_83 =
     (0, [RES 0 (Some E) ''value''],
      [],
      ''RES 0,E'', (Some 2))"

definition ins_CB_84 :: entry where
  "ins_CB_84 =
     (0, [RES 0 (Some H) ''value''],
      [],
      ''RES 0,H'', (Some 2))"

definition ins_CB_85 :: entry where
  "ins_CB_85 =
     (0, [RES 0 (Some L) ''value''],
      [],
      ''RES 0,L'', (Some 2))"

definition ins_CB_86 :: entry where
  "ins_CB_86 =
     (0, [],
      [MR None (Some HL) (Some high_after_low) (Some (RES 0 None ''value'')) True, MW None (Some HL) NoValue None None 0],
      ''RES 0,(HL)'', (Some 2))"

definition ins_CB_87 :: entry where
  "ins_CB_87 =
     (0, [RES 0 (Some A) ''value''],
      [],
      ''RES 0,A'', (Some 2))"

definition ins_CB_88 :: entry where
  "ins_CB_88 =
     (0, [RES 1 (Some B) ''value''],
      [],
      ''RES 1,B'', (Some 2))"

definition ins_CB_89 :: entry where
  "ins_CB_89 =
     (0, [RES 1 (Some C) ''value''],
      [],
      ''RES 1,C'', (Some 2))"

definition ins_CB_8A :: entry where
  "ins_CB_8A =
     (0, [RES 1 (Some D) ''value''],
      [],
      ''RES 1,D'', (Some 2))"

definition ins_CB_8B :: entry where
  "ins_CB_8B =
     (0, [RES 1 (Some E) ''value''],
      [],
      ''RES 1,E'', (Some 2))"

definition ins_CB_8C :: entry where
  "ins_CB_8C =
     (0, [RES 1 (Some H) ''value''],
      [],
      ''RES 1,H'', (Some 2))"

definition ins_CB_8D :: entry where
  "ins_CB_8D =
     (0, [RES 1 (Some L) ''value''],
      [],
      ''RES 1,L'', (Some 2))"

definition ins_CB_8E :: entry where
  "ins_CB_8E =
     (0, [],
      [MR None (Some HL) (Some high_after_low) (Some (RES 1 None ''value'')) True, MW None (Some HL) NoValue None None 0],
      ''RES 1,(HL)'', (Some 2))"

definition ins_CB_8F :: entry where
  "ins_CB_8F =
     (0, [RES 1 (Some A) ''value''],
      [],
      ''RES 1,A'', (Some 2))"

definition ins_CB_90 :: entry where
  "ins_CB_90 =
     (0, [RES 2 (Some B) ''value''],
      [],
      ''RES 2,B'', (Some 2))"

definition ins_CB_91 :: entry where
  "ins_CB_91 =
     (0, [RES 2 (Some C) ''value''],
      [],
      ''RES 2,C'', (Some 2))"

definition ins_CB_92 :: entry where
  "ins_CB_92 =
     (0, [RES 2 (Some D) ''value''],
      [],
      ''RES 2,D'', (Some 2))"

definition ins_CB_93 :: entry where
  "ins_CB_93 =
     (0, [RES 2 (Some E) ''value''],
      [],
      ''RES 2,E'', (Some 2))"

definition ins_CB_94 :: entry where
  "ins_CB_94 =
     (0, [RES 2 (Some H) ''value''],
      [],
      ''RES 2,H'', (Some 2))"

definition ins_CB_95 :: entry where
  "ins_CB_95 =
     (0, [RES 2 (Some L) ''value''],
      [],
      ''RES 2,L'', (Some 2))"

definition ins_CB_96 :: entry where
  "ins_CB_96 =
     (0, [],
      [MR None (Some HL) (Some high_after_low) (Some (RES 2 None ''value'')) True, MW None (Some HL) NoValue None None 0],
      ''RES 2,(HL)'', (Some 2))"

definition ins_CB_97 :: entry where
  "ins_CB_97 =
     (0, [RES 2 (Some A) ''value''],
      [],
      ''RES 2,A'', (Some 2))"

definition ins_CB_98 :: entry where
  "ins_CB_98 =
     (0, [RES 3 (Some B) ''value''],
      [],
      ''RES 3,B'', (Some 2))"

definition ins_CB_99 :: entry where
  "ins_CB_99 =
     (0, [RES 3 (Some C) ''value''],
      [],
      ''RES 3,C'', (Some 2))"

definition ins_CB_9A :: entry where
  "ins_CB_9A =
     (0, [RES 3 (Some D) ''value''],
      [],
      ''RES 3,D'', (Some 2))"

definition ins_CB_9B :: entry where
  "ins_CB_9B =
     (0, [RES 3 (Some E) ''value''],
      [],
      ''RES 3,E'', (Some 2))"

definition ins_CB_9C :: entry where
  "ins_CB_9C =
     (0, [RES 3 (Some H) ''value''],
      [],
      ''RES 3,H'', (Some 2))"

definition ins_CB_9D :: entry where
  "ins_CB_9D =
     (0, [RES 3 (Some L) ''value''],
      [],
      ''RES 3,L'', (Some 2))"

definition ins_CB_9E :: entry where
  "ins_CB_9E =
     (0, [],
      [MR None (Some HL) (Some high_after_low) (Some (RES 3 None ''value'')) True, MW None (Some HL) NoValue None None 0],
      ''RES 3,(HL)'', (Some 2))"

definition ins_CB_9F :: entry where
  "ins_CB_9F =
     (0, [RES 3 (Some A) ''value''],
      [],
      ''RES 3,A'', (Some 2))"

definition ins_CB_A0 :: entry where
  "ins_CB_A0 =
     (0, [RES 4 (Some B) ''value''],
      [],
      ''RES 4,B'', (Some 2))"

definition ins_CB_A1 :: entry where
  "ins_CB_A1 =
     (0, [RES 4 (Some C) ''value''],
      [],
      ''RES 4,C'', (Some 2))"

definition ins_CB_A2 :: entry where
  "ins_CB_A2 =
     (0, [RES 4 (Some D) ''value''],
      [],
      ''RES 4,D'', (Some 2))"

definition ins_CB_A3 :: entry where
  "ins_CB_A3 =
     (0, [RES 4 (Some E) ''value''],
      [],
      ''RES 4,E'', (Some 2))"

definition ins_CB_A4 :: entry where
  "ins_CB_A4 =
     (0, [RES 4 (Some H) ''value''],
      [],
      ''RES 4,H'', (Some 2))"

definition ins_CB_A5 :: entry where
  "ins_CB_A5 =
     (0, [RES 4 (Some L) ''value''],
      [],
      ''RES 4,L'', (Some 2))"

definition ins_CB_A6 :: entry where
  "ins_CB_A6 =
     (0, [],
      [MR None (Some HL) (Some high_after_low) (Some (RES 4 None ''value'')) True, MW None (Some HL) NoValue None None 0],
      ''RES 4,(HL)'', (Some 2))"

definition ins_CB_A7 :: entry where
  "ins_CB_A7 =
     (0, [RES 4 (Some A) ''value''],
      [],
      ''RES 4,A'', (Some 2))"

definition ins_CB_A8 :: entry where
  "ins_CB_A8 =
     (0, [RES 5 (Some B) ''value''],
      [],
      ''RES 5,B'', (Some 2))"

definition ins_CB_A9 :: entry where
  "ins_CB_A9 =
     (0, [RES 5 (Some C) ''value''],
      [],
      ''RES 5,C'', (Some 2))"

definition ins_CB_AA :: entry where
  "ins_CB_AA =
     (0, [RES 5 (Some D) ''value''],
      [],
      ''RES 5,D'', (Some 2))"

definition ins_CB_AB :: entry where
  "ins_CB_AB =
     (0, [RES 5 (Some E) ''value''],
      [],
      ''RES 5,E'', (Some 2))"

definition ins_CB_AC :: entry where
  "ins_CB_AC =
     (0, [RES 5 (Some H) ''value''],
      [],
      ''RES 5,H'', (Some 2))"

definition ins_CB_AD :: entry where
  "ins_CB_AD =
     (0, [RES 5 (Some L) ''value''],
      [],
      ''RES 5,L'', (Some 2))"

definition ins_CB_AE :: entry where
  "ins_CB_AE =
     (0, [],
      [MR None (Some HL) (Some high_after_low) (Some (RES 5 None ''value'')) True, MW None (Some HL) NoValue None None 0],
      ''RES 5,(HL)'', (Some 2))"

definition ins_CB_AF :: entry where
  "ins_CB_AF =
     (0, [RES 5 (Some A) ''value''],
      [],
      ''RES 5,A'', (Some 2))"

definition ins_CB_B0 :: entry where
  "ins_CB_B0 =
     (0, [RES 6 (Some B) ''value''],
      [],
      ''RES 6,B'', (Some 2))"

definition ins_CB_B1 :: entry where
  "ins_CB_B1 =
     (0, [RES 6 (Some C) ''value''],
      [],
      ''RES 6,C'', (Some 2))"

definition ins_CB_B2 :: entry where
  "ins_CB_B2 =
     (0, [RES 6 (Some D) ''value''],
      [],
      ''RES 6,D'', (Some 2))"

definition ins_CB_B3 :: entry where
  "ins_CB_B3 =
     (0, [RES 6 (Some E) ''value''],
      [],
      ''RES 6,E'', (Some 2))"

definition ins_CB_B4 :: entry where
  "ins_CB_B4 =
     (0, [RES 6 (Some H) ''value''],
      [],
      ''RES 6,H'', (Some 2))"

definition ins_CB_B5 :: entry where
  "ins_CB_B5 =
     (0, [RES 6 (Some L) ''value''],
      [],
      ''RES 6,L'', (Some 2))"

definition ins_CB_B6 :: entry where
  "ins_CB_B6 =
     (0, [],
      [MR None (Some HL) (Some high_after_low) (Some (RES 6 None ''value'')) True, MW None (Some HL) NoValue None None 0],
      ''RES 6,(HL)'', (Some 2))"

definition ins_CB_B7 :: entry where
  "ins_CB_B7 =
     (0, [RES 6 (Some A) ''value''],
      [],
      ''RES 6,A'', (Some 2))"

definition ins_CB_B8 :: entry where
  "ins_CB_B8 =
     (0, [RES 7 (Some B) ''value''],
      [],
      ''RES 7,B'', (Some 2))"

definition ins_CB_B9 :: entry where
  "ins_CB_B9 =
     (0, [RES 7 (Some C) ''value''],
      [],
      ''RES 7,C'', (Some 2))"

definition ins_CB_BA :: entry where
  "ins_CB_BA =
     (0, [RES 7 (Some D) ''value''],
      [],
      ''RES 7,D'', (Some 2))"

definition ins_CB_BB :: entry where
  "ins_CB_BB =
     (0, [RES 7 (Some E) ''value''],
      [],
      ''RES 7,E'', (Some 2))"

definition ins_CB_BC :: entry where
  "ins_CB_BC =
     (0, [RES 7 (Some H) ''value''],
      [],
      ''RES 7,H'', (Some 2))"

definition ins_CB_BD :: entry where
  "ins_CB_BD =
     (0, [RES 7 (Some L) ''value''],
      [],
      ''RES 7,L'', (Some 2))"

definition ins_CB_BE :: entry where
  "ins_CB_BE =
     (0, [],
      [MR None (Some HL) (Some high_after_low) (Some (RES 7 None ''value'')) True, MW None (Some HL) NoValue None None 0],
      ''RES 7,(HL)'', (Some 2))"

definition ins_CB_BF :: entry where
  "ins_CB_BF =
     (0, [RES 7 (Some A) ''value''],
      [],
      ''RES 7,A'', (Some 2))"

definition ins_CB_C0 :: entry where
  "ins_CB_C0 =
     (0, [SET 0 (Some B) ''value''],
      [],
      ''SET 0,B'', (Some 2))"

definition ins_CB_C1 :: entry where
  "ins_CB_C1 =
     (0, [SET 0 (Some C) ''value''],
      [],
      ''SET 0,C'', (Some 2))"

definition ins_CB_C2 :: entry where
  "ins_CB_C2 =
     (0, [SET 0 (Some D) ''value''],
      [],
      ''SET 0,D'', (Some 2))"

definition ins_CB_C3 :: entry where
  "ins_CB_C3 =
     (0, [SET 0 (Some E) ''value''],
      [],
      ''SET 0,E'', (Some 2))"

definition ins_CB_C4 :: entry where
  "ins_CB_C4 =
     (0, [SET 0 (Some H) ''value''],
      [],
      ''SET 0,H'', (Some 2))"

definition ins_CB_C5 :: entry where
  "ins_CB_C5 =
     (0, [SET 0 (Some L) ''value''],
      [],
      ''SET 0,L'', (Some 2))"

definition ins_CB_C6 :: entry where
  "ins_CB_C6 =
     (0, [],
      [MR None (Some HL) (Some high_after_low) (Some (SET 0 None ''value'')) True, MW None (Some HL) NoValue None None 0],
      ''SET 0,(HL)'', (Some 2))"

definition ins_CB_C7 :: entry where
  "ins_CB_C7 =
     (0, [SET 0 (Some A) ''value''],
      [],
      ''SET 0,A'', (Some 2))"

definition ins_CB_C8 :: entry where
  "ins_CB_C8 =
     (0, [SET 1 (Some B) ''value''],
      [],
      ''SET 1,B'', (Some 2))"

definition ins_CB_C9 :: entry where
  "ins_CB_C9 =
     (0, [SET 1 (Some C) ''value''],
      [],
      ''SET 1,C'', (Some 2))"

definition ins_CB_CA :: entry where
  "ins_CB_CA =
     (0, [SET 1 (Some D) ''value''],
      [],
      ''SET 1,D'', (Some 2))"

definition ins_CB_CB :: entry where
  "ins_CB_CB =
     (0, [SET 1 (Some E) ''value''],
      [],
      ''SET 1,E'', (Some 2))"

definition ins_CB_CC :: entry where
  "ins_CB_CC =
     (0, [SET 1 (Some H) ''value''],
      [],
      ''SET 1,H'', (Some 2))"

definition ins_CB_CD :: entry where
  "ins_CB_CD =
     (0, [SET 1 (Some L) ''value''],
      [],
      ''SET 1,L'', (Some 2))"

definition ins_CB_CE :: entry where
  "ins_CB_CE =
     (0, [],
      [MR None (Some HL) (Some high_after_low) (Some (SET 1 None ''value'')) True, MW None (Some HL) NoValue None None 0],
      ''SET 1,(HL)'', (Some 2))"

definition ins_CB_CF :: entry where
  "ins_CB_CF =
     (0, [SET 1 (Some A) ''value''],
      [],
      ''SET 1,A'', (Some 2))"

definition ins_CB_D0 :: entry where
  "ins_CB_D0 =
     (0, [SET 2 (Some B) ''value''],
      [],
      ''SET 2,B'', (Some 2))"

definition ins_CB_D1 :: entry where
  "ins_CB_D1 =
     (0, [SET 2 (Some C) ''value''],
      [],
      ''SET 2,C'', (Some 2))"

definition ins_CB_D2 :: entry where
  "ins_CB_D2 =
     (0, [SET 2 (Some D) ''value''],
      [],
      ''SET 2,D'', (Some 2))"

definition ins_CB_D3 :: entry where
  "ins_CB_D3 =
     (0, [SET 2 (Some E) ''value''],
      [],
      ''SET 2,E'', (Some 2))"

definition ins_CB_D4 :: entry where
  "ins_CB_D4 =
     (0, [SET 2 (Some H) ''value''],
      [],
      ''SET 2,H'', (Some 2))"

definition ins_CB_D5 :: entry where
  "ins_CB_D5 =
     (0, [SET 2 (Some L) ''value''],
      [],
      ''SET 2,L'', (Some 2))"

definition ins_CB_D6 :: entry where
  "ins_CB_D6 =
     (0, [],
      [MR None (Some HL) (Some high_after_low) (Some (SET 2 None ''value'')) True, MW None (Some HL) NoValue None None 0],
      ''SET 2,(HL)'', (Some 2))"

definition ins_CB_D7 :: entry where
  "ins_CB_D7 =
     (0, [SET 2 (Some A) ''value''],
      [],
      ''SET 2,A'', (Some 2))"

definition ins_CB_D8 :: entry where
  "ins_CB_D8 =
     (0, [SET 3 (Some B) ''value''],
      [],
      ''SET 3,B'', (Some 2))"

definition ins_CB_D9 :: entry where
  "ins_CB_D9 =
     (0, [SET 3 (Some C) ''value''],
      [],
      ''SET 3,C'', (Some 2))"

definition ins_CB_DA :: entry where
  "ins_CB_DA =
     (0, [SET 3 (Some D) ''value''],
      [],
      ''SET 3,D'', (Some 2))"

definition ins_CB_DB :: entry where
  "ins_CB_DB =
     (0, [SET 3 (Some E) ''value''],
      [],
      ''SET 3,E'', (Some 2))"

definition ins_CB_DC :: entry where
  "ins_CB_DC =
     (0, [SET 3 (Some H) ''value''],
      [],
      ''SET 3,H'', (Some 2))"

definition ins_CB_DD :: entry where
  "ins_CB_DD =
     (0, [SET 3 (Some L) ''value''],
      [],
      ''SET 3,L'', (Some 2))"

definition ins_CB_DE :: entry where
  "ins_CB_DE =
     (0, [],
      [MR None (Some HL) (Some high_after_low) (Some (SET 3 None ''value'')) True, MW None (Some HL) NoValue None None 0],
      ''SET 3,(HL)'', (Some 2))"

definition ins_CB_DF :: entry where
  "ins_CB_DF =
     (0, [SET 3 (Some A) ''value''],
      [],
      ''SET 3,A'', (Some 2))"

definition ins_CB_E0 :: entry where
  "ins_CB_E0 =
     (0, [SET 4 (Some B) ''value''],
      [],
      ''SET 4,B'', (Some 2))"

definition ins_CB_E1 :: entry where
  "ins_CB_E1 =
     (0, [SET 4 (Some C) ''value''],
      [],
      ''SET 4,C'', (Some 2))"

definition ins_CB_E2 :: entry where
  "ins_CB_E2 =
     (0, [SET 4 (Some D) ''value''],
      [],
      ''SET 4,D'', (Some 2))"

definition ins_CB_E3 :: entry where
  "ins_CB_E3 =
     (0, [SET 4 (Some E) ''value''],
      [],
      ''SET 4,E'', (Some 2))"

definition ins_CB_E4 :: entry where
  "ins_CB_E4 =
     (0, [SET 4 (Some H) ''value''],
      [],
      ''SET 4,H'', (Some 2))"

definition ins_CB_E5 :: entry where
  "ins_CB_E5 =
     (0, [SET 4 (Some L) ''value''],
      [],
      ''SET 4,L'', (Some 2))"

definition ins_CB_E6 :: entry where
  "ins_CB_E6 =
     (0, [],
      [MR None (Some HL) (Some high_after_low) (Some (SET 4 None ''value'')) True, MW None (Some HL) NoValue None None 0],
      ''SET 4,(HL)'', (Some 2))"

definition ins_CB_E7 :: entry where
  "ins_CB_E7 =
     (0, [SET 4 (Some A) ''value''],
      [],
      ''SET 4,A'', (Some 2))"

definition ins_CB_E8 :: entry where
  "ins_CB_E8 =
     (0, [SET 5 (Some B) ''value''],
      [],
      ''SET 5,B'', (Some 2))"

definition ins_CB_E9 :: entry where
  "ins_CB_E9 =
     (0, [SET 5 (Some C) ''value''],
      [],
      ''SET 5,C'', (Some 2))"

definition ins_CB_EA :: entry where
  "ins_CB_EA =
     (0, [SET 5 (Some D) ''value''],
      [],
      ''SET 5,D'', (Some 2))"

definition ins_CB_EB :: entry where
  "ins_CB_EB =
     (0, [SET 5 (Some E) ''value''],
      [],
      ''SET 5,E'', (Some 2))"

definition ins_CB_EC :: entry where
  "ins_CB_EC =
     (0, [SET 5 (Some H) ''value''],
      [],
      ''SET 5,H'', (Some 2))"

definition ins_CB_ED :: entry where
  "ins_CB_ED =
     (0, [SET 5 (Some L) ''value''],
      [],
      ''SET 5,L'', (Some 2))"

definition ins_CB_EE :: entry where
  "ins_CB_EE =
     (0, [],
      [MR None (Some HL) (Some high_after_low) (Some (SET 5 None ''value'')) True, MW None (Some HL) NoValue None None 0],
      ''SET 5,(HL)'', (Some 2))"

definition ins_CB_EF :: entry where
  "ins_CB_EF =
     (0, [SET 5 (Some A) ''value''],
      [],
      ''SET 5,A'', (Some 2))"

definition ins_CB_F0 :: entry where
  "ins_CB_F0 =
     (0, [SET 6 (Some B) ''value''],
      [],
      ''SET 6,B'', (Some 2))"

definition ins_CB_F1 :: entry where
  "ins_CB_F1 =
     (0, [SET 6 (Some C) ''value''],
      [],
      ''SET 6,C'', (Some 2))"

definition ins_CB_F2 :: entry where
  "ins_CB_F2 =
     (0, [SET 6 (Some D) ''value''],
      [],
      ''SET 6,D'', (Some 2))"

definition ins_CB_F3 :: entry where
  "ins_CB_F3 =
     (0, [SET 6 (Some E) ''value''],
      [],
      ''SET 6,E'', (Some 2))"

definition ins_CB_F4 :: entry where
  "ins_CB_F4 =
     (0, [SET 6 (Some H) ''value''],
      [],
      ''SET 6,H'', (Some 2))"

definition ins_CB_F5 :: entry where
  "ins_CB_F5 =
     (0, [SET 6 (Some L) ''value''],
      [],
      ''SET 6,L'', (Some 2))"

definition ins_CB_F6 :: entry where
  "ins_CB_F6 =
     (0, [],
      [MR None (Some HL) (Some high_after_low) (Some (SET 6 None ''value'')) True, MW None (Some HL) NoValue None None 0],
      ''SET 6,(HL)'', (Some 2))"

definition ins_CB_F7 :: entry where
  "ins_CB_F7 =
     (0, [SET 6 (Some A) ''value''],
      [],
      ''SET 6,A'', (Some 2))"

definition ins_CB_F8 :: entry where
  "ins_CB_F8 =
     (0, [SET 7 (Some B) ''value''],
      [],
      ''SET 7,B'', (Some 2))"

definition ins_CB_F9 :: entry where
  "ins_CB_F9 =
     (0, [SET 7 (Some C) ''value''],
      [],
      ''SET 7,C'', (Some 2))"

definition ins_CB_FA :: entry where
  "ins_CB_FA =
     (0, [SET 7 (Some D) ''value''],
      [],
      ''SET 7,D'', (Some 2))"

definition ins_CB_FB :: entry where
  "ins_CB_FB =
     (0, [SET 7 (Some E) ''value''],
      [],
      ''SET 7,E'', (Some 2))"

definition ins_CB_FC :: entry where
  "ins_CB_FC =
     (0, [SET 7 (Some H) ''value''],
      [],
      ''SET 7,H'', (Some 2))"

definition ins_CB_FD :: entry where
  "ins_CB_FD =
     (0, [SET 7 (Some L) ''value''],
      [],
      ''SET 7,L'', (Some 2))"

definition ins_CB_FE :: entry where
  "ins_CB_FE =
     (0, [],
      [MR None (Some HL) (Some high_after_low) (Some (SET 7 None ''value'')) True, MW None (Some HL) NoValue None None 0],
      ''SET 7,(HL)'', (Some 2))"

definition ins_CB_FF :: entry where
  "ins_CB_FF =
     (0, [SET 7 (Some A) ''value''],
      [],
      ''SET 7,A'', (Some 2))"

definition ins_DD_09 :: entry where
  "ins_DD_09 =
     (0, [force_flag Flag_H (Callable (Lambda1 (IfExp (Gt (Add (Add (BitAnd (Reg B) (Const 0xF)) (BitAnd (Reg IXH) (Const 0xF))) (RShift (Add (Reg C) (Reg IXL)) (Const 8))) (Const 0xF)) (Const 1) (Const 0)))), set_flags ''--5-3-0C'' (Some ''value'') None (Callable (Lambda1 (Add (Add (Reg B) (Reg IXH)) (RShift (Add (Reg C) (Reg IXL)) (Const 8))))) None, LDr IX (Callable (Lambda1 (BitAnd (Add (Reg IX) (Reg BC)) (Const 0xFFFF)))) ''value''],
      [IO 4 True NoTransform None ''value'', IO 3 True NoTransform None ''value''],
      ''ADD IX,BC'', (Some 2))"

definition ins_DD_19 :: entry where
  "ins_DD_19 =
     (0, [force_flag Flag_H (Callable (Lambda1 (IfExp (Gt (Add (Add (BitAnd (Reg D) (Const 0xF)) (BitAnd (Reg IXH) (Const 0xF))) (RShift (Add (Reg E) (Reg IXL)) (Const 8))) (Const 0xF)) (Const 1) (Const 0)))), set_flags ''--5-3-0C'' (Some ''value'') None (Callable (Lambda1 (Add (Add (Reg D) (Reg IXH)) (RShift (Add (Reg E) (Reg IXL)) (Const 8))))) None, LDr IX (Callable (Lambda1 (BitAnd (Add (Reg IX) (Reg DE)) (Const 0xFFFF)))) ''value''],
      [IO 4 True NoTransform None ''value'', IO 3 True NoTransform None ''value''],
      ''ADD IX,DE'', (Some 2))"

definition ins_DD_29 :: entry where
  "ins_DD_29 =
     (0, [force_flag Flag_H (Callable (Lambda1 (IfExp (Gt (Add (Add (BitAnd (Reg IXH) (Const 0xF)) (BitAnd (Reg IXH) (Const 0xF))) (RShift (Add (Reg IXL) (Reg IXL)) (Const 8))) (Const 0xF)) (Const 1) (Const 0)))), set_flags ''--5-3-0C'' (Some ''value'') None (Callable (Lambda1 (Add (Add (Reg IXH) (Reg IXH)) (RShift (Add (Reg IXL) (Reg IXL)) (Const 8))))) None, LDr IX (Callable (Lambda1 (BitAnd (Add (Reg IX) (Reg IX)) (Const 0xFFFF)))) ''value''],
      [IO 4 True NoTransform None ''value'', IO 3 True NoTransform None ''value''],
      ''ADD IX,IX'', (Some 2))"

definition ins_DD_39 :: entry where
  "ins_DD_39 =
     (0, [force_flag Flag_H (Callable (Lambda1 (IfExp (Gt (Add (Add (BitAnd (Reg SPH) (Const 0xF)) (BitAnd (Reg IXH) (Const 0xF))) (RShift (Add (Reg SPL) (Reg IXL)) (Const 8))) (Const 0xF)) (Const 1) (Const 0)))), set_flags ''--5-3-0C'' (Some ''value'') None (Callable (Lambda1 (Add (Add (Reg SPH) (Reg IXH)) (RShift (Add (Reg SPL) (Reg IXL)) (Const 8))))) None, LDr IX (Callable (Lambda1 (BitAnd (Add (Reg IX) (Reg SP)) (Const 0xFFFF)))) ''value''],
      [IO 4 True NoTransform None ''value'', IO 3 True NoTransform None ''value''],
      ''ADD IX,SP'', (Some 2))"

definition ins_DD_21 :: entry where
  "ins_DD_21 =
     (0, [],
      [OD (Some high_after_low) None ''value'' False, OD (Some high_after_low) (Some (LDr IX NoValue ''value'')) ''value'' False],
      ''LD IX,nn'', (Some 4))"

definition ins_DD_22 :: entry where
  "ins_DD_22 =
     (0, [],
      [OD (Some high_after_low) None ''address'' False, OD (Some high_after_low) None ''address'' False, MW None None NoValue (Some IXL) None 0, MW None None NoValue (Some IXH) None 0],
      ''LD (nn),IX'', (Some 4))"

definition ins_DD_23 :: entry where
  "ins_DD_23 =
     (0, [LDr IX (Callable (Lambda1 (BitAnd (Add (Reg IX) (Const 1)) (Const 0xFFFF)))) ''value''],
      [],
      ''INC IX'', (Some 2))"

definition ins_DD_2A :: entry where
  "ins_DD_2A =
     (0, [],
      [OD (Some high_after_low) None ''address'' False, OD (Some high_after_low) None ''address'' False, MR None None (Some high_after_low) (Some (LDr IXL NoValue ''value'')) True, MR None None (Some high_after_low) (Some (LDr IXH NoValue ''value'')) True],
      ''LD IX,(nn)'', (Some 4))"

definition ins_DD_2B :: entry where
  "ins_DD_2B =
     (0, [LDr IX (Callable (Lambda1 (BitAnd (Sub (Reg IX) (Const 1)) (Const 0xFFFF)))) ''value''],
      [],
      ''DEC IX'', (Some 2))"

definition ins_DD_34 :: entry where
  "ins_DD_34 =
     (0, [],
      [OD (Some high_after_low) None ''address'' True, IO 5 True (TransformDict [(''address'', add_register IX)]) None ''value'', MR None None (Some high_after_low) (Some (do_each [force_flag Flag_H (Callable (Lambda2 (IfExp (Gt (Add (BitAnd (Arg) (Const 0xF)) (Const 1)) (Const 0xF)) (Const 1) (Const 0)))), set_flags ''SZ5-3V0-'' (Some ''value'') None (Callable (Lambda2 (Add (Arg) (Const 1)))) None])) False, MW None None NoValue None None 0],
      ''INC (IX+d)'', (Some 3))"

definition ins_DD_35 :: entry where
  "ins_DD_35 =
     (0, [],
      [OD (Some high_after_low) None ''address'' True, IO 5 True (TransformDict [(''address'', add_register IX)]) None ''value'', MR None None (Some high_after_low) (Some (do_each [force_flag Flag_H (Callable (Lambda2 (IfExp (Lt (Sub (BitAnd (Arg) (Const 0xF)) (Const 1)) (Const 0x0)) (Const 1) (Const 0)))), set_flags ''SZ5H3V1-'' (Some ''value'') None (Callable (Lambda2 (Sub (Arg) (Const 1)))) None])) False, MW None None NoValue None None 0],
      ''DEC (IX+d)'', (Some 3))"

definition ins_DD_36 :: entry where
  "ins_DD_36 =
     (0, [],
      [OD (Some high_after_low) None ''address'' True, OD (Some high_after_low) None ''value'' False, IO 5 True (TransformDict [(''address'', add_register IX)]) None ''value'', MW None None NoValue None None 0],
      ''LD (IX+d),n'', (Some 3))"

definition ins_DD_46 :: entry where
  "ins_DD_46 =
     (0, [],
      [OD (Some high_after_low) None ''address'' True, IO 5 True (TransformDict [(''address'', add_register IX)]) None ''value'', MR None None (Some high_after_low) (Some (LDr B NoValue ''value'')) True],
      ''LD B,(IX+d)'', None)"

definition ins_DD_4E :: entry where
  "ins_DD_4E =
     (0, [],
      [OD (Some high_after_low) None ''address'' True, IO 5 True (TransformDict [(''address'', add_register IX)]) None ''value'', MR None None (Some high_after_low) (Some (LDr C NoValue ''value'')) True],
      ''LD C,(IX+d)'', (Some 3))"

definition ins_DD_56 :: entry where
  "ins_DD_56 =
     (0, [],
      [OD (Some high_after_low) None ''address'' True, IO 5 True (TransformDict [(''address'', add_register IX)]) None ''value'', MR None None (Some high_after_low) (Some (LDr D NoValue ''value'')) True],
      ''LD D,(IX+d)'', (Some 3))"

definition ins_DD_5E :: entry where
  "ins_DD_5E =
     (0, [],
      [OD (Some high_after_low) None ''address'' True, IO 5 True (TransformDict [(''address'', add_register IX)]) None ''value'', MR None None (Some high_after_low) (Some (LDr E NoValue ''value'')) True],
      ''LD E,(IX+d)'', (Some 3))"

definition ins_DD_66 :: entry where
  "ins_DD_66 =
     (0, [],
      [OD (Some high_after_low) None ''address'' True, IO 5 True (TransformDict [(''address'', add_register IX)]) None ''value'', MR None None (Some high_after_low) (Some (LDr H NoValue ''value'')) True],
      ''LD H,(IX+d)'', (Some 3))"

definition ins_DD_6E :: entry where
  "ins_DD_6E =
     (0, [],
      [OD (Some high_after_low) None ''address'' True, IO 5 True (TransformDict [(''address'', add_register IX)]) None ''value'', MR None None (Some high_after_low) (Some (LDr L NoValue ''value'')) True],
      ''LD L,(IX+d)'', (Some 3))"

definition ins_DD_70 :: entry where
  "ins_DD_70 =
     (0, [],
      [OD (Some high_after_low) None ''address'' True, IO 5 True (TransformDict [(''address'', add_register IX)]) None ''value'', MW None None NoValue (Some B) None 0],
      ''LD (IX+d),B'', (Some 3))"

definition ins_DD_71 :: entry where
  "ins_DD_71 =
     (0, [],
      [OD (Some high_after_low) None ''address'' True, IO 5 True (TransformDict [(''address'', add_register IX)]) None ''value'', MW None None NoValue (Some C) None 0],
      ''LD (IX+d),C'', (Some 3))"

definition ins_DD_72 :: entry where
  "ins_DD_72 =
     (0, [],
      [OD (Some high_after_low) None ''address'' True, IO 5 True (TransformDict [(''address'', add_register IX)]) None ''value'', MW None None NoValue (Some D) None 0],
      ''LD (IX+d),D'', (Some 3))"

definition ins_DD_73 :: entry where
  "ins_DD_73 =
     (0, [],
      [OD (Some high_after_low) None ''address'' True, IO 5 True (TransformDict [(''address'', add_register IX)]) None ''value'', MW None None NoValue (Some E) None 0],
      ''LD (IX+d),E'', None)"

definition ins_DD_74 :: entry where
  "ins_DD_74 =
     (0, [],
      [OD (Some high_after_low) None ''address'' True, IO 5 True (TransformDict [(''address'', add_register IX)]) None ''value'', MW None None NoValue (Some H) None 0],
      ''LD (IX+d),H'', (Some 3))"

definition ins_DD_75 :: entry where
  "ins_DD_75 =
     (0, [],
      [OD (Some high_after_low) None ''address'' True, IO 5 True (TransformDict [(''address'', add_register IX)]) None ''value'', MW None None NoValue (Some L) None 0],
      ''LD (IX+d),L'', (Some 3))"

definition ins_DD_77 :: entry where
  "ins_DD_77 =
     (0, [],
      [OD (Some high_after_low) None ''address'' True, IO 5 True (TransformDict [(''address'', add_register IX)]) None ''value'', MW None None NoValue (Some A) None 0],
      ''LD (IX+d),A'', (Some 3))"

definition ins_DD_7E :: entry where
  "ins_DD_7E =
     (0, [],
      [OD (Some high_after_low) None ''address'' True, IO 5 True (TransformDict [(''address'', add_register IX)]) None ''value'', MR None None (Some high_after_low) (Some (LDr A NoValue ''value'')) True],
      ''LD A,(IX+d)'', (Some 3))"

definition ins_DD_86 :: entry where
  "ins_DD_86 =
     (0, [],
      [OD (Some high_after_low) None ''address'' True, IO 5 True (TransformDict [(''address'', add_register IX)]) None ''value'', MR None None (Some high_after_low) (Some (do_each [force_flag Flag_H (Callable (Lambda2 (IfExp (Gt (Add (BitAnd (Reg A) (Const 0xF)) (BitAnd (Arg) (Const 0xF))) (Const 0xF)) (Const 1) (Const 0)))), set_flags ''SZ5H3V0C'' (Some ''value'') None (Callable (Lambda2 (Add (Reg A) (Arg)))) (Some A)])) True],
      ''ADD (IX+d)'', (Some 3))"

definition ins_DD_8E :: entry where
  "ins_DD_8E =
     (0, [],
      [OD (Some high_after_low) None ''address'' True, IO 5 True (TransformDict [(''address'', add_register IX)]) None ''value'', MR None None (Some high_after_low) (Some (do_each [force_flag Flag_H (Callable (Lambda2 (IfExp (Gt (Add (Add (BitAnd (Reg A) (Const 0xF)) (BitAnd (Arg) (Const 0xF))) (GetFlag Flag_C)) (Const 0xF)) (Const 1) (Const 0)))), set_flags ''SZ5H3V0C'' (Some ''value'') None (Callable (Lambda2 (Add (Add (Reg A) (Arg)) (GetFlag Flag_C)))) (Some A)])) True],
      ''ADC (IX+d)'', (Some 3))"

definition ins_DD_96 :: entry where
  "ins_DD_96 =
     (0, [],
      [OD (Some high_after_low) None ''address'' True, IO 5 True (TransformDict [(''address'', add_register IX)]) None ''value'', MR None None (Some high_after_low) (Some (do_each [force_flag Flag_H (Callable (Lambda2 (IfExp (Lt (Sub (BitAnd (Reg A) (Const 0xF)) (BitAnd (Arg) (Const 0xF))) (Const 0x0)) (Const 1) (Const 0)))), set_flags ''SZ5H3V1C'' (Some ''value'') None (Callable (Lambda2 (Sub (Reg A) (Arg)))) (Some A)])) True],
      ''SUB (IX+d)'', (Some 3))"

definition ins_DD_9E :: entry where
  "ins_DD_9E =
     (0, [],
      [OD (Some high_after_low) None ''address'' True, IO 5 True (TransformDict [(''address'', add_register IX)]) None ''value'', MR None None (Some high_after_low) (Some (do_each [force_flag Flag_H (Callable (Lambda2 (IfExp (Lt (Sub (Sub (BitAnd (Reg A) (Const 0xF)) (BitAnd (Arg) (Const 0xF))) (GetFlag Flag_C)) (Const 0x0)) (Const 1) (Const 0)))), set_flags ''SZ5H3V1C'' (Some ''value'') None (Callable (Lambda2 (Sub (Sub (Reg A) (Arg)) (GetFlag Flag_C)))) (Some A)])) True],
      ''SBC (IX+d)'', (Some 3))"

definition ins_DD_A6 :: entry where
  "ins_DD_A6 =
     (0, [],
      [OD (Some high_after_low) None ''address'' True, IO 5 True (TransformDict [(''address'', add_register IX)]) None ''value'', MR None None (Some high_after_low) (Some (set_flags ''SZ513P00'' (Some ''value'') None (Callable (Lambda2 (BitAnd (Reg A) (Arg)))) (Some A))) True],
      ''AND (IX+d)'', (Some 3))"

definition ins_DD_AE :: entry where
  "ins_DD_AE =
     (0, [],
      [OD (Some high_after_low) None ''address'' True, IO 5 True (TransformDict [(''address'', add_register IX)]) None ''value'', MR None None (Some high_after_low) (Some (set_flags ''SZ503P00'' (Some ''value'') None (Callable (Lambda2 (BitXor (Reg A) (Arg)))) (Some A))) True],
      ''XOR (IX+d)'', (Some 3))"

definition ins_DD_B6 :: entry where
  "ins_DD_B6 =
     (0, [],
      [OD (Some high_after_low) None ''address'' True, IO 5 True (TransformDict [(''address'', add_register IX)]) None ''value'', MR None None (Some high_after_low) (Some (set_flags ''SZ503P00'' (Some ''value'') None (Callable (Lambda2 (BitOr (Reg A) (Arg)))) (Some A))) True],
      ''OR (IX+d)'', (Some 3))"

definition ins_DD_BE :: entry where
  "ins_DD_BE =
     (0, [],
      [OD (Some high_after_low) None ''address'' True, IO 5 True (TransformDict [(''address'', add_register IX)]) None ''value'', MR None None (Some high_after_low) (Some (set_flags ''SZ5H3V1C'' (Some ''value'') None (Callable (Lambda2 (Sub (Reg A) (Arg)))) None)) True],
      ''CP (IX+d)'', (Some 3))"

definition ins_DD_CB :: entry where
  "ins_DD_CB =
     (0, [],
      [OD (Some high_after_low) None ''address'' True, IO 1 True (TransformDict [(''address'', add_register IX)]) None ''value'', OCF (Some (Tuple [0xDD, 0xCB])) False 0],
      ''-- second and third bytes of 4 byte op-code'', None)"

definition ins_DD_E1 :: entry where
  "ins_DD_E1 =
     (0, [],
      [SR (Some high_after_low) None 0, SR (Some high_after_low) (Some (LDr IX NoValue ''value'')) 0],
      ''POP IX'', (Some 2))"

definition ins_DD_E3 :: entry where
  "ins_DD_E3 =
     (0, [RRr ''H'' (Some IXH) NoValue, RRr ''L'' (Some IXL) NoValue],
      [SR (Some high_after_low) None 0, SR (Some high_after_low) (Some (LDr IX NoValue ''value'')) 1, SW None ''H'' 0 None, SW None ''L'' 2 None],
      ''EX (SP),IX'', None)"

definition ins_DD_E5 :: entry where
  "ins_DD_E5 =
     (1, [],
      [SW (Some IXH) ''value'' 0 None, SW (Some IXL) ''value'' 0 None],
      ''PUSH IX'', (Some 2))"

definition ins_DD_E9 :: entry where
  "ins_DD_E9 =
     (0, [JP NoValue None (Some IX)],
      [],
      ''JP (IX)'', (Some 2))"

definition ins_DD_F9 :: entry where
  "ins_DD_F9 =
     (0, [LDrs SP IX],
      [],
      ''LD SP,IX'', (Some 2))"

definition ins_ED_40 :: entry where
  "ins_ED_40 =
     (0, [],
      [PR (Some B) (Some C) (Some (set_flags ''SZ503P0-'' (Some ''value'') None NoValue None)) (Some B)],
      ''IN B,(C)'', (Some 2))"

definition ins_ED_41 :: entry where
  "ins_ED_41 =
     (0, [],
      [PW (Some B) (Some C) None (Some B)],
      ''OUT (C),B'', (Some 2))"

definition ins_ED_42 :: entry where
  "ins_ED_42 =
     (0, (SBC16 BC),
      [IO 4 True NoTransform None ''value'', IO 3 True NoTransform None ''value''],
      ''SBC HL,BC'', (Some 2))"

definition ins_ED_43 :: entry where
  "ins_ED_43 =
     (0, [],
      [OD (Some high_after_low) None ''address'' False, OD (Some high_after_low) None ''address'' False, MW None None NoValue (Some C) None 0, MW None None NoValue (Some B) None 0],
      ''LD (nn),BC'', (Some 4))"

definition ins_ED_44 :: entry where
  "ins_ED_44 =
     (0, [set_flags ''SZ513V11'' (Some ''value'') None (Callable (Lambda1 (BitAnd (USub (Reg A)) (Const 0xFF)))) (Some A)],
      [],
      ''NEG'', (Some 2))"

definition ins_ED_45 :: entry where
  "ins_ED_45 =
     (0, [],
      [SR (Some high_after_low) None 0, SR (Some high_after_low) (Some (do_each [restore_iff, JP NoValue None None])) 0],
      ''RETN'', (Some 2))"

definition ins_ED_46 :: entry where
  "ins_ED_46 =
     (0, [im 0],
      [],
      ''IM0'', (Some 2))"

definition ins_ED_47 :: entry where
  "ins_ED_47 =
     (0, [LDrs I A],
      [],
      ''LD I,A'', (Some 2))"

definition ins_ED_48 :: entry where
  "ins_ED_48 =
     (0, [],
      [PR (Some B) (Some C) (Some (set_flags ''SZ503P0-'' (Some ''value'') None NoValue None)) (Some C)],
      ''IN C,(C)'', (Some 2))"

definition ins_ED_49 :: entry where
  "ins_ED_49 =
     (0, [],
      [PW (Some B) (Some C) None (Some C)],
      ''OUT (C),C'', (Some 2))"

definition ins_ED_4B :: entry where
  "ins_ED_4B =
     (0, [],
      [OD (Some high_after_low) None ''address'' False, OD (Some high_after_low) None ''address'' False, MR None None (Some high_after_low) (Some (LDr C NoValue ''value'')) True, MR None None (Some high_after_low) (Some (LDr B NoValue ''value'')) True],
      ''LD BC,(nn)'', (Some 4))"

definition ins_ED_4A :: entry where
  "ins_ED_4A =
     (0, (ADC16 BC),
      [IO 4 True NoTransform None ''value'', IO 3 True NoTransform None ''value''],
      ''ADC HL,BC'', (Some 2))"

definition ins_ED_4D :: entry where
  "ins_ED_4D =
     (0, [],
      [SR (Some high_after_low) None 0, SR (Some high_after_low) (Some (JP NoValue None None)) 0],
      ''RETI'', (Some 2))"

definition ins_ED_4F :: entry where
  "ins_ED_4F =
     (0, [LDrs R A],
      [],
      ''LD R,A'', (Some 2))"

definition ins_ED_50 :: entry where
  "ins_ED_50 =
     (0, [],
      [PR (Some B) (Some C) (Some (set_flags ''SZ503P0-'' (Some ''value'') None NoValue None)) (Some D)],
      ''IN D,(C)'', (Some 2))"

definition ins_ED_51 :: entry where
  "ins_ED_51 =
     (0, [],
      [PW (Some B) (Some C) None (Some D)],
      ''OUT (C),D'', (Some 2))"

definition ins_ED_52 :: entry where
  "ins_ED_52 =
     (0, (SBC16 DE),
      [IO 4 True NoTransform None ''value'', IO 3 True NoTransform None ''value''],
      ''SBC HL,DE'', (Some 2))"

definition ins_ED_53 :: entry where
  "ins_ED_53 =
     (0, [],
      [OD (Some high_after_low) None ''address'' False, OD (Some high_after_low) None ''address'' False, MW None None NoValue (Some E) None 0, MW None None NoValue (Some D) None 0],
      ''LD (nn),DE'', (Some 4))"

definition ins_ED_56 :: entry where
  "ins_ED_56 =
     (0, [im 1],
      [],
      ''IM1'', (Some 2))"

definition ins_ED_57 :: entry where
  "ins_ED_57 =
     (0, [LDrs A I, set_flags ''SZ503*0-'' (Some ''value'') (Some I) NoValue None],
      [],
      ''LD A,I'', (Some 2))"

definition ins_ED_58 :: entry where
  "ins_ED_58 =
     (0, [],
      [PR (Some B) (Some C) (Some (set_flags ''SZ503P0-'' (Some ''value'') None NoValue None)) (Some E)],
      ''IN E,(C)'', (Some 2))"

definition ins_ED_59 :: entry where
  "ins_ED_59 =
     (0, [],
      [PW (Some B) (Some C) None (Some E)],
      ''OUT (C),E'', (Some 2))"

definition ins_ED_5A :: entry where
  "ins_ED_5A =
     (0, (ADC16 DE),
      [IO 4 True NoTransform None ''value'', IO 3 True NoTransform None ''value''],
      ''ADC HL,DE'', (Some 2))"

definition ins_ED_5B :: entry where
  "ins_ED_5B =
     (0, [],
      [OD (Some high_after_low) None ''address'' False, OD (Some high_after_low) None ''address'' False, MR None None (Some high_after_low) (Some (LDr E NoValue ''value'')) True, MR None None (Some high_after_low) (Some (LDr D NoValue ''value'')) True],
      ''LD DE,(nn)'', (Some 4))"

definition ins_ED_5E :: entry where
  "ins_ED_5E =
     (0, [im 2],
      [],
      ''IM2'', (Some 2))"

definition ins_ED_5F :: entry where
  "ins_ED_5F =
     (0, [LDrs A R, set_flags ''SZ503*0-'' (Some ''value'') (Some R) NoValue None],
      [],
      ''LD A,R'', (Some 2))"

definition ins_ED_60 :: entry where
  "ins_ED_60 =
     (0, [],
      [PR (Some B) (Some C) (Some (set_flags ''SZ503P0-'' (Some ''value'') None NoValue None)) (Some H)],
      ''IN H,(C)'', (Some 2))"

definition ins_ED_61 :: entry where
  "ins_ED_61 =
     (0, [],
      [PW (Some B) (Some C) None (Some H)],
      ''OUT (C),H'', (Some 2))"

definition ins_ED_62 :: entry where
  "ins_ED_62 =
     (0, (SBC16 HL),
      [IO 4 True NoTransform None ''value'', IO 3 True NoTransform None ''value''],
      ''SBC HL,HL'', (Some 2))"

definition ins_ED_67 :: entry where
  "ins_ED_67 =
     (0, [],
      [MR None (Some HL) (Some high_after_low) (Some (do_each [RRr ''value'' None (Callable (Lambda2 (BitOr (RShift (Arg) (Const 4)) (LShift (Reg A) (Const 4))))), set_flags ''SZ503P0-'' None None (Callable (Lambda2 (BitAnd (Arg) (Const 0x0F)))) (Some A)])) True, IO 4 True NoTransform None ''value'', MW None (Some HL) NoValue None None 0],
      ''RRD'', (Some 2))"

definition ins_ED_68 :: entry where
  "ins_ED_68 =
     (0, [],
      [PR (Some B) (Some C) (Some (set_flags ''SZ503P0-'' (Some ''value'') None NoValue None)) (Some L)],
      ''IN L,(C)'', (Some 2))"

definition ins_ED_69 :: entry where
  "ins_ED_69 =
     (0, [],
      [PW (Some B) (Some C) None (Some L)],
      ''OUT (C),L'', (Some 2))"

definition ins_ED_6A :: entry where
  "ins_ED_6A =
     (0, (ADC16 HL),
      [IO 4 True NoTransform None ''value'', IO 3 True NoTransform None ''value''],
      ''ADC HL,HL'', (Some 2))"

definition ins_ED_6F :: entry where
  "ins_ED_6F =
     (0, [],
      [MR None (Some HL) (Some high_after_low) (Some (do_each [RRr ''value'' None (Callable (Lambda2 (BitOr (LShift (Arg) (Const 4)) (BitAnd (Reg A) (Const 0x0F))))), set_flags ''SZ503P0-'' None None (Callable (Lambda2 (RShift (Arg) (Const 4)))) (Some A)])) True, IO 4 True NoTransform None ''value'', MW None (Some HL) NoValue None None 0],
      ''RLD'', (Some 2))"

definition ins_ED_70 :: entry where
  "ins_ED_70 =
     (0, [],
      [PR (Some B) (Some C) (Some (set_flags ''SZ503P0-'' (Some ''value'') None NoValue None)) (Some F)],
      ''IN F,(C) (undocumented)'', (Some 2))"

definition ins_ED_71 :: entry where
  "ins_ED_71 =
     (0, [],
      [PW (Some B) (Some C) None (Some F)],
      ''OUT (C),F (undocumented)'', (Some 2))"

definition ins_ED_72 :: entry where
  "ins_ED_72 =
     (0, (SBC16 SP),
      [IO 4 True NoTransform None ''value'', IO 3 True NoTransform None ''value''],
      ''SBC HL,SP'', (Some 2))"

definition ins_ED_73 :: entry where
  "ins_ED_73 =
     (0, [],
      [OD (Some high_after_low) None ''address'' False, OD (Some high_after_low) None ''address'' False, MW None None NoValue (Some SPL) None 0, MW None None NoValue (Some SPH) None 0],
      ''LD (nn),SP'', (Some 2))"

definition ins_ED_78 :: entry where
  "ins_ED_78 =
     (0, [],
      [PR (Some B) (Some C) (Some (set_flags ''SZ503P0-'' (Some ''value'') None NoValue None)) (Some A)],
      ''IN A,(C)'', (Some 2))"

definition ins_ED_79 :: entry where
  "ins_ED_79 =
     (0, [],
      [PW (Some B) (Some C) None (Some A)],
      ''OUT (C),A'', (Some 2))"

definition ins_ED_7A :: entry where
  "ins_ED_7A =
     (0, (ADC16 SP),
      [IO 4 True NoTransform None ''value'', IO 3 True NoTransform None ''value''],
      ''ADC HL,SP'', (Some 2))"

definition ins_ED_7B :: entry where
  "ins_ED_7B =
     (0, [],
      [OD (Some high_after_low) None ''address'' False, OD (Some high_after_low) None ''address'' False, MR None None (Some high_after_low) (Some (LDr SPL NoValue ''value'')) True, MR None None (Some high_after_low) (Some (LDr SPH NoValue ''value'')) True],
      ''LD SP,(nn)'', (Some 4))"

definition ins_ED_A0 :: entry where
  "ins_ED_A0 =
     (0, [],
      [MR None (Some HL) (Some high_after_low) None True, MW None (Some DE) NoValue None (Some (do_each [set_flags ''--50310-'' (Some ''value'') None (Callable (Lambda2 (Add (Kwarg ''value'') (Reg A)))) None, inc HL, inc DE, dec BC, on_zero BC (clear_flag Flag_V)])) 2],
      ''LDI'', (Some 2))"

definition ins_ED_A1 :: entry where
  "ins_ED_A1 =
     (0, [],
      [MR None (Some HL) (Some high_after_low) None True, IO 5 True (TransformDict [(''value'', subfrom A)]) (Some (do_each [set_flags ''-Z50311-'' (Some ''value'') None NoValue None, inc HL, dec BC, on_zero BC (clear_flag Flag_V)])) ''value''],
      ''CPI'', (Some 2))"

definition ins_ED_A2 :: entry where
  "ins_ED_A2 =
     (0, [],
      [PR (Some B) (Some C) None None, MW None (Some HL) NoValue None (Some (do_each [inc HL, dec B, set_flags ''SZ503P0-'' (Some ''value'') (Some B) NoValue None])) 0],
      ''INI'', (Some 2))"

definition ins_ED_A3 :: entry where
  "ins_ED_A3 =
     (0, [],
      [MR None (Some HL) (Some high_after_low) None True, PW (Some B) (Some C) (Some (do_each [inc HL, dec B, set_flags ''SZ503P0-'' (Some ''value'') (Some B) NoValue None])) None],
      ''OUTI'', (Some 2))"

definition ins_ED_A8 :: entry where
  "ins_ED_A8 =
     (0, [],
      [MR None (Some HL) (Some high_after_low) None True, MW None (Some DE) NoValue None (Some (do_each [set_flags ''--50310-'' (Some ''value'') None (Callable (Lambda2 (Add (Kwarg ''value'') (Reg A)))) None, dec HL, dec DE, dec BC, on_zero BC (clear_flag Flag_V)])) 2],
      ''LDD'', (Some 2))"

definition ins_ED_A9 :: entry where
  "ins_ED_A9 =
     (0, [],
      [MR None (Some HL) (Some high_after_low) None True, IO 5 True (TransformDict [(''value'', subfrom A)]) (Some (do_each [set_flags ''-Z50311-'' (Some ''value'') None NoValue None, dec HL, dec BC, on_zero BC (clear_flag Flag_V)])) ''value''],
      ''CPD'', (Some 2))"

definition ins_ED_AA :: entry where
  "ins_ED_AA =
     (0, [],
      [PR (Some B) (Some C) None None, MW None (Some HL) NoValue None (Some (do_each [dec HL, dec B, set_flags ''SZ503P0-'' (Some ''value'') (Some B) NoValue None])) 0],
      ''IND'', (Some 2))"

definition ins_ED_AB :: entry where
  "ins_ED_AB =
     (0, [],
      [MR None (Some HL) (Some high_after_low) None True, PW (Some B) (Some C) (Some (do_each [dec HL, dec B, set_flags ''SZ503P0-'' (Some ''value'') (Some B) NoValue None])) None],
      ''OUTD'', (Some 2))"

definition ins_ED_B0 :: entry where
  "ins_ED_B0 =
     (0, [],
      [MR None (Some HL) (Some high_after_low) None True, MW None (Some DE) NoValue None (Some (do_each [set_flags ''--50310-'' (Some ''value'') None (Callable (Lambda2 (Add (Kwarg ''value'') (Reg A)))) None, inc HL, inc DE, dec BC, on_zero BC (clear_flag Flag_V), on_zero BC (early_abort)])) 2, IO 5 True NoTransform (Some (do_each [dec PC, dec PC])) ''value''],
      ''LDIR'', (Some 2))"

definition ins_ED_B1 :: entry where
  "ins_ED_B1 =
     (0, [],
      [MR None (Some HL) (Some high_after_low) None True, IO 5 True (TransformDict [(''value'', subfrom A)]) (Some (do_each [set_flags ''-Z50311-'' (Some ''value'') None NoValue None, inc HL, dec BC, on_zero BC (clear_flag Flag_V), on_zero BC (early_abort), on_flag Flag_Z (early_abort)])) ''value'', IO 5 True NoTransform (Some (do_each [dec PC, dec PC])) ''value''],
      ''CPIR'', (Some 2))"

definition ins_ED_B2 :: entry where
  "ins_ED_B2 =
     (0, [],
      [PR (Some B) (Some C) None None, MW None (Some HL) NoValue None (Some (do_each [inc HL, dec B, set_flags ''SZ503P0-'' (Some ''value'') (Some B) NoValue None, on_flag Flag_Z (early_abort)])) 0, IO 5 True NoTransform (Some (do_each [dec PC, dec PC])) ''value''],
      ''INIR'', (Some 2))"

definition ins_ED_B3 :: entry where
  "ins_ED_B3 =
     (0, [],
      [MR None (Some HL) (Some high_after_low) None True, PW (Some B) (Some C) (Some (do_each [inc HL, dec B, set_flags ''SZ503P0-'' (Some ''value'') (Some B) NoValue None, on_flag Flag_Z (early_abort)])) None, IO 5 True NoTransform (Some (do_each [dec PC, dec PC])) ''value''],
      ''OUTIR'', (Some 2))"

definition ins_ED_B8 :: entry where
  "ins_ED_B8 =
     (0, [],
      [MR None (Some HL) (Some high_after_low) None True, MW None (Some DE) NoValue None (Some (do_each [set_flags ''--50310-'' (Some ''value'') None (Callable (Lambda2 (Add (Kwarg ''value'') (Reg A)))) None, dec HL, dec DE, dec BC, on_zero BC (clear_flag Flag_V), on_zero BC (early_abort)])) 2, IO 5 True NoTransform (Some (do_each [dec PC, dec PC])) ''value''],
      ''LDDR'', (Some 2))"

definition ins_ED_B9 :: entry where
  "ins_ED_B9 =
     (0, [],
      [MR None (Some HL) (Some high_after_low) None True, IO 5 True (TransformDict [(''value'', subfrom A)]) (Some (do_each [set_flags ''-Z50311-'' (Some ''value'') None NoValue None, dec HL, dec BC, on_zero BC (clear_flag Flag_V), on_zero BC (early_abort), on_flag Flag_Z (early_abort)])) ''value'', IO 5 True NoTransform (Some (do_each [dec PC, dec PC])) ''value''],
      ''CPDR'', (Some 2))"

definition ins_ED_BA :: entry where
  "ins_ED_BA =
     (0, [],
      [PR (Some B) (Some C) None None, MW None (Some HL) NoValue None (Some (do_each [dec HL, dec B, set_flags ''SZ503P0-'' (Some ''value'') (Some B) NoValue None, on_flag Flag_Z (early_abort)])) 0, IO 5 True NoTransform (Some (do_each [dec PC, dec PC])) ''value''],
      ''INDR'', (Some 2))"

definition ins_ED_BB :: entry where
  "ins_ED_BB =
     (0, [],
      [MR None (Some HL) (Some high_after_low) None True, PW (Some B) (Some C) (Some (do_each [dec HL, dec B, set_flags ''SZ503P0-'' (Some ''value'') (Some B) NoValue None, on_flag Flag_Z (early_abort)])) None, IO 5 True NoTransform (Some (do_each [dec PC, dec PC])) ''value''],
      ''OUTDR'', (Some 2))"

definition ins_FD_09 :: entry where
  "ins_FD_09 =
     (0, [force_flag Flag_H (Callable (Lambda1 (IfExp (Gt (Add (Add (BitAnd (Reg B) (Const 0xF)) (BitAnd (Reg IYH) (Const 0xF))) (RShift (Add (Reg C) (Reg IYL)) (Const 8))) (Const 0xF)) (Const 1) (Const 0)))), set_flags ''--5-3-0C'' (Some ''value'') None (Callable (Lambda1 (Add (Add (Reg B) (Reg IYH)) (RShift (Add (Reg C) (Reg IYL)) (Const 8))))) None, LDr IY (Callable (Lambda1 (BitAnd (Add (Reg IY) (Reg BC)) (Const 0xFFFF)))) ''value''],
      [IO 4 True NoTransform None ''value'', IO 3 True NoTransform None ''value''],
      ''ADD IY,BC'', (Some 2))"

definition ins_FD_19 :: entry where
  "ins_FD_19 =
     (0, [force_flag Flag_H (Callable (Lambda1 (IfExp (Gt (Add (Add (BitAnd (Reg D) (Const 0xF)) (BitAnd (Reg IYH) (Const 0xF))) (RShift (Add (Reg E) (Reg IYL)) (Const 8))) (Const 0xF)) (Const 1) (Const 0)))), set_flags ''--5-3-0C'' (Some ''value'') None (Callable (Lambda1 (Add (Add (Reg D) (Reg IYH)) (RShift (Add (Reg E) (Reg IYL)) (Const 8))))) None, LDr IY (Callable (Lambda1 (BitAnd (Add (Reg IY) (Reg DE)) (Const 0xFFFF)))) ''value''],
      [IO 4 True NoTransform None ''value'', IO 3 True NoTransform None ''value''],
      ''ADD IY,DE'', (Some 2))"

definition ins_FD_23 :: entry where
  "ins_FD_23 =
     (0, [LDr IY (Callable (Lambda1 (BitAnd (Add (Reg IY) (Const 1)) (Const 0xFFFF)))) ''value''],
      [],
      ''INC IY'', (Some 2))"

definition ins_FD_29 :: entry where
  "ins_FD_29 =
     (0, [force_flag Flag_H (Callable (Lambda1 (IfExp (Gt (Add (Add (BitAnd (Reg IYH) (Const 0xF)) (BitAnd (Reg IYH) (Const 0xF))) (RShift (Add (Reg IYL) (Reg IYL)) (Const 8))) (Const 0xF)) (Const 1) (Const 0)))), set_flags ''--5-3-0C'' (Some ''value'') None (Callable (Lambda1 (Add (Add (Reg IYH) (Reg IYH)) (RShift (Add (Reg IYL) (Reg IYL)) (Const 8))))) None, LDr IY (Callable (Lambda1 (BitAnd (Add (Reg IY) (Reg IY)) (Const 0xFFFF)))) ''value''],
      [IO 4 True NoTransform None ''value'', IO 3 True NoTransform None ''value''],
      ''ADD IY,IY'', (Some 2))"

definition ins_FD_2B :: entry where
  "ins_FD_2B =
     (0, [LDr IY (Callable (Lambda1 (BitAnd (Sub (Reg IY) (Const 1)) (Const 0xFFFF)))) ''value''],
      [],
      ''DEC IY'', (Some 2))"

definition ins_FD_39 :: entry where
  "ins_FD_39 =
     (0, [force_flag Flag_H (Callable (Lambda1 (IfExp (Gt (Add (Add (BitAnd (Reg SPH) (Const 0xF)) (BitAnd (Reg IYH) (Const 0xF))) (RShift (Add (Reg SPL) (Reg IYL)) (Const 8))) (Const 0xF)) (Const 1) (Const 0)))), set_flags ''--5-3-0C'' (Some ''value'') None (Callable (Lambda1 (Add (Add (Reg SPH) (Reg IYH)) (RShift (Add (Reg SPL) (Reg IYL)) (Const 8))))) None, LDr IY (Callable (Lambda1 (BitAnd (Add (Reg IY) (Reg SP)) (Const 0xFFFF)))) ''value''],
      [IO 4 True NoTransform None ''value'', IO 3 True NoTransform None ''value''],
      ''ADD IY,SP'', (Some 2))"

definition ins_FD_21 :: entry where
  "ins_FD_21 =
     (0, [],
      [OD (Some high_after_low) None ''value'' False, OD (Some high_after_low) (Some (LDr IY NoValue ''value'')) ''value'' False],
      ''LD IY,nn'', (Some 4))"

definition ins_FD_22 :: entry where
  "ins_FD_22 =
     (0, [],
      [OD (Some high_after_low) None ''address'' False, OD (Some high_after_low) None ''address'' False, MW None None NoValue (Some IYL) None 0, MW None None NoValue (Some IYH) None 0],
      ''LD (nn),IY'', (Some 4))"

definition ins_FD_2A :: entry where
  "ins_FD_2A =
     (0, [],
      [OD (Some high_after_low) None ''address'' False, OD (Some high_after_low) None ''address'' False, MR None None (Some high_after_low) (Some (LDr IYL NoValue ''value'')) True, MR None None (Some high_after_low) (Some (LDr IYH NoValue ''value'')) True],
      ''LD IY,(nn)'', (Some 4))"

definition ins_FD_34 :: entry where
  "ins_FD_34 =
     (0, [],
      [OD (Some high_after_low) None ''address'' True, IO 5 True (TransformDict [(''address'', add_register IY)]) None ''value'', MR None None (Some high_after_low) (Some (do_each [force_flag Flag_H (Callable (Lambda2 (IfExp (Gt (Add (BitAnd (Arg) (Const 0xF)) (Const 1)) (Const 0xF)) (Const 1) (Const 0)))), set_flags ''SZ5-3V0-'' (Some ''value'') None (Callable (Lambda2 (Add (Arg) (Const 1)))) None])) False, MW None None NoValue None None 0],
      ''INC (IY+d)'', (Some 3))"

definition ins_FD_35 :: entry where
  "ins_FD_35 =
     (0, [],
      [OD (Some high_after_low) None ''address'' True, IO 5 True (TransformDict [(''address'', add_register IY)]) None ''value'', MR None None (Some high_after_low) (Some (do_each [force_flag Flag_H (Callable (Lambda2 (IfExp (Lt (Sub (BitAnd (Arg) (Const 0xF)) (Const 1)) (Const 0x0)) (Const 1) (Const 0)))), set_flags ''SZ5H3V1-'' (Some ''value'') None (Callable (Lambda2 (Sub (Arg) (Const 1)))) None])) False, MW None None NoValue None None 0],
      ''DEC (IY+d)'', (Some 3))"

definition ins_FD_36 :: entry where
  "ins_FD_36 =
     (0, [],
      [OD (Some high_after_low) None ''address'' True, OD (Some high_after_low) None ''value'' False, IO 5 True (TransformDict [(''address'', add_register IY)]) None ''value'', MW None None NoValue None None 0],
      ''LD (IY+d),n'', (Some 4))"

definition ins_FD_46 :: entry where
  "ins_FD_46 =
     (0, [],
      [OD (Some high_after_low) None ''address'' True, IO 5 True (TransformDict [(''address'', add_register IY)]) None ''value'', MR None None (Some high_after_low) (Some (LDr B NoValue ''value'')) True],
      ''LD B,(IY+d)'', (Some 3))"

definition ins_FD_4E :: entry where
  "ins_FD_4E =
     (0, [],
      [OD (Some high_after_low) None ''address'' True, IO 5 True (TransformDict [(''address'', add_register IY)]) None ''value'', MR None None (Some high_after_low) (Some (LDr C NoValue ''value'')) True],
      ''LD C,(IY+d)'', (Some 3))"

definition ins_FD_56 :: entry where
  "ins_FD_56 =
     (0, [],
      [OD (Some high_after_low) None ''address'' True, IO 5 True (TransformDict [(''address'', add_register IY)]) None ''value'', MR None None (Some high_after_low) (Some (LDr D NoValue ''value'')) True],
      ''LD D,(IY+d)'', (Some 3))"

definition ins_FD_5E :: entry where
  "ins_FD_5E =
     (0, [],
      [OD (Some high_after_low) None ''address'' True, IO 5 True (TransformDict [(''address'', add_register IY)]) None ''value'', MR None None (Some high_after_low) (Some (LDr E NoValue ''value'')) True],
      ''LD E,(IY+d)'', (Some 3))"

definition ins_FD_66 :: entry where
  "ins_FD_66 =
     (0, [],
      [OD (Some high_after_low) None ''address'' True, IO 5 True (TransformDict [(''address'', add_register IY)]) None ''value'', MR None None (Some high_after_low) (Some (LDr H NoValue ''value'')) True],
      ''LD H,(IY+d)'', (Some 3))"

definition ins_FD_6E :: entry where
  "ins_FD_6E =
     (0, [],
      [OD (Some high_after_low) None ''address'' True, IO 5 True (TransformDict [(''address'', add_register IY)]) None ''value'', MR None None (Some high_after_low) (Some (LDr L NoValue ''value'')) True],
      ''LD L,(IY+d)'', (Some 3))"

definition ins_FD_70 :: entry where
  "ins_FD_70 =
     (0, [],
      [OD (Some high_after_low) None ''address'' True, IO 5 True (TransformDict [(''address'', add_register IY)]) None ''value'', MW None None NoValue (Some B) None 0],
      ''LD (IY+d),B'', (Some 3))"

definition ins_FD_71 :: entry where
  "ins_FD_71 =
     (0, [],
      [OD (Some high_after_low) None ''address'' True, IO 5 True (TransformDict [(''address'', add_register IY)]) None ''value'', MW None None NoValue (Some C) None 0],
      ''LD (IY+d),C'', (Some 3))"

definition ins_FD_72 :: entry where
  "ins_FD_72 =
     (0, [],
      [OD (Some high_after_low) None ''address'' True, IO 5 True (TransformDict [(''address'', add_register IY)]) None ''value'', MW None None NoValue (Some D) None 0],
      ''LD (IY+d),D'', (Some 3))"

definition ins_FD_73 :: entry where
  "ins_FD_73 =
     (0, [],
      [OD (Some high_after_low) None ''address'' True, IO 5 True (TransformDict [(''address'', add_register IY)]) None ''value'', MW None None NoValue (Some E) None 0],
      ''LD (IY+d),E'', (Some 3))"

definition ins_FD_74 :: entry where
  "ins_FD_74 =
     (0, [],
      [OD (Some high_after_low) None ''address'' True, IO 5 True (TransformDict [(''address'', add_register IY)]) None ''value'', MW None None NoValue (Some H) None 0],
      ''LD (IY+d),H'', (Some 3))"

definition ins_FD_75 :: entry where
  "ins_FD_75 =
     (0, [],
      [OD (Some high_after_low) None ''address'' True, IO 5 True (TransformDict [(''address'', add_register IY)]) None ''value'', MW None None NoValue (Some L) None 0],
      ''LD (IY+d),L'', (Some 3))"

definition ins_FD_77 :: entry where
  "ins_FD_77 =
     (0, [],
      [OD (Some high_after_low) None ''address'' True, IO 5 True (TransformDict [(''address'', add_register IY)]) None ''value'', MW None None NoValue (Some A) None 0],
      ''LD (IY+d),A'', (Some 3))"

definition ins_FD_7E :: entry where
  "ins_FD_7E =
     (0, [],
      [OD (Some high_after_low) None ''address'' True, IO 5 True (TransformDict [(''address'', add_register IY)]) None ''value'', MR None None (Some high_after_low) (Some (LDr A NoValue ''value'')) True],
      ''LD A,(IY+d)'', (Some 3))"

definition ins_FD_86 :: entry where
  "ins_FD_86 =
     (0, [],
      [OD (Some high_after_low) None ''address'' True, IO 5 True (TransformDict [(''address'', add_register IY)]) None ''value'', MR None None (Some high_after_low) (Some (do_each [force_flag Flag_H (Callable (Lambda2 (IfExp (Gt (Add (BitAnd (Reg A) (Const 0xF)) (BitAnd (Arg) (Const 0xF))) (Const 0xF)) (Const 1) (Const 0)))), set_flags ''SZ5H3V0C'' (Some ''value'') None (Callable (Lambda2 (Add (Reg A) (Arg)))) (Some A)])) True],
      ''ADD (IY+d)'', (Some 3))"

definition ins_FD_8E :: entry where
  "ins_FD_8E =
     (0, [],
      [OD (Some high_after_low) None ''address'' True, IO 5 True (TransformDict [(''address'', add_register IY)]) None ''value'', MR None None (Some high_after_low) (Some (do_each [force_flag Flag_H (Callable (Lambda2 (IfExp (Gt (Add (Add (BitAnd (Reg A) (Const 0xF)) (BitAnd (Arg) (Const 0xF))) (GetFlag Flag_C)) (Const 0xF)) (Const 1) (Const 0)))), set_flags ''SZ5H3V0C'' (Some ''value'') None (Callable (Lambda2 (Add (Add (Reg A) (Arg)) (GetFlag Flag_C)))) (Some A)])) True],
      ''ADC (IY+d)'', (Some 3))"

definition ins_FD_96 :: entry where
  "ins_FD_96 =
     (0, [],
      [OD (Some high_after_low) None ''address'' True, IO 5 True (TransformDict [(''address'', add_register IY)]) None ''value'', MR None None (Some high_after_low) (Some (do_each [force_flag Flag_H (Callable (Lambda2 (IfExp (Lt (Sub (BitAnd (Reg A) (Const 0xF)) (BitAnd (Arg) (Const 0xF))) (Const 0x0)) (Const 1) (Const 0)))), set_flags ''SZ5H3V1C'' (Some ''value'') None (Callable (Lambda2 (Sub (Reg A) (Arg)))) (Some A)])) True],
      ''SUB (IY+d)'', (Some 3))"

definition ins_FD_9E :: entry where
  "ins_FD_9E =
     (0, [],
      [OD (Some high_after_low) None ''address'' True, IO 5 True (TransformDict [(''address'', add_register IY)]) None ''value'', MR None None (Some high_after_low) (Some (do_each [force_flag Flag_H (Callable (Lambda2 (IfExp (Lt (Sub (Sub (BitAnd (Reg A) (Const 0xF)) (BitAnd (Arg) (Const 0xF))) (GetFlag Flag_C)) (Const 0x0)) (Const 1) (Const 0)))), set_flags ''SZ5H3V1C'' (Some ''value'') None (Callable (Lambda2 (Sub (Sub (Reg A) (Arg)) (GetFlag Flag_C)))) (Some A)])) True],
      ''SBC (IY+d)'', (Some 3))"

definition ins_FD_A6 :: entry where
  "ins_FD_A6 =
     (0, [],
      [OD (Some high_after_low) None ''address'' True, IO 5 True (TransformDict [(''address'', add_register IY)]) None ''value'', MR None None (Some high_after_low) (Some (set_flags ''SZ513P00'' (Some ''value'') None (Callable (Lambda2 (BitAnd (Reg A) (Arg)))) (Some A))) True],
      ''AND (IY+d)'', (Some 3))"

definition ins_FD_AE :: entry where
  "ins_FD_AE =
     (0, [],
      [OD (Some high_after_low) None ''address'' True, IO 5 True (TransformDict [(''address'', add_register IY)]) None ''value'', MR None None (Some high_after_low) (Some (set_flags ''SZ503P00'' (Some ''value'') None (Callable (Lambda2 (BitXor (Reg A) (Arg)))) (Some A))) True],
      ''XOR (IY+d)'', (Some 3))"

definition ins_FD_B6 :: entry where
  "ins_FD_B6 =
     (0, [],
      [OD (Some high_after_low) None ''address'' True, IO 5 True (TransformDict [(''address'', add_register IY)]) None ''value'', MR None None (Some high_after_low) (Some (set_flags ''SZ503P00'' (Some ''value'') None (Callable (Lambda2 (BitOr (Reg A) (Arg)))) (Some A))) True],
      ''OR (IY+d)'', (Some 3))"

definition ins_FD_BE :: entry where
  "ins_FD_BE =
     (0, [],
      [OD (Some high_after_low) None ''address'' True, IO 5 True (TransformDict [(''address'', add_register IY)]) None ''value'', MR None None (Some high_after_low) (Some (set_flags ''SZ5H3V1C'' (Some ''value'') None (Callable (Lambda2 (Sub (Reg A) (Arg)))) None)) True],
      ''CP (IY+d)'', (Some 3))"

definition ins_FD_CB :: entry where
  "ins_FD_CB =
     (0, [],
      [OD (Some high_after_low) None ''address'' True, IO 1 True (TransformDict [(''address'', add_register IY)]) None ''value'', OCF (Some (Tuple [0xFD, 0xCB])) False 0],
      '''', (Some 0))"

definition ins_FD_E1 :: entry where
  "ins_FD_E1 =
     (0, [],
      [SR (Some high_after_low) None 0, SR (Some high_after_low) (Some (LDr IY NoValue ''value'')) 0],
      ''POP IY'', (Some 2))"

definition ins_FD_E3 :: entry where
  "ins_FD_E3 =
     (0, [RRr ''H'' (Some IYH) NoValue, RRr ''L'' (Some IYL) NoValue],
      [SR (Some high_after_low) None 0, SR (Some high_after_low) (Some (LDr IY NoValue ''value'')) 1, SW None ''H'' 0 None, SW None ''L'' 2 None],
      ''EX (SP),IY'', (Some 2))"

definition ins_FD_E5 :: entry where
  "ins_FD_E5 =
     (1, [],
      [SW (Some IYH) ''value'' 0 None, SW (Some IYL) ''value'' 0 None],
      ''PUSH IY'', (Some 2))"

definition ins_FD_E9 :: entry where
  "ins_FD_E9 =
     (0, [JP NoValue None (Some IY)],
      [],
      ''JP (IY)'', (Some 2))"

definition ins_FD_F9 :: entry where
  "ins_FD_F9 =
     (0, [LDrs SP IY],
      [],
      ''LD SP,IY'', (Some 2))"

definition ins_DD_CB_06 :: entry where
  "ins_DD_CB_06 =
     (0, [],
      [MR None None (Some high_after_low) (Some (RLC None ''value'')) False, MW None None NoValue None None 0],
      ''RLC (IX+d)'', (Some 4))"

definition ins_DD_CB_0E :: entry where
  "ins_DD_CB_0E =
     (0, [],
      [MR None None (Some high_after_low) (Some (RRC None ''value'')) False, MW None None NoValue None None 0],
      ''RRC (IX+d)'', (Some 4))"

definition ins_DD_CB_16 :: entry where
  "ins_DD_CB_16 =
     (0, [],
      [MR None None (Some high_after_low) (Some (RL None ''value'')) False, MW None None NoValue None None 0],
      ''RL (IX+d)'', (Some 4))"

definition ins_DD_CB_1E :: entry where
  "ins_DD_CB_1E =
     (0, [],
      [MR None None (Some high_after_low) (Some (RR None ''value'')) False, MW None None NoValue None None 0],
      ''RR (IX+d)'', (Some 4))"

definition ins_DD_CB_26 :: entry where
  "ins_DD_CB_26 =
     (0, [],
      [MR None None (Some high_after_low) (Some (SLA None ''value'')) False, MW None None NoValue None None 0],
      ''SLA (IX+d)'', (Some 4))"

definition ins_DD_CB_2E :: entry where
  "ins_DD_CB_2E =
     (0, [],
      [MR None None (Some high_after_low) (Some (SRA None ''value'')) False, MW None None NoValue None None 0],
      ''SRA (IX+d)'', (Some 4))"

definition ins_DD_CB_36 :: entry where
  "ins_DD_CB_36 =
     (0, [],
      [MR None None (Some high_after_low) (Some (SL1 None ''value'')) False, MW None None NoValue None None 0],
      ''SL1 (IX+d) (undocumemnted)'', (Some 4))"

definition ins_DD_CB_3E :: entry where
  "ins_DD_CB_3E =
     (0, [],
      [MR None None (Some high_after_low) (Some (SRL None ''value'')) False, MW None None NoValue None None 0],
      ''SRA (IX+d)'', (Some 4))"

definition ins_DD_CB_46 :: entry where
  "ins_DD_CB_46 =
     (0, [],
      [MR None None (Some high_after_low) (Some (BIT 0 None)) True],
      ''BIT 0,(IX+d)'', (Some 4))"

definition ins_DD_CB_4E :: entry where
  "ins_DD_CB_4E =
     (0, [],
      [MR None None (Some high_after_low) (Some (BIT 1 None)) True],
      ''BIT 1,(IX+d)'', (Some 4))"

definition ins_DD_CB_56 :: entry where
  "ins_DD_CB_56 =
     (0, [],
      [MR None None (Some high_after_low) (Some (BIT 2 None)) True],
      ''BIT 2,(IX+d)'', (Some 4))"

definition ins_DD_CB_5E :: entry where
  "ins_DD_CB_5E =
     (0, [],
      [MR None None (Some high_after_low) (Some (BIT 3 None)) True],
      ''BIT 3,(IX+d)'', (Some 4))"

definition ins_DD_CB_66 :: entry where
  "ins_DD_CB_66 =
     (0, [],
      [MR None None (Some high_after_low) (Some (BIT 4 None)) True],
      ''BIT 4,(IX+d)'', (Some 4))"

definition ins_DD_CB_6E :: entry where
  "ins_DD_CB_6E =
     (0, [],
      [MR None None (Some high_after_low) (Some (BIT 5 None)) True],
      ''BIT 5,(IX+d)'', (Some 4))"

definition ins_DD_CB_76 :: entry where
  "ins_DD_CB_76 =
     (0, [],
      [MR None None (Some high_after_low) (Some (BIT 6 None)) True],
      ''BIT 6,(IX+d)'', (Some 4))"

definition ins_DD_CB_7E :: entry where
  "ins_DD_CB_7E =
     (0, [],
      [MR None None (Some high_after_low) (Some (BIT 7 None)) True],
      ''BIT 7,(IX+d)'', (Some 4))"

definition ins_DD_CB_86 :: entry where
  "ins_DD_CB_86 =
     (0, [],
      [MR None None (Some high_after_low) (Some (RES 0 None ''value'')) False, MW None None NoValue None None 0],
      ''RES 0,(IX+d)'', (Some 4))"

definition ins_DD_CB_8E :: entry where
  "ins_DD_CB_8E =
     (0, [],
      [MR None None (Some high_after_low) (Some (RES 1 None ''value'')) False, MW None None NoValue None None 0],
      ''RES 1,(IX+d)'', (Some 4))"

definition ins_DD_CB_96 :: entry where
  "ins_DD_CB_96 =
     (0, [],
      [MR None None (Some high_after_low) (Some (RES 2 None ''value'')) False, MW None None NoValue None None 0],
      ''RES 2,(IX+d)'', (Some 4))"

definition ins_DD_CB_9E :: entry where
  "ins_DD_CB_9E =
     (0, [],
      [MR None None (Some high_after_low) (Some (RES 3 None ''value'')) False, MW None None NoValue None None 0],
      ''RES 3,(IX+d)'', (Some 4))"

definition ins_DD_CB_A6 :: entry where
  "ins_DD_CB_A6 =
     (0, [],
      [MR None None (Some high_after_low) (Some (RES 4 None ''value'')) False, MW None None NoValue None None 0],
      ''RES 4,(IX+d)'', (Some 4))"

definition ins_DD_CB_AE :: entry where
  "ins_DD_CB_AE =
     (0, [],
      [MR None None (Some high_after_low) (Some (RES 5 None ''value'')) False, MW None None NoValue None None 0],
      ''RES 5,(IX+d)'', (Some 4))"

definition ins_DD_CB_B6 :: entry where
  "ins_DD_CB_B6 =
     (0, [],
      [MR None None (Some high_after_low) (Some (RES 6 None ''value'')) False, MW None None NoValue None None 0],
      ''RES 6,(IX+d)'', (Some 4))"

definition ins_DD_CB_BE :: entry where
  "ins_DD_CB_BE =
     (0, [],
      [MR None None (Some high_after_low) (Some (RES 7 None ''value'')) False, MW None None NoValue None None 0],
      ''RES 7,(IX+d)'', (Some 4))"

definition ins_DD_CB_C6 :: entry where
  "ins_DD_CB_C6 =
     (0, [],
      [MR None None (Some high_after_low) (Some (SET 0 None ''value'')) False, MW None None NoValue None None 0],
      ''SET 0,(IX+d)'', (Some 4))"

definition ins_DD_CB_CE :: entry where
  "ins_DD_CB_CE =
     (0, [],
      [MR None None (Some high_after_low) (Some (SET 1 None ''value'')) False, MW None None NoValue None None 0],
      ''SET 1,(IX+d)'', (Some 4))"

definition ins_DD_CB_D6 :: entry where
  "ins_DD_CB_D6 =
     (0, [],
      [MR None None (Some high_after_low) (Some (SET 2 None ''value'')) False, MW None None NoValue None None 0],
      ''SET 2,(IX+d)'', (Some 4))"

definition ins_DD_CB_DE :: entry where
  "ins_DD_CB_DE =
     (0, [],
      [MR None None (Some high_after_low) (Some (SET 3 None ''value'')) False, MW None None NoValue None None 0],
      ''SET 3,(IX+d)'', (Some 4))"

definition ins_DD_CB_E6 :: entry where
  "ins_DD_CB_E6 =
     (0, [],
      [MR None None (Some high_after_low) (Some (SET 4 None ''value'')) False, MW None None NoValue None None 0],
      ''SET 4,(IX+d)'', (Some 4))"

definition ins_DD_CB_EE :: entry where
  "ins_DD_CB_EE =
     (0, [],
      [MR None None (Some high_after_low) (Some (SET 5 None ''value'')) False, MW None None NoValue None None 0],
      ''SET 5,(IX+d)'', (Some 4))"

definition ins_DD_CB_F6 :: entry where
  "ins_DD_CB_F6 =
     (0, [],
      [MR None None (Some high_after_low) (Some (SET 6 None ''value'')) False, MW None None NoValue None None 0],
      ''SET 6,(IX+d)'', (Some 4))"

definition ins_DD_CB_FE :: entry where
  "ins_DD_CB_FE =
     (0, [],
      [MR None None (Some high_after_low) (Some (SET 7 None ''value'')) False, MW None None NoValue None None 0],
      ''SET 7,(IX+d)'', (Some 4))"

definition ins_FD_CB_06 :: entry where
  "ins_FD_CB_06 =
     (0, [],
      [MR None None (Some high_after_low) (Some (RLC None ''value'')) False, MW None None NoValue None None 0],
      ''RLC (IY+d)'', (Some 4))"

definition ins_FD_CB_0E :: entry where
  "ins_FD_CB_0E =
     (0, [],
      [MR None None (Some high_after_low) (Some (RRC None ''value'')) False, MW None None NoValue None None 0],
      ''RRC (IY+d)'', (Some 4))"

definition ins_FD_CB_16 :: entry where
  "ins_FD_CB_16 =
     (0, [],
      [MR None None (Some high_after_low) (Some (RL None ''value'')) False, MW None None NoValue None None 0],
      ''RL (IY+d)'', (Some 4))"

definition ins_FD_CB_1E :: entry where
  "ins_FD_CB_1E =
     (0, [],
      [MR None None (Some high_after_low) (Some (RR None ''value'')) False, MW None None NoValue None None 0],
      ''RR (IY+d)'', (Some 4))"

definition ins_FD_CB_26 :: entry where
  "ins_FD_CB_26 =
     (0, [],
      [MR None None (Some high_after_low) (Some (SLA None ''value'')) False, MW None None NoValue None None 0],
      ''SLA (IY+d)'', (Some 4))"

definition ins_FD_CB_2E :: entry where
  "ins_FD_CB_2E =
     (0, [],
      [MR None None (Some high_after_low) (Some (SRA None ''value'')) False, MW None None NoValue None None 0],
      ''SRA (IY+d)'', (Some 4))"

definition ins_FD_CB_36 :: entry where
  "ins_FD_CB_36 =
     (0, [],
      [MR None None (Some high_after_low) (Some (SL1 None ''value'')) False, MW None None NoValue None None 0],
      ''SL1 (IY+d) (undocumemnted)'', (Some 4))"

definition ins_FD_CB_3E :: entry where
  "ins_FD_CB_3E =
     (0, [],
      [MR None None (Some high_after_low) (Some (SRL None ''value'')) False, MW None None NoValue None None 0],
      ''SRA (IY+d)'', (Some 4))"

definition ins_FD_CB_46 :: entry where
  "ins_FD_CB_46 =
     (0, [],
      [MR None None (Some high_after_low) (Some (BIT 0 None)) True],
      ''BIT 0,(IY+d)'', (Some 4))"

definition ins_FD_CB_4E :: entry where
  "ins_FD_CB_4E =
     (0, [],
      [MR None None (Some high_after_low) (Some (BIT 1 None)) True],
      ''BIT 1,(IY+d)'', (Some 4))"

definition ins_FD_CB_56 :: entry where
  "ins_FD_CB_56 =
     (0, [],
      [MR None None (Some high_after_low) (Some (BIT 2 None)) True],
      ''BIT 2,(IY+d)'', (Some 4))"

definition ins_FD_CB_5E :: entry where
  "ins_FD_CB_5E =
     (0, [],
      [MR None None (Some high_after_low) (Some (BIT 3 None)) True],
      ''BIT 3,(IY+d)'', (Some 4))"

definition ins_FD_CB_66 :: entry where
  "ins_FD_CB_66 =
     (0, [],
      [MR None None (Some high_after_low) (Some (BIT 4 None)) True],
      ''BIT 4,(IY+d)'', (Some 4))"

definition ins_FD_CB_6E :: entry where
  "ins_FD_CB_6E =
     (0, [],
      [MR None None (Some high_after_low) (Some (BIT 5 None)) True],
      ''BIT 5,(IY+d)'', (Some 4))"

definition ins_FD_CB_76 :: entry where
  "ins_FD_CB_76 =
     (0, [],
      [MR None None (Some high_after_low) (Some (BIT 6 None)) True],
      ''BIT 6,(IY+d)'', (Some 4))"

definition ins_FD_CB_7E :: entry where
  "ins_FD_CB_7E =
     (0, [],
      [MR None None (Some high_after_low) (Some (BIT 7 None)) True],
      ''BIT 7,(IY+d)'', (Some 4))"

definition ins_FD_CB_86 :: entry where
  "ins_FD_CB_86 =
     (0, [],
      [MR None None (Some high_after_low) (Some (RES 0 None ''value'')) False, MW None None NoValue None None 0],
      ''RES 0,(IY+d)'', (Some 4))"

definition ins_FD_CB_8E :: entry where
  "ins_FD_CB_8E =
     (0, [],
      [MR None None (Some high_after_low) (Some (RES 1 None ''value'')) False, MW None None NoValue None None 0],
      ''RES 1,(IY+d)'', (Some 4))"

definition ins_FD_CB_96 :: entry where
  "ins_FD_CB_96 =
     (0, [],
      [MR None None (Some high_after_low) (Some (RES 2 None ''value'')) False, MW None None NoValue None None 0],
      ''RES 2,(IY+d)'', (Some 4))"

definition ins_FD_CB_9E :: entry where
  "ins_FD_CB_9E =
     (0, [],
      [MR None None (Some high_after_low) (Some (RES 3 None ''value'')) False, MW None None NoValue None None 0],
      ''RES 3,(IY+d)'', (Some 4))"

definition ins_FD_CB_A6 :: entry where
  "ins_FD_CB_A6 =
     (0, [],
      [MR None None (Some high_after_low) (Some (RES 4 None ''value'')) False, MW None None NoValue None None 0],
      ''RES 4,(IY+d)'', (Some 4))"

definition ins_FD_CB_AE :: entry where
  "ins_FD_CB_AE =
     (0, [],
      [MR None None (Some high_after_low) (Some (RES 5 None ''value'')) False, MW None None NoValue None None 0],
      ''RES 5,(IY+d)'', (Some 4))"

definition ins_FD_CB_B6 :: entry where
  "ins_FD_CB_B6 =
     (0, [],
      [MR None None (Some high_after_low) (Some (RES 6 None ''value'')) False, MW None None NoValue None None 0],
      ''RES 6,(IY+d)'', (Some 4))"

definition ins_FD_CB_BE :: entry where
  "ins_FD_CB_BE =
     (0, [],
      [MR None None (Some high_after_low) (Some (RES 7 None ''value'')) False, MW None None NoValue None None 0],
      ''RES 7,(IY+d)'', (Some 4))"

definition ins_FD_CB_C6 :: entry where
  "ins_FD_CB_C6 =
     (0, [],
      [MR None None (Some high_after_low) (Some (SET 0 None ''value'')) False, MW None None NoValue None None 0],
      ''SET 0,(IY+d)'', (Some 4))"

definition ins_FD_CB_CE :: entry where
  "ins_FD_CB_CE =
     (0, [],
      [MR None None (Some high_after_low) (Some (SET 1 None ''value'')) False, MW None None NoValue None None 0],
      ''SET 1,(IY+d)'', (Some 4))"

definition ins_FD_CB_D6 :: entry where
  "ins_FD_CB_D6 =
     (0, [],
      [MR None None (Some high_after_low) (Some (SET 2 None ''value'')) False, MW None None NoValue None None 0],
      ''SET 2,(IY+d)'', (Some 4))"

definition ins_FD_CB_DE :: entry where
  "ins_FD_CB_DE =
     (0, [],
      [MR None None (Some high_after_low) (Some (SET 3 None ''value'')) False, MW None None NoValue None None 0],
      ''SET 3,(IY+d)'', (Some 4))"

definition ins_FD_CB_E6 :: entry where
  "ins_FD_CB_E6 =
     (0, [],
      [MR None None (Some high_after_low) (Some (SET 4 None ''value'')) False, MW None None NoValue None None 0],
      ''SET 4,(IY+d)'', (Some 4))"

definition ins_FD_CB_EE :: entry where
  "ins_FD_CB_EE =
     (0, [],
      [MR None None (Some high_after_low) (Some (SET 5 None ''value'')) False, MW None None NoValue None None 0],
      ''SET 5,(IY+d)'', (Some 4))"

definition ins_FD_CB_F6 :: entry where
  "ins_FD_CB_F6 =
     (0, [],
      [MR None None (Some high_after_low) (Some (SET 6 None ''value'')) False, MW None None NoValue None None 0],
      ''SET 6,(IY+d)'', (Some 4))"

definition ins_FD_CB_FE :: entry where
  "ins_FD_CB_FE =
     (0, [],
      [MR None None (Some high_after_low) (Some (SET 7 None ''value'')) False, MW None None NoValue None None 0],
      ''SET 7,(IY+d)'', (Some 4))"

text \<open>
  The dictionary is the finite map below: \<open>INSTRUCTION_STATES key\<close> is \<open>Some\<close> of the
  value stored under \<open>key\<close>, and \<open>None\<close> when \<open>key\<close> is not in the dictionary. The
  keys are listed in the order of the source; no key occurs twice there.
\<close>

definition INSTRUCTION_STATES :: "opcode \<Rightarrow> entry option" where
  "INSTRUCTION_STATES key =
     (
      if key = Byte 0x00 then Some ins_00
      else if key = Byte 0x01 then Some ins_01
      else if key = Byte 0x02 then Some ins_02
      else if key = Byte 0x03 then Some ins_03
      else if key = Byte 0x04 then Some ins_04
      else if key = Byte 0x05 then Some ins_05
      else if key = Byte 0x06 then Some ins_06
      else if key = Byte 0x07 then Some ins_07
      else if key = Byte 0x08 then Some ins_08
      else if key = Byte 0x09 then Some ins_09
      else if key = Byte 0x0B then Some ins_0B
      else if key = Byte 0x0C then Some ins_0C
      else if key = Byte 0x0D then Some ins_0D
      else if key = Byte 0x0E then Some ins_0E
      else if key = Byte 0x0F then Some ins_0F
      else if key = Byte 0x0A then Some ins_0A
      else if key = Byte 0x10 then Some ins_10
      else if key = Byte 0x11 then Some ins_11
      else if key = Byte 0x12 then Some ins_12
      else if key = Byte 0x13 then Some ins_13
      else if key = Byte 0x14 then Some ins_14
      else if key = Byte 0x15 then Some ins_15
      else if key = Byte 0x16 then Some ins_16
      else if key = Byte 0x17 then Some ins_17
      else if key = Byte 0x18 then Some ins_18
      else if key = Byte 0x19 then Some ins_19
      else if key = Byte 0x1B then Some ins_1B
      else if key = Byte 0x1A then Some ins_1A
      else if key = Byte 0x1C then Some ins_1C
      else if key = Byte 0x1D then Some ins_1D
      else if key = Byte 0x1E then Some ins_1E
      else if key = Byte 0x1F then Some ins_1F
      else if key = Byte 0x20 then Some ins_20
      else if key = Byte 0x21 then Some ins_21
      else if key = Byte 0x22 then Some ins_22
      else if key = Byte 0x23 then Some ins_23
      else if key = Byte 0x24 then Some ins_24
      else if key = Byte 0x25 then Some ins_25
      else if key = Byte 0x26 then Some ins_26
      else if key = Byte 0x27 then Some ins_27
      else if key = Byte 0x28 then Some ins_28
      else if key = Byte 0x29 then Some ins_29
      else if key = Byte 0x2A then Some ins_2A
      else if key = Byte 0x2B then Some ins_2B
      else if key = Byte 0x2C then Some ins_2C
      else if key = Byte 0x2D then Some ins_2D
      else if key = Byte 0x2E then Some ins_2E
      else if key = Byte 0x2F then Some ins_2F
      else if key = Byte 0x30 then Some ins_30
      else if key = Byte 0x31 then Some ins_31
      else if key = Byte 0x32 then Some ins_32
      else if key = Byte 0x33 then Some ins_33
      else if key = Byte 0x34 then Some ins_34
      else if key = Byte 0x35 then Some ins_35
      else if key = Byte 0x36 then Some ins_36
      else if key = Byte 0x37 then Some ins_37
      else if key = Byte 0x38 then Some ins_38
      else if key = Byte 0x39 then Some ins_39
      else if key = Byte 0x3B then Some ins_3B
      else if key = Byte 0x3C then Some ins_3C
      else if key = Byte 0x3D then Some ins_3D
      else if key = Byte 0x3A then Some ins_3A
      else if key = Byte 0x3E then Some ins_3E
      else if key = Byte 0x3F then Some ins_3F
      else if key = Byte 0x40 then Some ins_40
      else if key = Byte 0x41 then Some ins_41
      else if key = Byte 0x42 then Some ins_42
      else if key = Byte 0x43 then Some ins_43
      else if key = Byte 0x44 then Some ins_44
      else if key = Byte 0x45 then Some ins_45
      else if key = Byte 0x46 then Some ins_46
      else if key = Byte 0x47 then Some ins_47
      else if key = Byte 0x48 then Some ins_48
      else if key = Byte 0x49 then Some ins_49
      else if key = Byte 0x4A then Some ins_4A
      else if key = Byte 0x4B then Some ins_4B
      else if key = Byte 0x4C then Some ins_4C
      else if key = Byte 0x4D then Some ins_4D
      else if key = Byte 0x4E then Some ins_4E
      else if key = Byte 0x4F then Some ins_4F
      else if key = Byte 0x50 then Some ins_50
      else if key = Byte 0x51 then Some ins_51
      else if key = Byte 0x52 then Some ins_52
      else if key = Byte 0x53 then Some ins_53
      else if key = Byte 0x54 then Some ins_54
      else if key = Byte 0x55 then Some ins_55
      else if key = Byte 0x56 then Some ins_56
      else if key = Byte 0x57 then Some ins_57
      else if key = Byte 0x58 then Some ins_58
      else if key = Byte 0x59 then Some ins_59
      else if key = Byte 0x5A then Some ins_5A
      else if key = Byte 0x5B then Some ins_5B
      else if key = Byte 0x5C then Some ins_5C
      else if key = Byte 0x5D then Some ins_5D
      else if key = Byte 0x5E then Some ins_5E
      else if key = Byte 0x5F then Some ins_5F
      else if key = Byte 0x60 then Some ins_60
      else if key = Byte 0x61 then Some ins_61
      else if key = Byte 0x62 then Some ins_62
      else if key = Byte 0x63 then Some ins_63
      else if key = Byte 0x64 then Some ins_64
      else if key = Byte 0x65 then Some ins_65
      else if key = Byte 0x66 then Some ins_66
      else if key = Byte 0x67 then Some ins_67
      else if key = Byte 0x68 then Some ins_68
      else if key = Byte 0x69 then Some ins_69
      else if key = Byte 0x6A then Some ins_6A
      else if key = Byte 0x6B then Some ins_6B
      else if key = Byte 0x6C then Some ins_6C
      else if key = Byte 0x6D then Some ins_6D
      else if key = Byte 0x6E then Some ins_6E
      else if key = Byte 0x6F then Some ins_6F
      else if key = Byte 0x70 then Some ins_70
      else if key = Byte 0x71 then Some ins_71
      else if key = Byte 0x72 then Some ins_72
      else if key = Byte 0x73 then Some ins_73
      else if key = Byte 0x74 then Some ins_74
      else if key = Byte 0x75 then Some ins_75
      else if key = Byte 0x76 then Some ins_76
      else if key = Byte 0x77 then Some ins_77
      else if key = Byte 0x78 then Some ins_78
      else if key = Byte 0x79 then Some ins_79
      else if key = Byte 0x7A then Some ins_7A
      else if key = Byte 0x7B then Some ins_7B
      else if key = Byte 0x7C then Some ins_7C
      else if key = Byte 0x7D then Some ins_7D
      else if key = Byte 0x7E then Some ins_7E
      else if key = Byte 0x7F then Some ins_7F
      else if key = Byte 0x80 then Some ins_80
      else if key = Byte 0x81 then Some ins_81
      else if key = Byte 0x82 then Some ins_82
      else if key = Byte 0x83 then Some ins_83
      else if key = Byte 0x84 then Some ins_84
      else if key = Byte 0x85 then Some ins_85
      else if key = Byte 0x86 then Some ins_86
      else if key = Byte 0x87 then Some ins_87
      else if key = Byte 0x88 then Some ins_88
      else if key = Byte 0x89 then Some ins_89
      else if key = Byte 0x8A then Some ins_8A
      else if key = Byte 0x8B then Some ins_8B
      else if key = Byte 0x8C then Some ins_8C
      else if key = Byte 0x8D then Some ins_8D
      else if key = Byte 0x8E then Some ins_8E
      else if key = Byte 0x8F then Some ins_8F
      else if key = Byte 0x90 then Some ins_90
      else if key = Byte 0x91 then Some ins_91
      else if key = Byte 0x92 then Some ins_92
      else if key = Byte 0x93 then Some ins_93
      else if key = Byte 0x94 then Some ins_94
      else if key = Byte 0x95 then Some ins_95
      else if key = Byte 0x96 then Some ins_96
      else if key = Byte 0x97 then Some ins_97
      else if key = Byte 0x98 then Some ins_98
      else if key = Byte 0x99 then Some ins_99
      else if key = Byte 0x9A then Some ins_9A
      else if key = Byte 0x9B then Some ins_9B
      else if key = Byte 0x9C then Some ins_9C
      else if key = Byte 0x9D then Some ins_9D
      else if key = Byte 0x9E then Some ins_9E
      else if key = Byte 0x9F then Some ins_9F
      else if key = Byte 0xA0 then Some ins_A0
      else if key = Byte 0xA1 then Some ins_A1
      else if key = Byte 0xA2 then Some ins_A2
      else if key = Byte 0xA3 then Some ins_A3
      else if key = Byte 0xA4 then Some ins_A4
      else if key = Byte 0xA5 then Some ins_A5
      else if key = Byte 0xA6 then Some ins_A6
      else if key = Byte 0xA7 then Some ins_A7
      else if key = Byte 0xA8 then Some ins_A8
      else if key = Byte 0xA9 then Some ins_A9
      else if key = Byte 0xAA then Some ins_AA
      else if key = Byte 0xAB then Some ins_AB
      else if key = Byte 0xAC then Some ins_AC
      else if key = Byte 0xAD then Some ins_AD
      else if key = Byte 0xAE then Some ins_AE
      else if key = Byte 0xAF then Some ins_AF
      else if key = Byte 0xB0 then Some ins_B0
      else if key = Byte 0xB1 then Some ins_B1
      else if key = Byte 0xB2 then Some ins_B2
      else if key = Byte 0xB3 then Some ins_B3
      else if key = Byte 0xB4 then Some ins_B4
      else if key = Byte 0xB5 then Some ins_B5
      else if key = Byte 0xB6 then Some ins_B6
      else if key = Byte 0xB7 then Some ins_B7
      else if key = Byte 0xB8 then Some ins_B8
      else if key = Byte 0xB9 then Some ins_B9
      else if key = Byte 0xBA then Some ins_BA
      else if key = Byte 0xBB then Some ins_BB
      else if key = Byte 0xBC then Some ins_BC
      else if key = Byte 0xBD then Some ins_BD
      else if key = Byte 0xBE then Some ins_BE
      else if key = Byte 0xBF then Some ins_BF
      else if key = Byte 0xC0 then Some ins_C0
      else if key = Byte 0xC1 then Some ins_C1
      else if key = Byte 0xC2 then Some ins_C2
      else if key = Byte 0xC3 then Some ins_C3
      else if key = Byte 0xC4 then Some ins_C4
      else if key = Byte 0xC5 then Some ins_C5
      else if key = Byte 0xC6 then Some ins_C6
      else if key = Byte 0xC7 then Some ins_C7
      else if key = Byte 0xC8 then Some ins_C8
      else if key = Byte 0xC9 then Some ins_C9
      else if key = Byte 0xCA then Some ins_CA
      else if key = Byte 0xCB then Some ins_CB
      else if key = Byte 0xCC then Some ins_CC
      else if key = Byte 0xCD then Some ins_CD
      else if key = Byte 0xCE then Some ins_CE
      else if key = Byte 0xCF then Some ins_CF
      else if key = Byte 0xD0 then Some ins_D0
      else if key = Byte 0xD1 then Some ins_D1
      else if key = Byte 0xD2 then Some ins_D2
      else if key = Byte 0xD3 then Some ins_D3
      else if key = Byte 0xD4 then Some ins_D4
      else if key = Byte 0xD5 then Some ins_D5
      else if key = Byte 0xD6 then Some ins_D6
      else if key = Byte 0xD7 then Some ins_D7
      else if key = Byte 0xD8 then Some ins_D8
      else if key = Byte 0xDA then Some ins_DA
      else if key = Byte 0xDB then Some ins_DB
      else if key = Byte 0xDC then Some ins_DC
      else if key = Byte 0xDE then Some ins_DE
      else if key = Byte 0xD9 then Some ins_D9
      else if key = Byte 0xDD then Some ins_DD
      else if key = Byte 0xDF then Some ins_DF
      else if key = Byte 0xE0 then Some ins_E0
      else if key = Byte 0xE1 then Some ins_E1
      else if key = Byte 0xE2 then Some ins_E2
      else if key = Byte 0xE3 then Some ins_E3
      else if key = Byte 0xE4 then Some ins_E4
      else if key = Byte 0xE5 then Some ins_E5
      else if key = Byte 0xE6 then Some ins_E6
      else if key = Byte 0xE7 then Some ins_E7
      else if key = Byte 0xE8 then Some ins_E8
      else if key = Byte 0xE9 then Some ins_E9
      else if key = Byte 0xEA then Some ins_EA
      else if key = Byte 0xEB then Some ins_EB
      else if key = Byte 0xEC then Some ins_EC
      else if key = Byte 0xED then Some ins_ED
      else if key = Byte 0xEE then Some ins_EE
      else if key = Byte 0xEF then Some ins_EF
      else if key = Byte 0xF0 then Some ins_F0
      else if key = Byte 0xF1 then Some ins_F1
      else if key = Byte 0xF2 then Some ins_F2
      else if key = Byte 0xF3 then Some ins_F3
      else if key = Byte 0xF4 then Some ins_F4
      else if key = Byte 0xF5 then Some ins_F5
      else if key = Byte 0xF6 then Some ins_F6
      else if key = Byte 0xF7 then Some ins_F7
      else if key = Byte 0xF8 then Some ins_F8
      else if key = Byte 0xF9 then Some ins_F9
      else if key = Byte 0xFA then Some ins_FA
      else if key = Byte 0xFB then Some ins_FB
      else if key = Byte 0xFC then Some ins_FC
      else if key = Byte 0xFD then Some ins_FD
      else if key = Byte 0xFE then Some ins_FE
      else if key = Byte 0xFF then Some ins_FF
      else if key = Tuple [0xCB, 0x00] then Some ins_CB_00
      else if key = Tuple [0xCB, 0x01] then Some ins_CB_01
      else if key = Tuple [0xCB, 0x02] then Some ins_CB_02
      else if key = Tuple [0xCB, 0x03] then Some ins_CB_03
      else if key = Tuple [0xCB, 0x04] then Some ins_CB_04
      else if key = Tuple [0xCB, 0x05] then Some ins_CB_05
      else if key = Tuple [0xCB, 0x06] then Some ins_CB_06
      else if key = Tuple [0xCB, 0x07] then Some ins_CB_07
      else if key = Tuple [0xCB, 0x08] then Some ins_CB_08
      else if key = Tuple [0xCB, 0x09] then Some ins_CB_09
      else if key = Tuple [0xCB, 0x0A] then Some ins_CB_0A
      else if key = Tuple [0xCB, 0x0B] then Some ins_CB_0B
      else if key = Tuple [0xCB, 0x0C] then Some ins_CB_0C
      else if key = Tuple [0xCB, 0x0D] then Some ins_CB_0D
      else if key = Tuple [0xCB, 0x0E] then Some ins_CB_0E
      else if key = Tuple [0xCB, 0x0F] then Some ins_CB_0F
      else if key = Tuple [0xCB, 0x10] then Some ins_CB_10
      else if key = Tuple [0xCB, 0x11] then Some ins_CB_11
      else if key = Tuple [0xCB, 0x12] then Some ins_CB_12
      else if key = Tuple [0xCB, 0x13] then Some ins_CB_13
      else if key = Tuple [0xCB, 0x14] then Some ins_CB_14
      else if key = Tuple [0xCB, 0x15] then Some ins_CB_15
      else if key = Tuple [0xCB, 0x16] then Some ins_CB_16
      else if key = Tuple [0xCB, 0x17] then Some ins_CB_17
      else if key = Tuple [0xCB, 0x18] then Some ins_CB_18
      else if key = Tuple [0xCB, 0x19] then Some ins_CB_19
      else if key = Tuple [0xCB, 0x1A] then Some ins_CB_1A
      else if key = Tuple [0xCB, 0x1B] then Some ins_CB_1B
      else if key = Tuple [0xCB, 0x1C] then Some ins_CB_1C
      else if key = Tuple [0xCB, 0x1D] then Some ins_CB_1D
      else if key = Tuple [0xCB, 0x1E] then Some ins_CB_1E
      else if key = Tuple [0xCB, 0x1F] then Some ins_CB_1F
      else if key = Tuple [0xCB, 0x20] then Some ins_CB_20
      else if key = Tuple [0xCB, 0x21] then Some ins_CB_21
      else if key = Tuple [0xCB, 0x22] then Some ins_CB_22
      else if key = Tuple [0xCB, 0x23] then Some ins_CB_23
      else if key = Tuple [0xCB, 0x24] then Some ins_CB_24
      else if key = Tuple [0xCB, 0x25] then Some ins_CB_25
      else if key = Tuple [0xCB, 0x26] then Some ins_CB_26
      else if key = Tuple [0xCB, 0x27] then Some ins_CB_27
      else if key = Tuple [0xCB, 0x28] then Some ins_CB_28
      else if key = Tuple [0xCB, 0x29] then Some ins_CB_29
      else if key = Tuple [0xCB, 0x2A] then Some ins_CB_2A
      else if key = Tuple [0xCB, 0x2B] then Some ins_CB_2B
      else if key = Tuple [0xCB, 0x2C] then Some ins_CB_2C
      else if key = Tuple [0xCB, 0x2D] then Some ins_CB_2D
      else if key = Tuple [0xCB, 0x2E] then Some ins_CB_2E
      else if key = Tuple [0xCB, 0x2F] then Some ins_CB_2F
      else if key = Tuple [0xCB, 0x30] then Some ins_CB_30
      else if key = Tuple [0xCB, 0x31] then Some ins_CB_31
      else if key = Tuple [0xCB, 0x32] then Some ins_CB_32
      else if key = Tuple [0xCB, 0x33] then Some ins_CB_33
      else if key = Tuple [0xCB, 0x34] then Some ins_CB_34
      else if key = Tuple [0xCB, 0x35] then Some ins_CB_35
      else if key = Tuple [0xCB, 0x36] then Some ins_CB_36
      else if key = Tuple [0xCB, 0x37] then Some ins_CB_37
      else if key = Tuple [0xCB, 0x38] then Some ins_CB_38
      else if key = Tuple [0xCB, 0x39] then Some ins_CB_39
      else if key = Tuple [0xCB, 0x3A] then Some ins_CB_3A
      else if key = Tuple [0xCB, 0x3B] then Some ins_CB_3B
      else if key = Tuple [0xCB, 0x3C] then Some ins_CB_3C
      else if key = Tuple [0xCB, 0x3D] then Some ins_CB_3D
      else if key = Tuple [0xCB, 0x3E] then Some ins_CB_3E
      else if key = Tuple [0xCB, 0x3F] then Some ins_CB_3F
      else if key = Tuple [0xCB, 0x40] then Some ins_CB_40
      else if key = Tuple [0xCB, 0x41] then Some ins_CB_41
      else if key = Tuple [0xCB, 0x42] then Some ins_CB_42
      else if key = Tuple [0xCB, 0x43] then Some ins_CB_43
      else if key = Tuple [0xCB, 0x44] then Some ins_CB_44
      else if key = Tuple [0xCB, 0x45] then Some ins_CB_45
      else if key = Tuple [0xCB, 0x46] then Some ins_CB_46
      else if key = Tuple [0xCB, 0x47] then Some ins_CB_47
      else if key = Tuple [0xCB, 0x48] then Some ins_CB_48
      else if key = Tuple [0xCB, 0x49] then Some ins_CB_49
      else if key = Tuple [0xCB, 0x4A] then Some ins_CB_4A
      else if key = Tuple [0xCB, 0x4B] then Some ins_CB_4B
      else if key = Tuple [0xCB, 0x4C] then Some ins_CB_4C
      else if key = Tuple [0xCB, 0x4D] then Some ins_CB_4D
      else if key = Tuple [0xCB, 0x4E] then Some ins_CB_4E
      else if key = Tuple [0xCB, 0x4F] then Some ins_CB_4F
      else if key = Tuple [0xCB, 0x50] then Some ins_CB_50
      else if key = Tuple [0xCB, 0x51] then Some ins_CB_51
      else if key = Tuple [0xCB, 0x52] then Some ins_CB_52
      else if key = Tuple [0xCB, 0x53] then Some ins_CB_53
      else if key = Tuple [0xCB, 0x54] then Some ins_CB_54
      else if key = Tuple [0xCB, 0x55] then Some ins_CB_55
      else if key = Tuple [0xCB, 0x56] then Some ins_CB_56
      else if key = Tuple [0xCB, 0x57] then Some ins_CB_57
      else if key = Tuple [0xCB, 0x58] then Some ins_CB_58
      else if key = Tuple [0xCB, 0x59] then Some ins_CB_59
      else if key = Tuple [0xCB, 0x5A] then Some ins_CB_5A
      else if key = Tuple [0xCB, 0x5B] then Some ins_CB_5B
      else if key = Tuple [0xCB, 0x5C] then Some ins_CB_5C
      else if key = Tuple [0xCB, 0x5D] then Some ins_CB_5D
      else if key = Tuple [0xCB, 0x5E] then Some ins_CB_5E
      else if key = Tuple [0xCB, 0x5F] then Some ins_CB_5F
      else if key = Tuple [0xCB, 0x60] then Some ins_CB_60
      else if key = Tuple [0xCB, 0x61] then Some ins_CB_61
      else if key = Tuple [0xCB, 0x62] then Some ins_CB_62
      else if key = Tuple [0xCB, 0x63] then Some ins_CB_63
      else if key = Tuple [0xCB, 0x64] then Some ins_CB_64
      else if key = Tuple [0xCB, 0x65] then Some ins_CB_65
      else if key = Tuple [0xCB, 0x66] then Some ins_CB_66
      else if key = Tuple [0xCB, 0x67] then Some ins_CB_67
      else if key = Tuple [0xCB, 0x68] then Some ins_CB_68
      else if key = Tuple [0xCB, 0x69] then Some ins_CB_69
      else if key = Tuple [0xCB, 0x6A] then Some ins_CB_6A
      else if key = Tuple [0xCB, 0x6B] then Some ins_CB_6B
      else if key = Tuple [0xCB, 0x6C] then Some ins_CB_6C
      else if key = Tuple [0xCB, 0x6D] then Some ins_CB_6D
      else if key = Tuple [0xCB, 0x6E] then Some ins_CB_6E
      else if key = Tuple [0xCB, 0x6F] then Some ins_CB_6F
      else if key = Tuple [0xCB, 0x70] then Some ins_CB_70
      else if key = Tuple [0xCB, 0x71] then Some ins_CB_71
      else if key = Tuple [0xCB, 0x72] then Some ins_CB_72
      else if key = Tuple [0xCB, 0x73] then Some ins_CB_73
      else if key = Tuple [0xCB, 0x74] then Some ins_CB_74
      else if key = Tuple [0xCB, 0x75] then Some ins_CB_75
      else if key = Tuple [0xCB, 0x76] then Some ins_CB_76
      else if key = Tuple [0xCB, 0x77] then Some ins_CB_77
      else if key = Tuple [0xCB, 0x78] then Some ins_CB_78
      else if key = Tuple [0xCB, 0x79] then Some ins_CB_79
      else if key = Tuple [0xCB, 0x7A] then Some ins_CB_7A
      else if key = Tuple [0xCB, 0x7B] then Some ins_CB_7B
      else if key = Tuple [0xCB, 0x7C] then Some ins_CB_7C
      else if key = Tuple [0xCB, 0x7D] then Some ins_CB_7D
      else if key = Tuple [0xCB, 0x7E] then Some ins_CB_7E
      else if key = Tuple [0xCB, 0x7F] then Some ins_CB_7F
      else if key = Tuple [0xCB, 0x80] then Some ins_CB_80
      else if key = Tuple [0xCB, 0x81] then Some ins_CB_81
      else if key = Tuple [0xCB, 0x82] then Some ins_CB_82
      else if key = Tuple [0xCB, 0x83] then Some ins_CB_83
      else if key = Tuple [0xCB, 0x84] then Some ins_CB_84
      else if key = Tuple [0xCB, 0x85] then Some ins_CB_85
      else if key = Tuple [0xCB, 0x86] then Some ins_CB_86
      else if key = Tuple [0xCB, 0x87] then Some ins_CB_87
      else if key = Tuple [0xCB, 0x88] then Some ins_CB_88
      else if key = Tuple [0xCB, 0x89] then Some ins_CB_89
      else if key = Tuple [0xCB, 0x8A] then Some ins_CB_8A
      else if key = Tuple [0xCB, 0x8B] then Some ins_CB_8B
      else if key = Tuple [0xCB, 0x8C] then Some ins_CB_8C
      else if key = Tuple [0xCB, 0x8D] then Some ins_CB_8D
      else if key = Tuple [0xCB, 0x8E] then Some ins_CB_8E
      else if key = Tuple [0xCB, 0x8F] then Some ins_CB_8F
      else if key = Tuple [0xCB, 0x90] then Some ins_CB_90
      else if key = Tuple [0xCB, 0x91] then Some ins_CB_91
      else if key = Tuple [0xCB, 0x92] then Some ins_CB_92
      else if key = Tuple [0xCB, 0x93] then Some ins_CB_93
      else if key = Tuple [0xCB, 0x94] then Some ins_CB_94
      else if key = Tuple [0xCB, 0x95] then Some ins_CB_95
      else if key = Tuple [0xCB, 0x96] then Some ins_CB_96
      else if key = Tuple [0xCB, 0x97] then Some ins_CB_97
      else if key = Tuple [0xCB, 0x98] then Some ins_CB_98
      else if key = Tuple [0xCB, 0x99] then Some ins_CB_99
      else if key = Tuple [0xCB, 0x9A] then Some ins_CB_9A
      else if key = Tuple [0xCB, 0x9B] then Some ins_CB_9B
      else if key = Tuple [0xCB, 0x9C] then Some ins_CB_9C
      else if key = Tuple [0xCB, 0x9D] then Some ins_CB_9D
      else if key = Tuple [0xCB, 0x9E] then Some ins_CB_9E
      else if key = Tuple [0xCB, 0x9F] then Some ins_CB_9F
      else if key = Tuple [0xCB, 0xA0] then Some ins_CB_A0
      else if key = Tuple [0xCB, 0xA1] then Some ins_CB_A1
      else if key = Tuple [0xCB, 0xA2] then Some ins_CB_A2
      else if key = Tuple [0xCB, 0xA3] then Some ins_CB_A3
      else if key = Tuple [0xCB, 0xA4] then Some ins_CB_A4
      else if key = Tuple [0xCB, 0xA5] then Some ins_CB_A5
      else if key = Tuple [0xCB, 0xA6] then Some ins_CB_A6
      else if key = Tuple [0xCB, 0xA7] then Some ins_CB_A7
      else if key = Tuple [0xCB, 0xA8] then Some ins_CB_A8
      else if key = Tuple [0xCB, 0xA9] then Some ins_CB_A9
      else if key = Tuple [0xCB, 0xAA] then Some ins_CB_AA
      else if key = Tuple [0xCB, 0xAB] then Some ins_CB_AB
      else if key = Tuple [0xCB, 0xAC] then Some ins_CB_AC
      else if key = Tuple [0xCB, 0xAD] then Some ins_CB_AD
      else if key = Tuple [0xCB, 0xAE] then Some ins_CB_AE
      else if key = Tuple [0xCB, 0xAF] then Some ins_CB_AF
      else if key = Tuple [0xCB, 0xB0] then Some ins_CB_B0
      else if key = Tuple [0xCB, 0xB1] then Some ins_CB_B1
      else if key = Tuple [0xCB, 0xB2] then Some ins_CB_B2
      else if key = Tuple [0xCB, 0xB3] then Some ins_CB_B3
      else if key = Tuple [0xCB, 0xB4] then Some ins_CB_B4
      else if key = Tuple [0xCB, 0xB5] then Some ins_CB_B5
      else if key = Tuple [0xCB, 0xB6] then Some ins_CB_B6
      else if key = Tuple [0xCB, 0xB7] then Some ins_CB_B7
      else if key = Tuple [0xCB, 0xB8] then Some ins_CB_B8
      else if key = Tuple [0xCB, 0xB9] then Some ins_CB_B9
      else if key = Tuple [0xCB, 0xBA] then Some ins_CB_BA
      else if key = Tuple [0xCB, 0xBB] then Some ins_CB_BB
      else if key = Tuple [0xCB, 0xBC] then Some ins_CB_BC
      else if key = Tuple [0xCB, 0xBD] then Some ins_CB_BD
      else if key = Tuple [0xCB, 0xBE] then Some ins_CB_BE
      else if key = Tuple [0xCB, 0xBF] then Some ins_CB_BF
      else if key = Tuple [0xCB, 0xC0] then Some ins_CB_C0
      else if key = Tuple [0xCB, 0xC1] then Some ins_CB_C1
      else if key = Tuple [0xCB, 0xC2] then Some ins_CB_C2
      else if key = Tuple [0xCB, 0xC3] then Some ins_CB_C3
      else if key = Tuple [0xCB, 0xC4] then Some ins_CB_C4
      else if key = Tuple [0xCB, 0xC5] then Some ins_CB_C5
      else if key = Tuple [0xCB, 0xC6] then Some ins_CB_C6
      else if key = Tuple [0xCB, 0xC7] then Some ins_CB_C7
      else if key = Tuple [0xCB, 0xC8] then Some ins_CB_C8
      else if key = Tuple [0xCB, 0xC9] then Some ins_CB_C9
      else if key = Tuple [0xCB, 0xCA] then Some ins_CB_CA
      else if key = Tuple [0xCB, 0xCB] then Some ins_CB_CB
      else if key = Tuple [0xCB, 0xCC] then Some ins_CB_CC
      else if key = Tuple [0xCB, 0xCD] then Some ins_CB_CD
      else if key = Tuple [0xCB, 0xCE] then Some ins_CB_CE
      else if key = Tuple [0xCB, 0xCF] then Some ins_CB_CF
      else if key = Tuple [0xCB, 0xD0] then Some ins_CB_D0
      else if key = Tuple [0xCB, 0xD1] then Some ins_CB_D1
      else if key = Tuple [0xCB, 0xD2] then Some ins_CB_D2
      else if key = Tuple [0xCB, 0xD3] then Some ins_CB_D3
      else if key = Tuple [0xCB, 0xD4] then Some ins_CB_D4
      else if key = Tuple [0xCB, 0xD5] then Some ins_CB_D5
      else if key = Tuple [0xCB, 0xD6] then Some ins_CB_D6
      else if key = Tuple [0xCB, 0xD7] then Some ins_CB_D7
      else if key = Tuple [0xCB, 0xD8] then Some ins_CB_D8
      else if key = Tuple [0xCB, 0xD9] then Some ins_CB_D9
      else if key = Tuple [0xCB, 0xDA] then Some ins_CB_DA
      else if key = Tuple [0xCB, 0xDB] then Some ins_CB_DB
      else if key = Tuple [0xCB, 0xDC] then Some ins_CB_DC
      else if key = Tuple [0xCB, 0xDD] then Some ins_CB_DD
      else if key = Tuple [0xCB, 0xDE] then Some ins_CB_DE
      else if key = Tuple [0xCB, 0xDF] then Some ins_CB_DF
      else if key = Tuple [0xCB, 0xE0] then Some ins_CB_E0
      else if key = Tuple [0xCB, 0xE1] then Some ins_CB_E1
      else if key = Tuple [0xCB, 0xE2] then Some ins_CB_E2
      else if key = Tuple [0xCB, 0xE3] then Some ins_CB_E3
      else if key = Tuple [0xCB, 0xE4] then Some ins_CB_E4
      else if key = Tuple [0xCB, 0xE5] then Some ins_CB_E5
      else if key = Tuple [0xCB, 0xE6] then Some ins_CB_E6
      else if key = Tuple [0xCB, 0xE7] then Some ins_CB_E7
      else if key = Tuple [0xCB, 0xE8] then Some ins_CB_E8
      else if key = Tuple [0xCB, 0xE9] then Some ins_CB_E9
      else if key = Tuple [0xCB, 0xEA] then Some ins_CB_EA
      else if key = Tuple [0xCB, 0xEB] then Some ins_CB_EB
      else if key = Tuple [0xCB, 0xEC] then Some ins_CB_EC
      else if key = Tuple [0xCB, 0xED] then Some ins_CB_ED
      else if key = Tuple [0xCB, 0xEE] then Some ins_CB_EE
      else if key = Tuple [0xCB, 0xEF] then Some ins_CB_EF
      else if key = Tuple [0xCB, 0xF0] then Some ins_CB_F0
      else if key = Tuple [0xCB, 0xF1] then Some ins_CB_F1
      else if key = Tuple [0xCB, 0xF2] then Some ins_CB_F2
      else if key = Tuple [0xCB, 0xF3] then Some ins_CB_F3
      else if key = Tuple [0xCB, 0xF4] then Some ins_CB_F4
      else if key = Tuple [0xCB, 0xF5] then Some ins_CB_F5
      else if key = Tuple [0xCB, 0xF6] then Some ins_CB_F6
      else if key = Tuple [0xCB, 0xF7] then Some ins_CB_F7
      else if key = Tuple [0xCB, 0xF8] then Some ins_CB_F8
      else if key = Tuple [0xCB, 0xF9] then Some ins_CB_F9
      else if key = Tuple [0xCB, 0xFA] then Some ins_CB_FA
      else if key = Tuple [0xCB, 0xFB] then Some ins_CB_FB
      else if key = Tuple [0xCB, 0xFC] then Some ins_CB_FC
      else if key = Tuple [0xCB, 0xFD] then Some ins_CB_FD
      else if key = Tuple [0xCB, 0xFE] then Some ins_CB_FE
      else if key = Tuple [0xCB, 0xFF] then Some ins_CB_FF
      else if key = Tuple [0xDD, 0x09] then Some ins_DD_09
      else if key = Tuple [0xDD, 0x19] then Some ins_DD_19
      else if key = Tuple [0xDD, 0x29] then Some ins_DD_29
      else if key = Tuple [0xDD, 0x39] then Some ins_DD_39
      else if key = Tuple [0xDD, 0x21] then Some ins_DD_21
      else if key = Tuple [0xDD, 0x22] then Some ins_DD_22
      else if key = Tuple [0xDD, 0x23] then Some ins_DD_23
      else if key = Tuple [0xDD, 0x2A] then Some ins_DD_2A
      else if key = Tuple [0xDD, 0x2B] then Some ins_DD_2B
      else if key = Tuple [0xDD, 0x34] then Some ins_DD_34
      else if key = Tuple [0xDD, 0x35] then Some ins_DD_35
      else if key = Tuple [0xDD, 0x36] then Some ins_DD_36
      else if key = Tuple [0xDD, 0x46] then Some ins_DD_46
      else if key = Tuple [0xDD, 0x4E] then Some ins_DD_4E
      else if key = Tuple [0xDD, 0x56] then Some ins_DD_56
      else if key = Tuple [0xDD, 0x5E] then Some ins_DD_5E
      else if key = Tuple [0xDD, 0x66] then Some ins_DD_66
      else if key = Tuple [0xDD, 0x6E] then Some ins_DD_6E
      else if key = Tuple [0xDD, 0x70] then Some ins_DD_70
      else if key = Tuple [0xDD, 0x71] then Some ins_DD_71
      else if key = Tuple [0xDD, 0x72] then Some ins_DD_72
      else if key = Tuple [0xDD, 0x73] then Some ins_DD_73
      else if key = Tuple [0xDD, 0x74] then Some ins_DD_74
      else if key = Tuple [0xDD, 0x75] then Some ins_DD_75
      else if key = Tuple [0xDD, 0x77] then Some ins_DD_77
      else if key = Tuple [0xDD, 0x7E] then Some ins_DD_7E
      else if key = Tuple [0xDD, 0x86] then Some ins_DD_86
      else if key = Tuple [0xDD, 0x8E] then Some ins_DD_8E
      else if key = Tuple [0xDD, 0x96] then Some ins_DD_96
      else if key = Tuple [0xDD, 0x9E] then Some ins_DD_9E
      else if key = Tuple [0xDD, 0xA6] then Some ins_DD_A6
      else if key = Tuple [0xDD, 0xAE] then Some ins_DD_AE
      else if key = Tuple [0xDD, 0xB6] then Some ins_DD_B6
      else if key = Tuple [0xDD, 0xBE] then Some ins_DD_BE
      else if key = Tuple [0xDD, 0xCB] then Some ins_DD_CB
      else if key = Tuple [0xDD, 0xE1] then Some ins_DD_E1
      else if key = Tuple [0xDD, 0xE3] then Some ins_DD_E3
      else if key = Tuple [0xDD, 0xE5] then Some ins_DD_E5
      else if key = Tuple [0xDD, 0xE9] then Some ins_DD_E9
      else if key = Tuple [0xDD, 0xF9] then Some ins_DD_F9
      else if key = Tuple [0xED, 0x40] then Some ins_ED_40
      else if key = Tuple [0xED, 0x41] then Some ins_ED_41
      else if key = Tuple [0xED, 0x42] then Some ins_ED_42
      else if key = Tuple [0xED, 0x43] then Some ins_ED_43
      else if key = Tuple [0xED, 0x44] then Some ins_ED_44
      else if key = Tuple [0xED, 0x45] then Some ins_ED_45
      else if key = Tuple [0xED, 0x46] then Some ins_ED_46
      else if key = Tuple [0xED, 0x47] then Some ins_ED_47
      else if key = Tuple [0xED, 0x48] then Some ins_ED_48
      else if key = Tuple [0xED, 0x49] then Some ins_ED_49
      else if key = Tuple [0xED, 0x4B] then Some ins_ED_4B
      else if key = Tuple [0xED, 0x4A] then Some ins_ED_4A
      else if key = Tuple [0xED, 0x4D] then Some ins_ED_4D
      else if key = Tuple [0xED, 0x4F] then Some ins_ED_4F
      else if key = Tuple [0xED, 0x50] then Some ins_ED_50
      else if key = Tuple [0xED, 0x51] then Some ins_ED_51
      else if key = Tuple [0xED, 0x52] then Some ins_ED_52
      else if key = Tuple [0xED, 0x53] then Some ins_ED_53
      else if key = Tuple [0xED, 0x56] then Some ins_ED_56
      else if key = Tuple [0xED, 0x57] then Some ins_ED_57
      else if key = Tuple [0xED, 0x58] then Some ins_ED_58
      else if key = Tuple [0xED, 0x59] then Some ins_ED_59
      else if key = Tuple [0xED, 0x5A] then Some ins_ED_5A
      else if key = Tuple [0xED, 0x5B] then Some ins_ED_5B
      else if key = Tuple [0xED, 0x5E] then Some ins_ED_5E
      else if key = Tuple [0xED, 0x5F] then Some ins_ED_5F
      else if key = Tuple [0xED, 0x60] then Some ins_ED_60
      else if key = Tuple [0xED, 0x61] then Some ins_ED_61
      else if key = Tuple [0xED, 0x62] then Some ins_ED_62
      else if key = Tuple [0xED, 0x67] then Some ins_ED_67
      else if key = Tuple [0xED, 0x68] then Some ins_ED_68
      else if key = Tuple [0xED, 0x69] then Some ins_ED_69
      else if key = Tuple [0xED, 0x6A] then Some ins_ED_6A
      else if key = Tuple [0xED, 0x6F] then Some ins_ED_6F
      else if key = Tuple [0xED, 0x70] then Some ins_ED_70
      else if key = Tuple [0xED, 0x71] then Some ins_ED_71
      else if key = Tuple [0xED, 0x72] then Some ins_ED_72
      else if key = Tuple [0xED, 0x73] then Some ins_ED_73
      else if key = Tuple [0xED, 0x78] then Some ins_ED_78
      else if key = Tuple [0xED, 0x79] then Some ins_ED_79
      else if key = Tuple [0xED, 0x7A] then Some ins_ED_7A
      else if key = Tuple [0xED, 0x7B] then Some ins_ED_7B
      else if key = Tuple [0xED, 0xA0] then Some ins_ED_A0
      else if key = Tuple [0xED, 0xA1] then Some ins_ED_A1
      else if key = Tuple [0xED, 0xA2] then Some ins_ED_A2
      else if key = Tuple [0xED, 0xA3] then Some ins_ED_A3
      else if key = Tuple [0xED, 0xA8] then Some ins_ED_A8
      else if key = Tuple [0xED, 0xA9] then Some ins_ED_A9
      else if key = Tuple [0xED, 0xAA] then Some ins_ED_AA
      else if key = Tuple [0xED, 0xAB] then Some ins_ED_AB
      else if key = Tuple [0xED, 0xB0] then Some ins_ED_B0
      else if key = Tuple [0xED, 0xB1] then Some ins_ED_B1
      else if key = Tuple [0xED, 0xB2] then Some ins_ED_B2
      else if key = Tuple [0xED, 0xB3] then Some ins_ED_B3
      else if key = Tuple [0xED, 0xB8] then Some ins_ED_B8
      else if key = Tuple [0xED, 0xB9] then Some ins_ED_B9
      else if key = Tuple [0xED, 0xBA] then Some ins_ED_BA
      else if key = Tuple [0xED, 0xBB] then Some ins_ED_BB
      else if key = Tuple [0xFD, 0x09] then Some ins_FD_09
      else if key = Tuple [0xFD, 0x19] then Some ins_FD_19
      else if key = Tuple [0xFD, 0x23] then Some ins_FD_23
      else if key = Tuple [0xFD, 0x29] then Some ins_FD_29
      else if key = Tuple [0xFD, 0x2B] then Some ins_FD_2B
      else if key = Tuple [0xFD, 0x39] then Some ins_FD_39
      else if key = Tuple [0xFD, 0x21] then Some ins_FD_21
      else if key = Tuple [0xFD, 0x22] then Some ins_FD_22
      else if key = Tuple [0xFD, 0x2A] then Some ins_FD_2A
      else if key = Tuple [0xFD, 0x34] then Some ins_FD_34
      else if key = Tuple [0xFD, 0x35] then Some ins_FD_35
      else if key = Tuple [0xFD, 0x36] then Some ins_FD_36
      else if key = Tuple [0xFD, 0x46] then Some ins_FD_46
      else if key = Tuple [0xFD, 0x4E] then Some ins_FD_4E
      else if key = Tuple [0xFD, 0x56] then Some ins_FD_56
      else if key = Tuple [0xFD, 0x5E] then Some ins_FD_5E
      else if key = Tuple [0xFD, 0x66] then Some ins_FD_66
      else if key = Tuple [0xFD, 0x6E] then Some ins_FD_6E
      else if key = Tuple [0xFD, 0x70] then Some ins_FD_70
      else if key = Tuple [0xFD, 0x71] then Some ins_FD_71
      else if key = Tuple [0xFD, 0x72] then Some ins_FD_72
      else if key = Tuple [0xFD, 0x73] then Some ins_FD_73
      else if key = Tuple [0xFD, 0x74] then Some ins_FD_74
      else if key = Tuple [0xFD, 0x75] then Some ins_FD_75
      else if key = Tuple [0xFD, 0x77] then Some ins_FD_77
      else if key = Tuple [0xFD, 0x7E] then Some ins_FD_7E
      else if key = Tuple [0xFD, 0x86] then Some ins_FD_86
      else if key = Tuple [0xFD, 0x8E] then Some ins_FD_8E
      else if key = Tuple [0xFD, 0x96] then Some ins_FD_96
      else if key = Tuple [0xFD, 0x9E] then Some ins_FD_9E
      else if key = Tuple [0xFD, 0xA6] then Some ins_FD_A6
      else if key = Tuple [0xFD, 0xAE] then Some ins_FD_AE
      else if key = Tuple [0xFD, 0xB6] then Some ins_FD_B6
      else if key = Tuple [0xFD, 0xBE] then Some ins_FD_BE
      else if key = Tuple [0xFD, 0xCB] then Some ins_FD_CB
      else if key = Tuple [0xFD, 0xE1] then Some ins_FD_E1
      else if key = Tuple [0xFD, 0xE3] then Some ins_FD_E3
      else if key = Tuple [0xFD, 0xE5] then Some ins_FD_E5
      else if key = Tuple [0xFD, 0xE9] then Some ins_FD_E9
      else if key = Tuple [0xFD, 0xF9] then Some ins_FD_F9
      else if key = Tuple [0xDD, 0xCB, 0x06] then Some ins_DD_CB_06
      else if key = Tuple [0xDD, 0xCB, 0x0E] then Some ins_DD_CB_0E
      else if key = Tuple [0xDD, 0xCB, 0x16] then Some ins_DD_CB_16
      else if key = Tuple [0xDD, 0xCB, 0x1E] then Some ins_DD_CB_1E
      else if key = Tuple [0xDD, 0xCB, 0x26] then Some ins_DD_CB_26
      else if key = Tuple [0xDD, 0xCB, 0x2E] then Some ins_DD_CB_2E
      else if key = Tuple [0xDD, 0xCB, 0x36] then Some ins_DD_CB_36
      else if key = Tuple [0xDD, 0xCB, 0x3E] then Some ins_DD_CB_3E
      else if key = Tuple [0xDD, 0xCB, 0x46] then Some ins_DD_CB_46
      else if key = Tuple [0xDD, 0xCB, 0x4E] then Some ins_DD_CB_4E
      else if key = Tuple [0xDD, 0xCB, 0x56] then Some ins_DD_CB_56
      else if key = Tuple [0xDD, 0xCB, 0x5E] then Some ins_DD_CB_5E
      else if key = Tuple [0xDD, 0xCB, 0x66] then Some ins_DD_CB_66
      else if key = Tuple [0xDD, 0xCB, 0x6E] then Some ins_DD_CB_6E
      else if key = Tuple [0xDD, 0xCB, 0x76] then Some ins_DD_CB_76
      else if key = Tuple [0xDD, 0xCB, 0x7E] then Some ins_DD_CB_7E
      else if key = Tuple [0xDD, 0xCB, 0x86] then Some ins_DD_CB_86
      else if key = Tuple [0xDD, 0xCB, 0x8E] then Some ins_DD_CB_8E
      else if key = Tuple [0xDD, 0xCB, 0x96] then Some ins_DD_CB_96
      else if key = Tuple [0xDD, 0xCB, 0x9E] then Some ins_DD_CB_9E
      else if key = Tuple [0xDD, 0xCB, 0xA6] then Some ins_DD_CB_A6
      else if key = Tuple [0xDD, 0xCB, 0xAE] then Some ins_DD_CB_AE
      else if key = Tuple [0xDD, 0xCB, 0xB6] then Some ins_DD_CB_B6
      else if key = Tuple [0xDD, 0xCB, 0xBE] then Some ins_DD_CB_BE
      else if key = Tuple [0xDD, 0xCB, 0xC6] then Some ins_DD_CB_C6
      else if key = Tuple [0xDD, 0xCB, 0xCE] then Some ins_DD_CB_CE
      else if key = Tuple [0xDD, 0xCB, 0xD6] then Some ins_DD_CB_D6
      else if key = Tuple [0xDD, 0xCB, 0xDE] then Some ins_DD_CB_DE
      else if key = Tuple [0xDD, 0xCB, 0xE6] then Some ins_DD_CB_E6
      else if key = Tuple [0xDD, 0xCB, 0xEE] then Some ins_DD_CB_EE
      else if key = Tuple [0xDD, 0xCB, 0xF6] then Some ins_DD_CB_F6
      else if key = Tuple [0xDD, 0xCB, 0xFE] then Some ins_DD_CB_FE
      else if key = Tuple [0xFD, 0xCB, 0x06] then Some ins_FD_CB_06
      else if key = Tuple [0xFD, 0xCB, 0x0E] then Some ins_FD_CB_0E
      else if key = Tuple [0xFD, 0xCB, 0x16] then Some ins_FD_CB_16
      else if key = Tuple [0xFD, 0xCB, 0x1E] then Some ins_FD_CB_1E
      else if key = Tuple [0xFD, 0xCB, 0x26] then Some ins_FD_CB_26
      else if key = Tuple [0xFD, 0xCB, 0x2E] then Some ins_FD_CB_2E
      else if key = Tuple [0xFD, 0xCB, 0x36] then Some ins_FD_CB_36
      else if key = Tuple [0xFD, 0xCB, 0x3E] then Some ins_FD_CB_3E
      else if key = Tuple [0xFD, 0xCB, 0x46] then Some ins_FD_CB_46
      else if key = Tuple [0xFD, 0xCB, 0x4E] then Some ins_FD_CB_4E
      else if key = Tuple [0xFD, 0xCB, 0x56] then Some ins_FD_CB_56
      else if key = Tuple [0xFD, 0xCB, 0x5E] then Some ins_FD_CB_5E
      else if key = Tuple [0xFD, 0xCB, 0x66] then Some ins_FD_CB_66
      else if key = Tuple [0xFD, 0xCB, 0x6E] then Some ins_FD_CB_6E
      else if key = Tuple [0xFD, 0xCB, 0x76] then Some ins_FD_CB_76
      else if key = Tuple [0xFD, 0xCB, 0x7E] then Some ins_FD_CB_7E
      else if key = Tuple [0xFD, 0xCB, 0x86] then Some ins_FD_CB_86
      else if key = Tuple [0xFD, 0xCB, 0x8E] then Some ins_FD_CB_8E
      else if key = Tuple [0xFD, 0xCB, 0x96] then Some ins_FD_CB_96
      else if key = Tuple [0xFD, 0xCB, 0x9E] then Some ins_FD_CB_9E
      else if key = Tuple [0xFD, 0xCB, 0xA6] then Some ins_FD_CB_A6
      else if key = Tuple [0xFD, 0xCB, 0xAE] then Some ins_FD_CB_AE
      else if key = Tuple [0xFD, 0xCB, 0xB6] then Some ins_FD_CB_B6
      else if key = Tuple [0xFD, 0xCB, 0xBE] then Some ins_FD_CB_BE
      else if key = Tuple [0xFD, 0xCB, 0xC6] then Some ins_FD_CB_C6
      else if key = Tuple [0xFD, 0xCB, 0xCE] then Some ins_FD_CB_CE
      else if key = Tuple [0xFD, 0xCB, 0xD6] then Some ins_FD_CB_D6
      else if key = Tuple [0xFD, 0xCB, 0xDE] then Some ins_FD_CB_DE
      else if key = Tuple [0xFD, 0xCB, 0xE6] then Some ins_FD_CB_E6
      else if key = Tuple [0xFD, 0xCB, 0xEE] then Some ins_FD_CB_EE
      else if key = Tuple [0xFD, 0xCB, 0xF6] then Some ins_FD_CB_F6
      else if key = Tuple [0xFD, 0xCB, 0xFE] then Some ins_FD_CB_FE
      else None)"

definition decode_instruction :: "opcode \<Rightarrow> py_error + (int \<times> action list \<times> state_ctor list)" where
  "decode_instruction instruction =
     (case INSTRUCTION_STATES instruction of
        Some (extra, actions, states, rest) \<Rightarrow> Inr (extra, actions, states)
      | None \<Rightarrow> Inl (UnrecognisedInstructionError instruction))"

section \<open>The machine states\<close>

text \<open>
  One call of \<^verbatim>\<open>next\<close> on the generator of a machine state runs it from the point where
  it is suspended to the next \<^verbatim>\<open>yield\<close> (\<open>yield p\<close>, with the new point) or to its
  \<^verbatim>\<open>return\<close> (\<open>stop\<close>, Python's \<^verbatim>\<open>StopIteration\<close>), or raises.
\<close>

type_synonym step = "py_error + (point option \<times> ctx)"

definition yield :: "point \<Rightarrow> ctx \<Rightarrow> step" where
  "yield p s = Inr (Some p, s)"

definition stop :: "ctx \<Rightarrow> step" where
  "stop s = Inr (None, s)"

text \<open>A point that is not one of the generator at hand; no run reaches this.\<close>

definition wrong_point :: step where
  "wrong_point = Inl (PyException ''generator resumed at a foreign point'')"

text \<open>\<^verbatim>\<open>next(self.data_source)\<close> with \<^verbatim>\<open>StopIteration\<close> caught and replaced by 0.\<close>

definition next_or_zero :: "ctx \<Rightarrow> int \<times> ctx" where
  "next_or_zero s = (case ds s of [] \<Rightarrow> (0, s) | x # xs \<Rightarrow> (x, s\<lparr>ds := xs\<rparr>))"

text \<open>The call \<^verbatim>\<open>self.action(self, D)\<close> when an action is set, at the end of a state.\<close>

definition act_and_stop :: "action option \<Rightarrow> int list \<Rightarrow> ctx \<Rightarrow> step" where
  "act_and_stop action args s =
     (case action of None \<Rightarrow> stop s | Some a \<Rightarrow> bindE (apply_action a args s) stop)"

definition combine :: "(int \<Rightarrow> int \<Rightarrow> int) option \<Rightarrow> int \<Rightarrow> int option \<Rightarrow> int" where
  "combine compound d old =
     (case (old, compound) of (Some v, Some f) \<Rightarrow> f d v | _ \<Rightarrow> d)"

fun run_OCF :: "opcode option \<Rightarrow> int \<Rightarrow> bool \<Rightarrow> point \<Rightarrow> ctx \<Rightarrow> step" where
  "run_OCF prefix extra d Start s = yield (OCF_1 (get_reg s PC)) s"
| "run_OCF prefix extra d (OCF_1 pc) s =
     (let (byte, s1) = (if d then next_or_zero s else (membus_read (cpu s) pc, s));
          inst = (case prefix of
                    None \<Rightarrow> Byte byte
                  | Some (Byte p) \<Rightarrow> Tuple [p, byte]
                  | Some (Tuple ps) \<Rightarrow> Tuple (ps @ [byte]))
      in yield (OCF_2 pc inst) (s1\<lparr>cpu := (cpu s1)\<lparr>most_recent_instruction := Some (Instruction inst)\<rparr>\<rparr>))"
| "run_OCF prefix extra d (OCF_2 pc inst) s =
     bindE (decode_instruction inst) (\<lambda>(extra_clocks, actions, states).
       yield (OCF_3 (nat (extra + extra_clocks - 1)) actions states)
             (if d then s else set_reg s PC (pc + 1)))"
| "run_OCF prefix extra d (OCF_3 n actions states) s =
     (if 0 < n then yield (OCF_3 (n - 1) actions states) s
      else bindE (apply_each actions []
                    (s\<lparr>queued := queued s @ map (\<lambda>k. set_data_source d (instantiate k)) states\<rparr>))
             stop)"
| "run_OCF prefix extra d p s = wrong_point"

fun run_OD :: "(int \<Rightarrow> int \<Rightarrow> int) option \<Rightarrow> action option \<Rightarrow> string \<Rightarrow> bool \<Rightarrow> bool \<Rightarrow> point \<Rightarrow> ctx \<Rightarrow> step" where
  "run_OD compound action key is_signed d Start s = yield (OD_1 (get_reg s PC)) s"
| "run_OD compound action key is_signed d (OD_1 pc) s =
     (let (D0, s1) = (if \<not> d then (membus_read (cpu s) pc, s) else next_or_zero s);
          D1 = (if is_signed \<and> D0 \<ge> 0x80 then D0 - 0x100 else D0)
      in yield (OD_2 pc D1) s1)"
| "run_OD compound action key is_signed d (OD_2 pc D0) s =
     (let s1 = (if \<not> d then set_reg s PC (pc + 1) else s);
          D1 = combine compound D0 (kwargs s1 key)
      in (case action of
            Some a \<Rightarrow> bindE (apply_action a [D1] s1) stop
          | None \<Rightarrow> stop (store s1 key D1)))"
| "run_OD compound action key is_signed d p s = wrong_point"

text \<open>The address of \<^verbatim>\<open>MR\<close> and \<^verbatim>\<open>MW\<close>: the parameter, the register, or \<^verbatim>\<open>kwargs['address']\<close>.\<close>

definition resolve_address :: "string \<Rightarrow> int option \<Rightarrow> reg option \<Rightarrow> ctx \<Rightarrow> py_error + int" where
  "resolve_address msg address indirect s =
     (case address of
        Some a \<Rightarrow> Inr a
      | None \<Rightarrow> (case indirect of
          None \<Rightarrow> (case kwargs s ''address'' of
                     None \<Rightarrow> Inl (PyException msg)
                   | Some a \<Rightarrow> Inr a)
        | Some r \<Rightarrow> Inr (get_reg s r)))"

fun run_MR :: "int option \<Rightarrow> reg option \<Rightarrow> (int \<Rightarrow> int \<Rightarrow> int) option \<Rightarrow> action option \<Rightarrow> bool \<Rightarrow> point \<Rightarrow> ctx \<Rightarrow> step" where
  "run_MR address indirect compound action incaddr Start s =
     bindE (resolve_address ''MR without either address of indirect specified'' address indirect s)
       (\<lambda>a. yield (MR_1 a) s)"
| "run_MR address indirect compound action incaddr (MR_1 a) s =
     yield (MR_2 a (membus_read (cpu s) a)) s"
| "run_MR address indirect compound action incaddr (MR_2 a D0) s =
     (let D1 = combine compound D0 (kwargs s ''value'');
          s1 = (if incaddr then store s ''address'' (a + 1) else s)
      in (case action of
            Some act \<Rightarrow> bindE (apply_action act [D1] s1) stop
          | None \<Rightarrow> stop (store s1 ''value'' D1)))"
| "run_MR address indirect compound action incaddr p s = wrong_point"

fun run_MW :: "int option \<Rightarrow> reg option \<Rightarrow> valarg \<Rightarrow> reg option \<Rightarrow> action option \<Rightarrow> int \<Rightarrow> point \<Rightarrow> ctx \<Rightarrow> step" where
  "run_MW address indirect val source action extra Start s =
     bindE (resolve_address ''MW without either address of indirect specified'' address indirect s)
       (\<lambda>a. yield (MW_1 a) s)"
| "run_MW address indirect val source action extra (MW_1 a) s =
     bindE (case val of
              NoValue \<Rightarrow> (case source of
                  None \<Rightarrow> (case kwargs s ''value'' of
                             None \<Rightarrow> Inl (PyException ''MW without either value or source specified'')
                           | Some v \<Rightarrow> Inr v)
                | Some r \<Rightarrow> Inr (get_reg s r))
            | Callable f \<Rightarrow> call f s []
            | Literal v \<Rightarrow> Inr v)
       (\<lambda>v. yield (MW_2 a v) s)"
| "run_MW address indirect val source action extra (MW_2 a v) s =
     (let s1 = store (s\<lparr>cpu := membus_write (cpu s) a v\<rparr>) ''address'' (a + 1)
      in if 0 < nat extra then yield (MW_3 (nat extra - 1) v) s1
         else act_and_stop action [v] s1)"
| "run_MW address indirect val source action extra (MW_3 n v) s =
     (if 0 < n then yield (MW_3 (n - 1) v) s else act_and_stop action [v] s)"
| "run_MW address indirect val source action extra p s = wrong_point"

fun run_SR :: "(int \<Rightarrow> int \<Rightarrow> int) option \<Rightarrow> action option \<Rightarrow> int \<Rightarrow> point \<Rightarrow> ctx \<Rightarrow> step" where
  "run_SR compound action extra Start s = yield (SR_1 (get_reg s SP)) s"
| "run_SR compound action extra (SR_1 a) s =
     yield (SR_2 (nat extra) (membus_read (cpu s) a)) s"
| "run_SR compound action extra (SR_2 n D0) s =
     (if 0 < n then yield (SR_2 (n - 1) D0) s
      else
        let D1 = combine compound D0 (kwargs s ''value'');
            s1 = store s ''value'' D1;
            s2 = set_reg s1 SP (get_reg s1 SP + 1)
        in act_and_stop action [D1] s2)"
| "run_SR compound action extra p s = wrong_point"

fun run_SW :: "reg option \<Rightarrow> string \<Rightarrow> int \<Rightarrow> action option \<Rightarrow> point \<Rightarrow> ctx \<Rightarrow> step" where
  "run_SW source key extra action Start s =
     yield (SW_1 (nat extra)) (set_reg s SP (get_reg s SP - 1))"
| "run_SW source key extra action (SW_1 n) s =
     (if 0 < n then yield (SW_1 (n - 1)) s else yield (SW_2 (get_reg s SP)) s)"
| "run_SW source key extra action (SW_2 a) s =
     bindE (case source of Some r \<Rightarrow> Inr (get_reg s r) | None \<Rightarrow> lookup s key)
       (\<lambda>D0. act_and_stop action [D0] (s\<lparr>cpu := membus_write (cpu s) a D0\<rparr>))"
| "run_SW source key extra action p s = wrong_point"

text \<open>
  The loop \<^verbatim>\<open>for key in self.kwargs\<close> at the start of \<^verbatim>\<open>IO\<close>. A transformer reads
  registers and the old value only, so the order of the keys does not matter.
\<close>

definition apply_transform :: "transform \<Rightarrow> string \<Rightarrow> ctx \<Rightarrow> ctx" where
  "apply_transform t key s = (case t of
      NoTransform \<Rightarrow> s
    | TransformCallable f \<Rightarrow> (case kwargs s key of
          None \<Rightarrow> s
        | Some v \<Rightarrow> store s key (apply_transformer f s v))
    | TransformDict m \<Rightarrow> s\<lparr>kwargs := (\<lambda>k. case kwargs s k of
          None \<Rightarrow> None
        | Some v \<Rightarrow> (case map_of m k of
              None \<Rightarrow> Some v
            | Some f \<Rightarrow> Some (apply_transformer f s v)))\<rparr>)"

fun run_IO :: "int \<Rightarrow> bool \<Rightarrow> transform \<Rightarrow> action option \<Rightarrow> string \<Rightarrow> point \<Rightarrow> ctx \<Rightarrow> step" where
  "run_IO ticks locked t action key Start s =
     (let s1 = apply_transform t key s
      in if 0 < nat (ticks - 1) then yield (IO_n (nat (ticks - 1) - 1)) s1
         else act_and_stop action [] s1)"
| "run_IO ticks locked t action key (IO_n n) s =
     (if 0 < n then yield (IO_n (n - 1)) s else act_and_stop action [] s)"
| "run_IO ticks locked t action key p s = wrong_point"

fun run_PR :: "reg option \<Rightarrow> reg option \<Rightarrow> action option \<Rightarrow> reg option \<Rightarrow> point \<Rightarrow> ctx \<Rightarrow> step" where
  "run_PR high low action dest Start s =
     bindE (case low of
              Some r \<Rightarrow> Inr (get_reg s r)
            | None \<Rightarrow> bindE (lookup s ''value'') (\<lambda>v. Inr (v AND 0xFF)))
       (\<lambda>l. yield (PR_1 l (case high of Some r \<Rightarrow> get_reg s r | None \<Rightarrow> 0x00)) s)"
| "run_PR high low action dest (PR_1 l h) s = yield (PR_2 (iobus_read (cpu s) l h)) s"
| "run_PR high low action dest (PR_2 D0) s = yield (PR_3 D0) s"
| "run_PR high low action dest (PR_3 D0) s =
     (let s1 = (case dest of Some r \<Rightarrow> set_reg s r D0 | None \<Rightarrow> s)
      in act_and_stop action [D0] (store s1 ''value'' D0))"
| "run_PR high low action dest p s = wrong_point"

fun run_PW :: "reg option \<Rightarrow> reg option \<Rightarrow> action option \<Rightarrow> reg option \<Rightarrow> point \<Rightarrow> ctx \<Rightarrow> step" where
  "run_PW high low action source Start s =
     bindE (case low of
              Some r \<Rightarrow> Inr (get_reg s r)
            | None \<Rightarrow> bindE (lookup s ''address'') (\<lambda>v. Inr (v AND 0xFF)))
       (\<lambda>l. yield (PW_1 l (case high of Some r \<Rightarrow> get_reg s r | None \<Rightarrow> 0x00)) s)"
| "run_PW high low action source (PW_1 l h) s =
     bindE (case source of
              Some r \<Rightarrow> Inr (get_reg s r)
            | None \<Rightarrow> bindE (lookup s ''value'') (\<lambda>v. Inr (v AND 0xFF)))
       (\<lambda>D0. yield (PW_2 l h D0) s)"
| "run_PW high low action source (PW_2 l h D0) s =
     yield (PW_3 D0) (s\<lparr>cpu := iobus_write (cpu s) l h D0\<rparr>)"
| "run_PW high low action source (PW_3 D0) s = act_and_stop action [D0] (store s ''value'' D0)"
| "run_PW high low action source p s = wrong_point"

definition run :: "mstate \<Rightarrow> ctx \<Rightarrow> step" where
  "run m s = (case ctor m of
      OCF prefix d extra \<Rightarrow> run_OCF prefix extra (has_data_source m) (at m) s
    | OD compound action key is_signed \<Rightarrow> run_OD compound action key is_signed (has_data_source m) (at m) s
    | MR address indirect compound action incaddr \<Rightarrow> run_MR address indirect compound action incaddr (at m) s
    | MW address indirect val source action extra \<Rightarrow> run_MW address indirect val source action extra (at m) s
    | SR compound action extra \<Rightarrow> run_SR compound action extra (at m) s
    | SW source key extra action \<Rightarrow> run_SW source key extra action (at m) s
    | IO ticks locked t action key \<Rightarrow> run_IO ticks locked t action key (at m) s
    | PR high low action dest \<Rightarrow> run_PR high low action dest (at m) s
    | PW high low action source \<Rightarrow> run_PW high low action source (at m) s)"

definition fetchlocked :: "mstate \<Rightarrow> bool" where
  "fetchlocked m = (case ctor m of IO ticks locked t action key \<Rightarrow> locked | _ \<Rightarrow> True)"

section \<open>The pipeline\<close>

text \<open>
  The whole machine between two clock cycles: the CPU, the pipeline of machine states
  and the items that the data source of an interrupt acknowledge will still yield.
\<close>

record config =
  the_cpu :: cpu
  pipeline :: "mstate list"
  data_source :: "int list"

text \<open>
  \<open>suspended m p s\<close> is the machine when the head \<open>m\<close> has yielded at \<open>p\<close>;
  \<open>finished s\<close> is the machine when the head has returned: \<^verbatim>\<open>clock\<close> pops it and hands
  its \<^verbatim>\<open>kwargs\<close> to the new head.
\<close>

definition suspended :: "mstate \<Rightarrow> point \<Rightarrow> ctx \<Rightarrow> config" where
  "suspended m p s =
     \<lparr>the_cpu = cpu s, pipeline = m\<lparr>at := p, bag := kwargs s\<rparr> # queued s, data_source = ds s\<rparr>"

definition finished :: "ctx \<Rightarrow> config" where
  "finished s =
     \<lparr>the_cpu = cpu s,
      pipeline = (case queued s of [] \<Rightarrow> [] | n # ns \<Rightarrow> n\<lparr>bag := kwargs s\<rparr> # ns),
      data_source = ds s\<rparr>"

text \<open>
  \<^verbatim>\<open>MachineState.clock\<close>, called on the head of the pipeline.

  Modelled from the spec: the driver that owns the pipeline is not part of
  \<^verbatim>\<open>machinestates.py\<close>. Following section 4.6, one T-cycle is one call of \<^verbatim>\<open>clock\<close> on the
  head of the pipeline, and the instruction is over when the pipeline is empty.
\<close>

definition clock :: "config \<Rightarrow> py_error + config" where
  "clock c = (case pipeline c of
      [] \<Rightarrow> Inl IndexError
    | m # rest \<Rightarrow>
        (case run m \<lparr>cpu = the_cpu c, kwargs = bag m, queued = rest, ds = data_source c\<rparr> of
           Inl e \<Rightarrow> Inl e
         | Inr (Some p, s) \<Rightarrow> Inr (suspended m p s)
         | Inr (None, s) \<Rightarrow> Inr (finished s)))"

text \<open>
  \<open>run_pipeline fuel c\<close> clocks the machine until the pipeline is empty and returns the
  number of clock cycles that this took with the machine reached, or the exception
  raised on the way; it is \<open>None\<close> when \<open>fuel\<close> clock cycles do not suffice.
\<close>

definition add_ticks :: "nat \<Rightarrow> (py_error + nat \<times> config) option \<Rightarrow> (py_error + nat \<times> config) option" where
  "add_ticks k r = (case r of
      None \<Rightarrow> None
    | Some (Inl e) \<Rightarrow> Some (Inl e)
    | Some (Inr (n, c)) \<Rightarrow> Some (Inr (n + k, c)))"

fun run_pipeline :: "nat \<Rightarrow> config \<Rightarrow> (py_error + nat \<times> config) option" where
  "run_pipeline 0 c = (if pipeline c = [] then Some (Inr (0, c)) else None)"
| "run_pipeline (Suc fuel) c =
     (if pipeline c = [] then Some (Inr (0, c))
      else (case clock c of
              Inl e \<Rightarrow> Some (Inl e)
            | Inr c' \<Rightarrow> add_ticks 1 (run_pipeline fuel c')))"


section \<open>Interrupt entry\<close>

text \<open>
  \<^verbatim>\<open>interrupt_response(cpu, nmi, ack)\<close> returns the new pipeline; here it also returns
  the CPU (whose \<^verbatim>\<open>most_recent_instruction\<close> it sets) and the items of the data
  source \<^verbatim>\<open>ds\<close> that it created. \<open>ack\<close> maps the CPU to the items that the
  acknowledging device will yield.
\<close>

definition interrupt_response :: "cpu \<Rightarrow> bool \<Rightarrow> (cpu \<Rightarrow> int list) option \<Rightarrow> py_error + (cpu \<times> mstate list \<times> int list)" where
  "interrupt_response c nmi ack =
     (let src = (case ack of Some f \<Rightarrow> f c | None \<Rightarrow> [])
      in if nmi then
           Inr (c\<lparr>most_recent_instruction := Some (Marker ''NMI'')\<rparr>,
                [instantiate (IO 5 True NoTransform (Some inta) ''value''),
                 instantiate (SW (Some PCH) ''value'' 0 None),
                 instantiate (SW (Some PCL) ''value'' 0 (Some (JP (Literal 0x0066) None None)))],
                src)
         else if interrupt_mode c = 0 then
           Inr (c\<lparr>most_recent_instruction := Some (Marker ''INT0'')\<rparr>,
                [instantiate (OCF None True 2)],
                src)
         else if interrupt_mode c = 1 then
           Inr (c\<lparr>most_recent_instruction := Some (Marker ''INT1'')\<rparr>,
                [instantiate (IO 7 True NoTransform (Some inta) ''value''),
                 instantiate (SW (Some PCH) ''value'' 0 None),
                 instantiate (SW (Some PCL) ''value'' 0 (Some (JP (Literal 0x0038) None None)))],
                src)
         else if interrupt_mode c = 2 then
           Inr (c\<lparr>most_recent_instruction := Some (Marker ''INT2'')\<rparr>,
                [instantiate (IO 4 True NoTransform None ''value''),
                 set_data_source True (instantiate (OD (Some high_after_low)
                   (Some (RRr ''address'' None
                      (Callable (Lambda2 (BitOr (LShift (Reg I) (Const 8)) (BitAnd Arg (Const 0xFE)))))))
                   ''value'' False)),
                 instantiate (SW (Some PCH) ''value'' 0 None),
                 instantiate (SW (Some PCL) ''value'' 0 None),
                 instantiate (MR None None (Some high_after_low) None True),
                 instantiate (MR None None (Some high_after_low) (Some (JP NoValue None None)) True)],
                src)
         else Inl (PyException ''Not implemented yet''))"

section \<open>The disassembler\<close>

text \<open>Python's indexing of a list: a negative index counts from the end.\<close>

definition py_index :: "'a list \<Rightarrow> int \<Rightarrow> py_error + 'a" where
  "py_index xs i =
     (if 0 \<le> i \<and> i < int (length xs) then Inr (xs ! nat i)
      else if i < 0 \<and> - i \<le> int (length xs) then Inr (xs ! nat (int (length xs) + i))
      else Inl IndexError)"

text \<open>\<^verbatim>\<open>old in s\<close> and \<^verbatim>\<open>s.replace(old, new)\<close> on strings, for a non-empty \<open>old\<close>.\<close>

fun contains :: "string \<Rightarrow> string \<Rightarrow> bool" where
  "contains old [] = (old = [])"
| "contains old (c # cs) = (take (length old) (c # cs) = old \<or> contains old cs)"

function replace :: "string \<Rightarrow> string \<Rightarrow> string \<Rightarrow> string" where
  "replace old new [] = []"
| "replace old new (c # cs) =
     (if old \<noteq> [] \<and> take (length old) (c # cs) = old
      then new @ replace old new (drop (length old) (c # cs))
      else c # replace old new cs)"
  by pat_completeness auto
termination
  by (relation "measure (\<lambda>(old, new, s). length s)") auto

text \<open>
  \<^verbatim>\<open>"{:04X}".format(n)\<close> and \<^verbatim>\<open>"{:02X}".format(n)\<close>: upper-case hexadecimal digits,
  padded with zeros to the width, the sign of a negative number counting for the width.
\<close>

definition hex_digit :: "nat \<Rightarrow> char" where
  "hex_digit n = ''0123456789ABCDEF'' ! (n mod 16)"

fun hex_digits :: "nat \<Rightarrow> nat \<Rightarrow> string" where
  "hex_digits 0 n = []"
| "hex_digits (Suc fuel) n =
     (if n < 16 then [hex_digit n] else hex_digits fuel (n div 16) @ [hex_digit n])"

definition format_X :: "nat \<Rightarrow> int \<Rightarrow> string" where
  "format_X width n =
     (let digits = hex_digits (Suc (nat \<bar>n\<bar>)) (nat \<bar>n\<bar>);
          sign = (if n < 0 then ''-'' else [])
      in sign @ replicate (width - length sign - length digits) CHR ''0'' @ digits)"

text \<open>
  The value of \<^verbatim>\<open>length\<close> in \<^verbatim>\<open>disassemble_instructions\<close> is an integer, except on the
  path for an unknown first byte, where the source assigns the string \<^verbatim>\<open>"1"\<close>.
\<close>

datatype pyval = IntV int | StrV string

text \<open>
  \<^verbatim>\<open>(code, length) = INSTRUCTION_STATES[key][3:]\<close>: the slice of an entry of four elements
  has one element, and unpacking it into two names raises \<^verbatim>\<open>ValueError\<close> (the
  \<^verbatim>\<open>except\<close> clause prints and raises it again).
\<close>

definition unpack_tail :: "entry \<Rightarrow> py_error + (string \<times> int)" where
  "unpack_tail e = (case e of
      (extra, actions, states, code, Some n) \<Rightarrow> Inr (code, n)
    | (extra, actions, states, code, None) \<Rightarrow> Inl ValueError)"

text \<open>The nested lookups at the head of the loop body; \<open>instructions\<close> is not empty.\<close>

definition find_code :: "int list \<Rightarrow> py_error + (string \<times> pyval)" where
  "find_code instructions =
     (case INSTRUCTION_STATES (Byte (instructions ! 0)) of
        None \<Rightarrow> Inr (''???'', StrV ''1'')
      | Some e1 \<Rightarrow> bindE (unpack_tail e1) (\<lambda>(code1, length1).
          if length1 = 0 then
            (if length instructions > 1 then
               (case INSTRUCTION_STATES (Tuple [instructions ! 0, instructions ! 1]) of
                  None \<Rightarrow> Inr (''???'', IntV 2)
                | Some e2 \<Rightarrow> bindE (unpack_tail e2) (\<lambda>(code2, length2).
                    if length2 = 0 then
                      (if length instructions > 3 then
                         (case INSTRUCTION_STATES (Tuple [instructions ! 0, instructions ! 1, instructions ! 3]) of
                            None \<Rightarrow> Inr (''???'', IntV 4)
                          | Some e3 \<Rightarrow> bindE (unpack_tail e3) (\<lambda>(code3, length3). Inr (code3, IntV length3)))
                       else Inr (''???'', IntV 4))
                    else Inr (code2, IntV length2)))
             else Inr (''???'', IntV 2))
          else Inr (code1, IntV length1)))"

text \<open>\<^verbatim>\<open>length <= len(instructions)\<close>: comparing a string with an integer raises.\<close>

definition fits :: "pyval \<Rightarrow> int list \<Rightarrow> py_error + bool" where
  "fits len instructions = (case len of
      IntV n \<Rightarrow> Inr (n \<le> int (length instructions))
    | StrV s \<Rightarrow> Inl TypeError)"

definition minus :: "pyval \<Rightarrow> int \<Rightarrow> py_error + int" where
  "minus len k = (case len of IntV n \<Rightarrow> Inr (n - k) | StrV s \<Rightarrow> Inl TypeError)"

text \<open>The substitution of the constants \<^verbatim>\<open>nn\<close>, \<^verbatim>\<open>n\<close> and \<^verbatim>\<open>+d\<close> into the mnemonic.\<close>

definition substitute_n :: "string \<Rightarrow> pyval \<Rightarrow> int list \<Rightarrow> py_error + string" where
  "substitute_n code len instructions =
     bindE (if contains ''nn'' code then fits len instructions else Inr False) (\<lambda>nn.
       if nn then
         bindE (minus len 1) (\<lambda>i1. bindE (py_index instructions i1) (\<lambda>hi.
         bindE (minus len 2) (\<lambda>i2. bindE (py_index instructions i2) (\<lambda>lo.
           Inr (replace ''nn'' (''0x'' @ format_X 4 (push_bit 8 hi + lo)) code)))))
       else
         bindE (if contains ''n'' code then fits len instructions else Inr False) (\<lambda>n.
           if n then
             bindE (minus len 1) (\<lambda>i1. bindE (py_index instructions i1) (\<lambda>d.
               Inr (replace ''n'' (''0x'' @ format_X 2 d) code)))
           else Inr code))"

definition substitute_d :: "string \<Rightarrow> int list \<Rightarrow> py_error + string" where
  "substitute_d code instructions =
     (if contains ''+d'' code \<and> 3 \<le> length instructions
      then bindE (py_index instructions 2) (\<lambda>d. Inr (replace ''+d'' (''+0x'' @ format_X 2 d) code))
      else Inr code)"

text \<open>
  \<^verbatim>\<open>for i in range(0,length): if len(instructions) > 0: instructions.pop(0)\<close>;
  \<^verbatim>\<open>range\<close> raises \<^verbatim>\<open>TypeError\<close> on a string.
\<close>

definition pop_front :: "pyval \<Rightarrow> int list \<Rightarrow> py_error + int list" where
  "pop_front len instructions = (case len of
      IntV n \<Rightarrow> Inr (drop (nat n) instructions)
    | StrV s \<Rightarrow> Inl TypeError)"

definition disassemble_one :: "int list \<Rightarrow> py_error + ((string \<times> pyval) \<times> int list)" where
  "disassemble_one instructions =
     bindE (find_code instructions) (\<lambda>(code0, len).
     bindE (substitute_n code0 len instructions) (\<lambda>code1.
     bindE (substitute_d code1 instructions) (\<lambda>code2.
     bindE (pop_front len instructions) (\<lambda>rest.
       Inr ((code2, len), rest)))))"

text \<open>
  The loop \<^verbatim>\<open>while len(instructions) > 0\<close>. It need not end (a round that pops nothing
  repeats forever), so the result is an option: \<open>None\<close> is a loop that never returns.
\<close>

partial_function (option) disassemble_loop :: "int list \<Rightarrow> (string \<times> pyval) list \<Rightarrow> (py_error + (string \<times> pyval) list) option" where
  "disassemble_loop instructions ret =
     (if instructions = [] then Some (Inr ret)
      else (case disassemble_one instructions of
              Inl e \<Rightarrow> Some (Inl e)
            | Inr (item, rest) \<Rightarrow> disassemble_loop rest (ret @ [item])))"

definition disassemble_instructions :: "int list \<Rightarrow> (py_error + (string \<times> pyval) list) option" where
  "disassemble_instructions instructions = disassemble_loop instructions []"

declare disassemble_loop.simps [code]

section \<open>Running one instruction\<close>

text \<open>
  Modelled from the spec: the scheduler of section 4.6 is in the driver, which is not
  part of \<^verbatim>\<open>machinestates.py\<close>. When the pipeline is empty and no interrupt is taken,
  the next instruction starts as the pipeline \<^verbatim>\<open>[ OCF() ]\<close>.
\<close>

definition start_instruction :: "cpu \<Rightarrow> config" where
  "start_instruction c =
     \<lparr>the_cpu = c, pipeline = [instantiate (OCF None False 0)], data_source = []\<rparr>"

text \<open>A CPU with every register zero and a given memory, to evaluate the model on.\<close>

definition blank_registers :: registers where
  "blank_registers = \<lparr>r8 = (\<lambda>r. 0), r8_shadow = (\<lambda>r. 0), r_SP = 0, r_PC = 0\<rparr>"

definition program :: "int list \<Rightarrow> 16 word \<Rightarrow> 8 word" where
  "program bytes a = (if unat a < length bytes then word_of_int (bytes ! unat a) else 0)"

definition blank_cpu :: "(16 word \<Rightarrow> 8 word) \<Rightarrow> cpu" where
  "blank_cpu mem =
     \<lparr>reg = blank_registers, membus = mem, iobus_in = (\<lambda>low high. 0), iobus_out = [],
      iff1 = 0, iff2 = 0, interrupt_mode = 0, int_latch = False,
      most_recent_instruction = None\<rparr>"

text \<open>
  \<open>execute fuel c\<close> runs one instruction on the CPU \<open>c\<close>, from the opcode fetch
  until the pipeline is empty, and returns the number of T-cycles and the CPU reached.
\<close>

definition execute :: "nat \<Rightarrow> cpu \<Rightarrow> (py_error + nat \<times> cpu) option" where
  "execute fuel c = (case run_pipeline fuel (start_instruction c) of
      None \<Rightarrow> None
    | Some (Inl e) \<Rightarrow> Some (Inl e)
    | Some (Inr (n, k)) \<Rightarrow> Some (Inr (n, the_cpu k)))"

text \<open>\<open>memory_holds c a bytes\<close>: the memory of \<open>c\<close> holds \<open>bytes\<close> from address \<open>a\<close> on.\<close>

fun memory_holds :: "cpu \<Rightarrow> 16 word \<Rightarrow> int list \<Rightarrow> bool" where
  "memory_holds c a [] = True"
| "memory_holds c a (b # bs) = (membus c a = word_of_int b \<and> memory_holds c (a + 1) bs)"

text \<open>
  The opcodes of \<^verbatim>\<open>PUSH rr\<close> and \<^verbatim>\<open>POP rr\<close> in the decode table, and what the two
  instructions do to a CPU: \<open>pushed c inst n h l\<close> is \<open>c\<close> after the instruction
  \<open>inst\<close> of \<open>n\<close> bytes has pushed the registers \<open>h\<close> and \<open>l\<close>, \<open>popped c inst n h l\<close>
  is \<open>c\<close> after it has popped them.
\<close>

definition PUSH_code :: "reg \<Rightarrow> int list" where
  "PUSH_code rr = (case rr of
      BC \<Rightarrow> [0xC5] | DE \<Rightarrow> [0xD5] | HL \<Rightarrow> [0xE5] | AF \<Rightarrow> [0xF5]
    | IX \<Rightarrow> [0xDD, 0xE5] | IY \<Rightarrow> [0xFD, 0xE5] | _ \<Rightarrow> [])"

definition POP_code :: "reg \<Rightarrow> int list" where
  "POP_code rr = (case rr of
      BC \<Rightarrow> [0xC1] | DE \<Rightarrow> [0xD1] | HL \<Rightarrow> [0xE1] | AF \<Rightarrow> [0xF1]
    | IX \<Rightarrow> [0xDD, 0xE1] | IY \<Rightarrow> [0xFD, 0xE1] | _ \<Rightarrow> [])"

definition pushed :: "cpu \<Rightarrow> opcode \<Rightarrow> 16 word \<Rightarrow> reg \<Rightarrow> reg \<Rightarrow> cpu" where
  "pushed c inst n h l =
     c\<lparr>most_recent_instruction := Some (Instruction inst),
       reg := (reg c)\<lparr>r_PC := r_PC (reg c) + n, r_SP := r_SP (reg c) - 2\<rparr>,
       membus := (membus c)(r_SP (reg c) - 1 := r8 (reg c) h, r_SP (reg c) - 2 := r8 (reg c) l)\<rparr>"

definition popped :: "cpu \<Rightarrow> opcode \<Rightarrow> 16 word \<Rightarrow> reg \<Rightarrow> reg \<Rightarrow> cpu" where
  "popped c inst n h l =
     c\<lparr>most_recent_instruction := Some (Instruction inst),
       reg := (reg c)\<lparr>r_PC := r_PC (reg c) + n, r_SP := r_SP (reg c) + 2,
                      r8 := (r8 (reg c))(h := membus c (r_SP (reg c) + 1), l := membus c (r_SP (reg c)))\<rparr>\<rparr>"

section \<open>Accepting an interrupt\<close>

text \<open>
  Modelled from the spec: the driver, not part of \<^verbatim>\<open>machinestates.py\<close>, calls
  \<^verbatim>\<open>interrupt_response\<close> and makes the list returned its pipeline (section 4.6).
  \<open>accept_interrupt fuel c nmi ack\<close> does that and clocks the pipeline until it is empty.
\<close>

definition accept_interrupt :: "nat \<Rightarrow> cpu \<Rightarrow> bool \<Rightarrow> (cpu \<Rightarrow> int list) option \<Rightarrow> (py_error + nat \<times> cpu) option" where
  "accept_interrupt fuel c nmi ack = (case interrupt_response c nmi ack of
      Inl e \<Rightarrow> Some (Inl e)
    | Inr (c', states, src) \<Rightarrow>
        (case run_pipeline fuel \<lparr>the_cpu = c', pipeline = states, data_source = src\<rparr> of
           None \<Rightarrow> None
         | Some (Inl e) \<Rightarrow> Some (Inl e)
         | Some (Inr (n, k)) \<Rightarrow> Some (Inr (n, the_cpu k))))"

text \<open>
  A CPU in interrupt mode 2 with I = \<^verbatim>\<open>0x80\<close>, both interrupt flip-flops set and the
  vector \<^verbatim>\<open>0x9000\<close> at \<^verbatim>\<open>0x8000\<close>, and a device that answers the acknowledge with \<^verbatim>\<open>0x00\<close>.
\<close>

definition im2_memory :: "16 word \<Rightarrow> 8 word" where
  "im2_memory = (\<lambda>a. 0)(0x8000 := 0x00, 0x8001 := 0x90)"

definition im2_cpu :: "16 word \<Rightarrow> 16 word \<Rightarrow> cpu" where
  "im2_cpu sp pc =
     (blank_cpu im2_memory)
       \<lparr>reg := blank_registers\<lparr>r8 := (\<lambda>r. 0)(I := 0x80), r_SP := sp, r_PC := pc\<rparr>,
        iff1 := 1, iff2 := 1, interrupt_mode := 2\<rparr>"

definition ack_zero :: "cpu \<Rightarrow> int list" where
  "ack_zero c = [0x00]"

section \<open>Clocking a pipeline, step by step\<close>

declare run_pipeline.simps [simp del]

lemma add_ticks_simps [simp]:
  "add_ticks k None = None"
  "add_ticks k (Some (Inl e)) = Some (Inl e)"
  "add_ticks k (Some (Inr (n, c))) = Some (Inr (n + k, c))"
  by (simp_all add: add_ticks_def)

lemma ctx_eta [simp]: "\<lparr>cpu = cpu s, kwargs = kwargs s, queued = queued s, ds = ds s\<rparr> = (s::ctx)"
  by (cases s) simp

lemma run_bag [simp]: "run (m\<lparr>bag := b\<rparr>) s = run m s"
  by (cases "ctor m") (simp_all add: run_def)

lemma suspended_override [simp]: "suspended (m\<lparr>at := p, bag := b\<rparr>) p' s = suspended m p' s"
  by (simp add: suspended_def)

text \<open>
  One clock cycle of a machine whose head \<open>m\<close> is suspended at \<open>p\<close>: the head runs to
  its next \<^verbatim>\<open>yield\<close>, or returns and is popped, or raises.
\<close>

lemma run_pipeline_suspended:
  fixes s :: ctx and m :: mstate
  shows "run_pipeline (Suc f) (suspended m p s) =
    (case run (m\<lparr>at := p\<rparr>) s of
       Inl e \<Rightarrow> Some (Inl e)
     | Inr (Some p', s') \<Rightarrow> add_ticks 1 (run_pipeline f (suspended m p' s'))
     | Inr (None, s') \<Rightarrow> add_ticks 1 (run_pipeline f (finished s')))"
proof -
  have "clock (suspended m p s) =
    (case run (m\<lparr>at := p\<rparr>) s of
       Inl e \<Rightarrow> Inl e
     | Inr (Some p', s') \<Rightarrow> Inr (suspended m p' s')
     | Inr (None, s') \<Rightarrow> Inr (finished s'))"
    by (simp add: clock_def suspended_def split: sum.splits option.splits prod.splits)
  then show ?thesis
    by (simp add: suspended_def run_pipeline.simps split: sum.splits option.splits prod.splits)
qed

lemma finished_Cons:
  "queued s = n # ns \<Longrightarrow> finished s = suspended n (at n) (s\<lparr>queued := ns\<rparr>)"
  by (simp add: finished_def suspended_def)

lemma finished_Nil:
  "queued s = [] \<Longrightarrow>
   run_pipeline f (finished s) =
     Some (Inr (0, \<lparr>the_cpu = cpu s, pipeline = [], data_source = ds s\<rparr>))"
  by (cases f) (simp_all add: finished_def run_pipeline.simps)

lemma start_instruction_suspended:
  "start_instruction c = suspended (instantiate (OCF None False 0)) Start
      \<lparr>cpu = c, kwargs = Map.empty, queued = [], ds = []\<rparr>"
  by (simp add: start_instruction_def suspended_def instantiate_def)

lemmas exec_simps =
  run_pipeline_suspended run_def instantiate_def set_data_source_def yield_def stop_def
  bindE_def act_and_stop_def finished_Cons finished_Nil Let_def
  set_reg_def get_reg_def store_def lookup_def getattr_def setattr_def halves_def
  membus_read_def membus_write_def start_instruction_suspended

lemma fuel_10: "10 + f = Suc (Suc (Suc (Suc (Suc (Suc (Suc (Suc (Suc (Suc f)))))))))"
  by simp

lemma fuel_4: "4 + f = Suc (Suc (Suc (Suc f)))"
  by simp

lemma fuel_14:
  "14 + f = Suc (Suc (Suc (Suc (Suc (Suc (Suc (Suc (Suc (Suc (Suc (Suc (Suc (Suc f)))))))))))))"
  by simp

section \<open>Bytes and words\<close>

lemma and_FFFF: "(k::int) AND 0xFFFF = k mod 65536"
proof -
  have "k AND mask 16 = take_bit 16 k"
    by (simp add: take_bit_eq_mask)
  then show ?thesis
    by (simp add: mask_eq_exp_minus_1 take_bit_eq_mod)
qed

lemma word16_of_int_mod [simp]: "(word_of_int (k mod 65536) :: 16 word) = word_of_int k"
  by (simp add: word_of_int_eq_iff take_bit_eq_mod)

lemma dec16 [simp]: "(word_of_int ((65535 + uint (w::16 word)) AND 0xFFFF) :: 16 word) = w - 1"
  by (simp add: and_FFFF)

lemma or_bytes: "push_bit 8 (uint (hi::8 word)) OR uint (lo::8 word) = uint hi * 256 + uint lo"
proof -
  have low: "take_bit 8 (uint lo) = uint lo"
    by (simp add: take_bit_int_eq_self_iff; use uint_bounded [of lo] in simp)
  then have "push_bit 8 (uint hi) OR uint lo = concat_bit 8 (uint lo) (uint hi)"
    by (simp add: concat_bit_def or.commute)
  also have "\<dots> = uint lo + push_bit 8 (uint hi)"
    using low by (simp add: concat_bit_eq)
  finally show ?thesis
    by (simp add: push_bit_eq_mult)
qed

lemma byte_div_256 [simp]: "uint (w::8 word) div 256 = 0"
  using uint_bounded [of w] by simp

lemma byte_times_256 [simp]: "(w::8 word) * 256 = 0"
proof -
  have "(256 :: 8 word) = 0"
    by simp
  then show ?thesis
    by (simp only: mult_zero_right)
qed

section \<open>The prefix bytes\<close>

lemma decode_prefix:
  "decode_instruction (Byte 0xDD) = Inr (0, [], [OCF (Some (Byte 0xDD)) False 0])"
  "decode_instruction (Byte 0xFD) = Inr (0, [], [OCF (Some (Byte 0xFD)) False 0])"
  "decode_instruction (Byte 0xED) = Inr (0, [], [OCF (Some (Byte 0xED)) False 0])"
  "decode_instruction (Byte 0xCB) = Inr (0, [], [OCF (Some (Byte 0xCB)) False 0])"
  by (simp_all add: decode_instruction_def INSTRUCTION_STATES_def ins_DD_def ins_FD_def ins_ED_def ins_CB_def)

section \<open>The decoder\<close>

lemma INSTRUCTION_STATES_C5: "INSTRUCTION_STATES (Byte 0xC5) = Some ins_C5"
  by (simp add: INSTRUCTION_STATES_def)

lemma INSTRUCTION_STATES_DD_00: "INSTRUCTION_STATES (Tuple [0xDD, 0x00]) = None"
  by (simp add: INSTRUCTION_STATES_def)

text \<open>
  Claim C8. \<open>decode_instruction\<close> raises exactly when the opcode (a byte or a tuple) is
  not a key of the decode table, the error raised is \<open>UnrecognisedInstructionError\<close>
  carrying that very opcode, and for a key of the table the result is the first three
  components of its entry: the extra T-cycles, the actions at the end of the opcode fetch
  and the follow-on states.
\<close>

theorem decode_instruction_raises_iff_unknown:
  "(\<forall>e. decode_instruction k = Inl e \<longleftrightarrow>
        INSTRUCTION_STATES k = None \<and> e = UnrecognisedInstructionError k) \<and>
   (\<forall>extra actions states mnemonic len.
        INSTRUCTION_STATES k = Some (extra, actions, states, mnemonic, len) \<longrightarrow>
        decode_instruction k = Inr (extra, actions, states))"
  by (auto simp: decode_instruction_def split: option.splits)

theorem decode_instruction_raises_iff_unknown_witness:
  "INSTRUCTION_STATES (Byte 0xC5) =
     Some (1, [], [SW (Some B) ''value'' 0 None, SW (Some C) ''value'' 0 None], ''PUSH BC'', Some 1) \<and>
   decode_instruction (Byte 0xC5) =
     Inr (1, [], [SW (Some B) ''value'' 0 None, SW (Some C) ''value'' 0 None]) \<and>
   INSTRUCTION_STATES (Tuple [0xDD, 0x00]) = None \<and>
   decode_instruction (Tuple [0xDD, 0x00]) = Inl (UnrecognisedInstructionError (Tuple [0xDD, 0x00]))"
  using decode_instruction_raises_iff_unknown [of "Byte 0xC5"]
    decode_instruction_raises_iff_unknown [of "Tuple [0xDD, 0x00]"]
  by (simp add: INSTRUCTION_STATES_C5 INSTRUCTION_STATES_DD_00 ins_C5_def)

section \<open>The disassembler\<close>

text \<open>
  Claim C3. The claim is that \<open>disassemble_instructions\<close> never raises. The entry of
  the table at \<^verbatim>\<open>0x2E\<close> (\<^verbatim>\<open>LD L,n\<close>) has four elements instead of five, so unpacking its
  tail into \<^verbatim>\<open>(code, length)\<close> raises \<^verbatim>\<open>ValueError\<close>: disassembling the single byte
  \<^verbatim>\<open>0x2E\<close> raises.
\<close>

theorem disassemble_instructions_raises:
  "disassemble_instructions [0x2E] = Some (Inl ValueError)"
  by (simp add: disassemble_instructions_def disassemble_loop.simps disassemble_one_def find_code_def
      INSTRUCTION_STATES_def ins_2E_def unpack_tail_def bindE_def)

section \<open>Flag templates\<close>

text \<open>
  Claim C4. The claim is that a literal \<^verbatim>\<open>0\<close> or \<^verbatim>\<open>1\<close> at the S position of the template
  forces flag S. The forcing loop of \<open>set_flags\<close> runs over \<^verbatim>\<open>range(0,7)\<close> and reads the
  template positions 7 down to 1 only: with \<^verbatim>\<open>0\<close> or \<^verbatim>\<open>1\<close> at position 0 and \<^verbatim>\<open>-\<close>
  elsewhere, \<open>set_flags\<close> changes nothing at all, whatever the state and the value.
\<close>

theorem set_flags_S_not_forced:
  "apply_action (set_flags ''0-------'' None None (Literal d) None) args s = Inr s \<and>
   apply_action (set_flags ''1-------'' None None (Literal d) None) args s = Inr s"
  by (simp add: bindE_def set_flags_body_def Let_def force_bit_def upt_rec)

section \<open>The combiner of two byte reads\<close>

text \<open>
  Claim C6, as stated: \<open>high_after_low\<close> combines the new byte and the cascaded value as
  \<^verbatim>\<open>new | (old << 8)\<close>. It does not: for the new byte \<^verbatim>\<open>0x12\<close> and the old value
  \<^verbatim>\<open>0x34\<close> the code gives \<^verbatim>\<open>0x1234\<close>, the formula \<^verbatim>\<open>0x3412\<close>.
\<close>

theorem high_after_low_counterexample:
  "\<not> (\<forall>new old. high_after_low new old = new OR push_bit 8 old)"
proof
  assume "\<forall>new old. high_after_low new old = new OR push_bit 8 old"
  then have "high_after_low 0x12 0x34 = 0x12 OR push_bit 8 0x34"
    by blast
  then show False
    by (simp add: high_after_low_def)
qed

text \<open>
  Claim C6, amended. Called as \<^verbatim>\<open>compound(new, old)\<close> by OD and MR, \<open>high_after_low\<close>
  combines the new byte and the cascaded value as \<^verbatim>\<open>(new << 8) | old\<close>; so two
  sequential byte reads, the low byte first (nothing cascaded yet) and the high byte
  second, assemble the little-endian 16-bit value \<open>256 * high + low\<close>.
\<close>

theorem high_after_low_little_endian:
  "combine (Some high_after_low) new (Some old) = push_bit 8 new OR old \<and>
   combine (Some high_after_low) (uint (hi::8 word))
     (Some (combine (Some high_after_low) (uint (lo::8 word)) None)) = uint hi * 256 + uint lo"
  by (simp add: combine_def high_after_low_def or_bytes)

section \<open>T-cycles of the opcode fetch\<close>

lemma decode_C5:
  "decode_instruction (Byte 0xC5) =
     Inr (1, [], [SW (Some B) ''value'' 0 None, SW (Some C) ''value'' 0 None])"
  by (simp add: decode_instruction_def INSTRUCTION_STATES_def ins_C5_def)

text \<open>
  Claim C1. The claim is that an opcode fetch with parameter \<open>extra = e\<close> for an opcode
  whose entry has \<open>k\<close> extra T-cycles takes \<open>4 + e + k\<close> clock cycles, so that PUSH BC
  (\<open>e = 0\<close>, \<open>k = 1\<close>) takes 5 + 3 + 3 = 11. The idle loop of \<^verbatim>\<open>OCF.run\<close> is
  \<^verbatim>\<open>range(0, self.extra + extra_clocks - 1)\<close>, which is empty for \<open>e + k = 1\<close>: the
  fetch takes 4 clock cycles and PUSH BC, from the opcode fetch until the pipeline is
  empty, takes 10.
\<close>

theorem push_bc_takes_10:
  assumes "membus c (r_PC (reg c)) = 0xC5"
  shows "run_pipeline (10 + f) (start_instruction c) =
     Some (Inr (10,
       \<lparr>the_cpu = c\<lparr>most_recent_instruction := Some (Instruction (Byte 0xC5)),
                    reg := (reg c)\<lparr>r_PC := r_PC (reg c) + 1, r_SP := r_SP (reg c) - 2\<rparr>,
                    membus := (membus c)(r_SP (reg c) - 1 := r8 (reg c) B,
                                         r_SP (reg c) - 2 := r8 (reg c) C)\<rparr>,
         pipeline = [], data_source = []\<rparr>))"
  unfolding fuel_10 using assms
  by (simp add: exec_simps decode_C5)

theorem push_bc_takes_10_witness:
  "membus (blank_cpu (program [0xC5])) (r_PC (reg (blank_cpu (program [0xC5])))) = 0xC5 \<and>
   (\<exists>c'. run_pipeline 10 (start_instruction (blank_cpu (program [0xC5]))) = Some (Inr (10, c')))"
  using push_bc_takes_10 [of "blank_cpu (program [0xC5])" 0]
  by (simp add: blank_cpu_def blank_registers_def program_def)

section \<open>The conditional return at 0xC8\<close>

lemma decode_C8:
  "decode_instruction (Byte 0xC8) =
     Inr (1, [unless_flag Flag_Z early_abort],
          [SR (Some high_after_low) None 0, SR (Some high_after_low) (Some (JP NoValue None None)) 0])"
  by (simp add: decode_instruction_def INSTRUCTION_STATES_def ins_C8_def)

text \<open>
  Claim C9. The entry of the decode table at \<^verbatim>\<open>0xC8\<close> has the mnemonic \<^verbatim>\<open>RET NZ\<close> and
  the behaviour of \<^verbatim>\<open>RET Z\<close>. Its action at the end of the opcode fetch is
  \<^verbatim>\<open>unless_flag('Z', early_abort())\<close>, which cuts the pipeline down to its head exactly
  when Z is clear. So when Z is set the two stack reads run and PC becomes the address
  popped (ten T-cycles in the model, SP two higher), and when Z is clear the instruction
  ends with the opcode fetch (four T-cycles), PC one past the opcode and SP unchanged.
\<close>

theorem ret_nz_mnemonic_is_ret_z:
  assumes "membus c (r_PC (reg c)) = 0xC8"
  shows "INSTRUCTION_STATES (Byte 0xC8) =
       Some (1, [unless_flag Flag_Z early_abort],
             [SR (Some high_after_low) None 0,
              SR (Some high_after_low) (Some (JP NoValue None None)) 0],
             ''RET NZ'', Some 1) \<and>
     (\<forall>s. apply_each [unless_flag Flag_Z early_abort] [] s =
       Inr (if getflag (reg (cpu s)) Flag_Z = 0 then s\<lparr>queued := []\<rparr> else s)) \<and>
     (getflag (reg c) Flag_Z = 1 \<longrightarrow>
        run_pipeline (10 + f) (start_instruction c) =
          Some (Inr (10,
            \<lparr>the_cpu = c\<lparr>most_recent_instruction := Some (Instruction (Byte 0xC8)),
                         reg := (reg c)\<lparr>r_SP := r_SP (reg c) + 2,
                           r_PC := word_of_int (uint (membus c (r_SP (reg c) + 1)) * 256 +
                                                uint (membus c (r_SP (reg c))))\<rparr>\<rparr>,
              pipeline = [], data_source = []\<rparr>))) \<and>
     (getflag (reg c) Flag_Z = 0 \<longrightarrow>
        run_pipeline (4 + f) (start_instruction c) =
          Some (Inr (4,
            \<lparr>the_cpu = c\<lparr>most_recent_instruction := Some (Instruction (Byte 0xC8)),
                         reg := (reg c)\<lparr>r_PC := r_PC (reg c) + 1\<rparr>\<rparr>,
              pipeline = [], data_source = []\<rparr>)))"
proof (intro conjI impI)
  show "INSTRUCTION_STATES (Byte 0xC8) =
       Some (1, [unless_flag Flag_Z early_abort],
             [SR (Some high_after_low) None 0,
              SR (Some high_after_low) (Some (JP NoValue None None)) 0],
             ''RET NZ'', Some 1)"
    by (simp add: INSTRUCTION_STATES_def ins_C8_def)
next
  show "\<forall>s. apply_each [unless_flag Flag_Z early_abort] [] s =
       Inr (if getflag (reg (cpu s)) Flag_Z = 0 then s\<lparr>queued := []\<rparr> else s)"
    by (simp add: bindE_def)
next
  assume "getflag (reg c) Flag_Z = 1"
  then have "bit (r8 (reg c) F) 6"
    by (simp add: getflag_def flag_bit_def split: if_splits)
  with assms have "run_pipeline (10 + f) (start_instruction c) =
          Some (Inr (10,
            \<lparr>the_cpu = c\<lparr>most_recent_instruction := Some (Instruction (Byte 0xC8)),
                         reg := (reg c)\<lparr>r_SP := r_SP (reg c) + 2,
                           r_PC := word_of_int (push_bit 8 (uint (membus c (r_SP (reg c) + 1))) OR
                                                uint (membus c (r_SP (reg c))))\<rparr>\<rparr>,
              pipeline = [], data_source = []\<rparr>))"
    unfolding fuel_10
    by (simp add: exec_simps decode_C8 getflag_def flag_bit_def combine_def high_after_low_def)
  then show "run_pipeline (10 + f) (start_instruction c) =
          Some (Inr (10,
            \<lparr>the_cpu = c\<lparr>most_recent_instruction := Some (Instruction (Byte 0xC8)),
                         reg := (reg c)\<lparr>r_SP := r_SP (reg c) + 2,
                           r_PC := word_of_int (uint (membus c (r_SP (reg c) + 1)) * 256 +
                                                uint (membus c (r_SP (reg c))))\<rparr>\<rparr>,
              pipeline = [], data_source = []\<rparr>))"
    by (simp only: or_bytes)
next
  assume "getflag (reg c) Flag_Z = 0"
  then have "\<not> bit (r8 (reg c) F) 6"
    by (simp add: getflag_def flag_bit_def split: if_splits)
  with assms show "run_pipeline (4 + f) (start_instruction c) =
          Some (Inr (4,
            \<lparr>the_cpu = c\<lparr>most_recent_instruction := Some (Instruction (Byte 0xC8)),
                         reg := (reg c)\<lparr>r_PC := r_PC (reg c) + 1\<rparr>\<rparr>,
              pipeline = [], data_source = []\<rparr>))"
    unfolding fuel_4
    by (simp add: exec_simps decode_C8 getflag_def flag_bit_def)
qed


theorem ret_nz_mnemonic_is_ret_z_witness:
  "membus (blank_cpu (program [0xC8])) (r_PC (reg (blank_cpu (program [0xC8])))) = 0xC8 \<and>
   getflag (reg (blank_cpu (program [0xC8]))) Flag_Z = 0 \<and>
   (\<exists>k. run_pipeline 4 (start_instruction (blank_cpu (program [0xC8]))) = Some (Inr (4, k)) \<and>
        r_PC (reg (the_cpu k)) = 1) \<and>
   membus (blank_cpu (program [0xC8])\<lparr>reg := blank_registers\<lparr>r8 := (\<lambda>r. 0)(F := 0x40)\<rparr>\<rparr>)
     (r_PC (reg (blank_cpu (program [0xC8])\<lparr>reg := blank_registers\<lparr>r8 := (\<lambda>r. 0)(F := 0x40)\<rparr>\<rparr>))) = 0xC8 \<and>
   getflag (reg (blank_cpu (program [0xC8])\<lparr>reg := blank_registers\<lparr>r8 := (\<lambda>r. 0)(F := 0x40)\<rparr>\<rparr>)) Flag_Z = 1 \<and>
   (\<exists>k. run_pipeline 10 (start_instruction
          (blank_cpu (program [0xC8])\<lparr>reg := blank_registers\<lparr>r8 := (\<lambda>r. 0)(F := 0x40)\<rparr>\<rparr>)) =
          Some (Inr (10, k)) \<and>
        r_PC (reg (the_cpu k)) = 0xC8 \<and> r_SP (reg (the_cpu k)) = 2)"
proof -
  let ?c0 = "blank_cpu (program [0xC8])"
  let ?c1 = "blank_cpu (program [0xC8])\<lparr>reg := blank_registers\<lparr>r8 := (\<lambda>r. 0)(F := 0x40)\<rparr>\<rparr>"
  have m0: "membus ?c0 (r_PC (reg ?c0)) = 0xC8"
    by (simp add: blank_cpu_def blank_registers_def program_def)
  have z0: "getflag (reg ?c0) Flag_Z = 0"
    by (simp add: blank_cpu_def blank_registers_def getflag_def flag_bit_def)
  have m1: "membus ?c1 (r_PC (reg ?c1)) = 0xC8"
    by (simp add: blank_cpu_def blank_registers_def program_def)
  have "bit (0x40 :: 8 word) 6"
    by (simp add: bit_iff_odd)
  then have z1: "getflag (reg ?c1) Flag_Z = 1"
    by (simp add: blank_cpu_def blank_registers_def getflag_def flag_bit_def)
  from ret_nz_mnemonic_is_ret_z [OF m0, of 0] z0
  have "run_pipeline (4 + 0) (start_instruction ?c0) =
          Some (Inr (4,
            \<lparr>the_cpu = ?c0\<lparr>most_recent_instruction := Some (Instruction (Byte 0xC8)),
                         reg := (reg ?c0)\<lparr>r_PC := r_PC (reg ?c0) + 1\<rparr>\<rparr>,
              pipeline = [], data_source = []\<rparr>))"
    by blast
  then have r0: "\<exists>k. run_pipeline 4 (start_instruction ?c0) = Some (Inr (4, k)) \<and> r_PC (reg (the_cpu k)) = 1"
    by (simp add: blank_cpu_def blank_registers_def)
  from ret_nz_mnemonic_is_ret_z [OF m1, of 0] z1
  have "run_pipeline (10 + 0) (start_instruction ?c1) =
          Some (Inr (10,
            \<lparr>the_cpu = ?c1\<lparr>most_recent_instruction := Some (Instruction (Byte 0xC8)),
                         reg := (reg ?c1)\<lparr>r_SP := r_SP (reg ?c1) + 2,
                           r_PC := word_of_int (uint (membus ?c1 (r_SP (reg ?c1) + 1)) * 256 +
                                                uint (membus ?c1 (r_SP (reg ?c1))))\<rparr>\<rparr>,
              pipeline = [], data_source = []\<rparr>))"
    by blast
  then have r1: "\<exists>k. run_pipeline 10 (start_instruction ?c1) = Some (Inr (10, k)) \<and>
        r_PC (reg (the_cpu k)) = 0xC8 \<and> r_SP (reg (the_cpu k)) = 2"
    by (simp add: blank_cpu_def blank_registers_def program_def)
  from m0 z0 r0 m1 z1 r1 show ?thesis
    by blast
qed

section \<open>HALT\<close>

lemma decode_76:
  "decode_instruction (Byte 0x76) =
     Inr (0, [on_condition (Lambda1 (Not IntLatch)) (dec PC)], [])"
  by (simp add: decode_instruction_def INSTRUCTION_STATES_def ins_76_def)

text \<open>
  Claim C10. Executing \<^verbatim>\<open>HALT\<close> (opcode \<^verbatim>\<open>0x76\<close>) takes the four T-cycles of the opcode
  fetch. When the interrupt latch \<^verbatim>\<open>int\<close> of the CPU is false, PC ends equal to its value
  before the instruction (the increment of the opcode fetch is undone by the decrement
  modulo \<open>2^16\<close>), so the next opcode fetch reads the \<^verbatim>\<open>HALT\<close> byte again; when it is
  true, PC ends one past the \<^verbatim>\<open>HALT\<close> byte.
\<close>

theorem halt_refetches_unless_interrupted:
  assumes "membus c (r_PC (reg c)) = 0x76"
  shows "run_pipeline (4 + f) (start_instruction c) =
     Some (Inr (4,
       \<lparr>the_cpu = c\<lparr>most_recent_instruction := Some (Instruction (Byte 0x76)),
                    reg := (reg c)\<lparr>r_PC := (if int_latch c then r_PC (reg c) + 1 else r_PC (reg c))\<rparr>\<rparr>,
         pipeline = [], data_source = []\<rparr>))"
  unfolding fuel_4 using assms
  by (simp add: exec_simps decode_76 reg_name_def)

theorem halt_refetches_unless_interrupted_witness:
  "membus (blank_cpu (program [0x76])) (r_PC (reg (blank_cpu (program [0x76])))) = 0x76 \<and>
   (\<exists>k. run_pipeline 4 (start_instruction (blank_cpu (program [0x76]))) = Some (Inr (4, k)) \<and>
        r_PC (reg (the_cpu k)) = 0) \<and>
   membus (blank_cpu (program [0x76])\<lparr>int_latch := True\<rparr>)
     (r_PC (reg (blank_cpu (program [0x76])\<lparr>int_latch := True\<rparr>))) = 0x76 \<and>
   (\<exists>k. run_pipeline 4 (start_instruction (blank_cpu (program [0x76])\<lparr>int_latch := True\<rparr>)) =
          Some (Inr (4, k)) \<and>
        r_PC (reg (the_cpu k)) = 1)"
  using halt_refetches_unless_interrupted [of "blank_cpu (program [0x76])" 0]
    halt_refetches_unless_interrupted [of "blank_cpu (program [0x76])\<lparr>int_latch := True\<rparr>" 0]
  by (simp add: blank_cpu_def blank_registers_def program_def)

section \<open>PUSH followed by POP\<close>

lemma decode_push:
  "decode_instruction (Byte 0xC5) = Inr (1, [], [SW (Some B) ''value'' 0 None, SW (Some C) ''value'' 0 None])"
  "decode_instruction (Byte 0xD5) = Inr (1, [], [SW (Some D) ''value'' 0 None, SW (Some E) ''value'' 0 None])"
  "decode_instruction (Byte 0xE5) = Inr (1, [], [SW (Some H) ''value'' 0 None, SW (Some L) ''value'' 0 None])"
  "decode_instruction (Byte 0xF5) = Inr (1, [], [SW (Some A) ''value'' 0 None, SW (Some F) ''value'' 0 None])"
  "decode_instruction (Tuple [0xDD, 0xE5]) = Inr (1, [], [SW (Some IXH) ''value'' 0 None, SW (Some IXL) ''value'' 0 None])"
  "decode_instruction (Tuple [0xFD, 0xE5]) = Inr (1, [], [SW (Some IYH) ''value'' 0 None, SW (Some IYL) ''value'' 0 None])"
  by (simp_all add: decode_instruction_def INSTRUCTION_STATES_def
      ins_C5_def ins_D5_def ins_E5_def ins_F5_def ins_DD_E5_def ins_FD_E5_def)

lemma decode_pop:
  "decode_instruction (Byte 0xC1) = Inr (0, [], [SR (Some high_after_low) None 0, SR (Some high_after_low) (Some (LDr BC NoValue ''value'')) 0])"
  "decode_instruction (Byte 0xD1) = Inr (0, [], [SR (Some high_after_low) None 0, SR (Some high_after_low) (Some (LDr DE NoValue ''value'')) 0])"
  "decode_instruction (Byte 0xE1) = Inr (0, [], [SR (Some high_after_low) None 0, SR (Some high_after_low) (Some (LDr HL NoValue ''value'')) 0])"
  "decode_instruction (Byte 0xF1) = Inr (0, [], [SR (Some high_after_low) None 0, SR (Some high_after_low) (Some (LDr AF NoValue ''value'')) 0])"
  "decode_instruction (Tuple [0xDD, 0xE1]) = Inr (0, [], [SR (Some high_after_low) None 0, SR (Some high_after_low) (Some (LDr IX NoValue ''value'')) 0])"
  "decode_instruction (Tuple [0xFD, 0xE1]) = Inr (0, [], [SR (Some high_after_low) None 0, SR (Some high_after_low) (Some (LDr IY NoValue ''value'')) 0])"
  by (simp_all add: decode_instruction_def INSTRUCTION_STATES_def
      ins_C1_def ins_D1_def ins_E1_def ins_F1_def ins_DD_E1_def ins_FD_E1_def)

lemma push_BC:
  assumes "memory_holds c (r_PC (reg c)) [0xC5]"
  shows "execute (10 + f) c = Some (Inr (10, pushed c (Byte 0xC5) 1 B C))"
  unfolding fuel_10 execute_def using assms
  by (simp add: exec_simps decode_push pushed_def)

lemma pop_BC:
  assumes "memory_holds c (r_PC (reg c)) [0xC1]"
  shows "execute (10 + f) c = Some (Inr (10, popped c (Byte 0xC1) 1 B C))"
  unfolding fuel_10 execute_def using assms
  by (simp add: exec_simps decode_pop popped_def combine_def high_after_low_def or_bytes)

lemma push_DE:
  assumes "memory_holds c (r_PC (reg c)) [0xD5]"
  shows "execute (10 + f) c = Some (Inr (10, pushed c (Byte 0xD5) 1 D E))"
  unfolding fuel_10 execute_def using assms
  by (simp add: exec_simps decode_push pushed_def)

lemma pop_DE:
  assumes "memory_holds c (r_PC (reg c)) [0xD1]"
  shows "execute (10 + f) c = Some (Inr (10, popped c (Byte 0xD1) 1 D E))"
  unfolding fuel_10 execute_def using assms
  by (simp add: exec_simps decode_pop popped_def combine_def high_after_low_def or_bytes)

lemma push_HL:
  assumes "memory_holds c (r_PC (reg c)) [0xE5]"
  shows "execute (10 + f) c = Some (Inr (10, pushed c (Byte 0xE5) 1 H L))"
  unfolding fuel_10 execute_def using assms
  by (simp add: exec_simps decode_push pushed_def)

lemma pop_HL:
  assumes "memory_holds c (r_PC (reg c)) [0xE1]"
  shows "execute (10 + f) c = Some (Inr (10, popped c (Byte 0xE1) 1 H L))"
  unfolding fuel_10 execute_def using assms
  by (simp add: exec_simps decode_pop popped_def combine_def high_after_low_def or_bytes)

lemma push_AF:
  assumes "memory_holds c (r_PC (reg c)) [0xF5]"
  shows "execute (10 + f) c = Some (Inr (10, pushed c (Byte 0xF5) 1 A F))"
  unfolding fuel_10 execute_def using assms
  by (simp add: exec_simps decode_push pushed_def)

lemma pop_AF:
  assumes "memory_holds c (r_PC (reg c)) [0xF1]"
  shows "execute (10 + f) c = Some (Inr (10, popped c (Byte 0xF1) 1 A F))"
  unfolding fuel_10 execute_def using assms
  by (simp add: exec_simps decode_pop popped_def combine_def high_after_low_def or_bytes)

lemma push_IX:
  assumes "memory_holds c (r_PC (reg c)) [0xDD, 0xE5]"
  shows "execute (14 + f) c = Some (Inr (14, pushed c (Tuple [0xDD, 0xE5]) 2 IXH IXL))"
  unfolding fuel_14 execute_def using assms
  by (simp add: exec_simps decode_prefix decode_push pushed_def)

lemma pop_IX:
  assumes "memory_holds c (r_PC (reg c)) [0xDD, 0xE1]"
  shows "execute (14 + f) c = Some (Inr (14, popped c (Tuple [0xDD, 0xE1]) 2 IXH IXL))"
  unfolding fuel_14 execute_def using assms
  by (simp add: exec_simps decode_prefix decode_pop popped_def combine_def high_after_low_def or_bytes)

lemma push_IY:
  assumes "memory_holds c (r_PC (reg c)) [0xFD, 0xE5]"
  shows "execute (14 + f) c = Some (Inr (14, pushed c (Tuple [0xFD, 0xE5]) 2 IYH IYL))"
  unfolding fuel_14 execute_def using assms
  by (simp add: exec_simps decode_prefix decode_push pushed_def)

lemma pop_IY:
  assumes "memory_holds c (r_PC (reg c)) [0xFD, 0xE1]"
  shows "execute (14 + f) c = Some (Inr (14, popped c (Tuple [0xFD, 0xE1]) 2 IYH IYL))"
  unfolding fuel_14 execute_def using assms
  by (simp add: exec_simps decode_prefix decode_pop popped_def combine_def high_after_low_def or_bytes)

lemma reg_popped_pushed:
  "h \<noteq> l \<Longrightarrow> reg (popped (pushed c i n h l) i' n' h l) = (reg c)\<lparr>r_PC := r_PC (reg c) + n + n'\<rparr>"
  by (simp add: popped_def pushed_def)

text \<open>
  Claim C7. For every register pair \<open>rr\<close> of BC, DE, HL, AF, IX, IY and every start
  state: when the memory holds \<^verbatim>\<open>PUSH rr\<close> at PC, executing it ends without an exception,
  and when the memory then holds \<^verbatim>\<open>POP rr\<close> at the new PC, executing that ends as well
  and leaves the register file (all registers, the shadow bank, the flags in F, and SP)
  identical to the one at the start, except that PC has advanced over the two
  instructions.
\<close>

theorem push_pop_restores:
  assumes rr: "rr \<in> {BC, DE, HL, AF, IX, IY}"
    and push: "memory_holds c (r_PC (reg c)) (PUSH_code rr)"
  shows "\<exists>n1 c1. execute (14 + f) c = Some (Inr (n1, c1)) \<and>
           (memory_holds c1 (r_PC (reg c1)) (POP_code rr) \<longrightarrow>
             (\<exists>n2 c2. execute (14 + f') c1 = Some (Inr (n2, c2)) \<and>
                reg c2 = (reg c)\<lparr>r_PC := r_PC (reg c) + of_nat (length (PUSH_code rr) + length (POP_code rr))\<rparr>))"
proof -
  consider "rr = BC" | "rr = DE" | "rr = HL" | "rr = AF" | "rr = IX" | "rr = IY"
    using rr by auto
  then show ?thesis
  proof cases

    case 1
    let ?c1 = "pushed c (Byte 0xC5) 1 B C"
    have first: "execute (14 + f) c = Some (Inr (10, ?c1))"
      using push_BC [of c "4 + f"] push 1 by (simp add: PUSH_code_def)
    have second: "execute (14 + f') ?c1 = Some (Inr (10, popped ?c1 (Byte 0xC1) 1 B C))"
      if "memory_holds ?c1 (r_PC (reg ?c1)) (POP_code rr)"
      using pop_BC [of ?c1 "4 + f'"] that 1 by (simp add: POP_code_def)
    have "reg (popped ?c1 (Byte 0xC1) 1 B C) =
        (reg c)\<lparr>r_PC := r_PC (reg c) + of_nat (length (PUSH_code rr) + length (POP_code rr))\<rparr>"
      using 1 by (simp add: reg_popped_pushed PUSH_code_def POP_code_def)
    with first second show ?thesis
      by blast
  next

    case 2
    let ?c1 = "pushed c (Byte 0xD5) 1 D E"
    have first: "execute (14 + f) c = Some (Inr (10, ?c1))"
      using push_DE [of c "4 + f"] push 2 by (simp add: PUSH_code_def)
    have second: "execute (14 + f') ?c1 = Some (Inr (10, popped ?c1 (Byte 0xD1) 1 D E))"
      if "memory_holds ?c1 (r_PC (reg ?c1)) (POP_code rr)"
      using pop_DE [of ?c1 "4 + f'"] that 2 by (simp add: POP_code_def)
    have "reg (popped ?c1 (Byte 0xD1) 1 D E) =
        (reg c)\<lparr>r_PC := r_PC (reg c) + of_nat (length (PUSH_code rr) + length (POP_code rr))\<rparr>"
      using 2 by (simp add: reg_popped_pushed PUSH_code_def POP_code_def)
    with first second show ?thesis
      by blast
  next

    case 3
    let ?c1 = "pushed c (Byte 0xE5) 1 H L"
    have first: "execute (14 + f) c = Some (Inr (10, ?c1))"
      using push_HL [of c "4 + f"] push 3 by (simp add: PUSH_code_def)
    have second: "execute (14 + f') ?c1 = Some (Inr (10, popped ?c1 (Byte 0xE1) 1 H L))"
      if "memory_holds ?c1 (r_PC (reg ?c1)) (POP_code rr)"
      using pop_HL [of ?c1 "4 + f'"] that 3 by (simp add: POP_code_def)
    have "reg (popped ?c1 (Byte 0xE1) 1 H L) =
        (reg c)\<lparr>r_PC := r_PC (reg c) + of_nat (length (PUSH_code rr) + length (POP_code rr))\<rparr>"
      using 3 by (simp add: reg_popped_pushed PUSH_code_def POP_code_def)
    with first second show ?thesis
      by blast
  next

    case 4
    let ?c1 = "pushed c (Byte 0xF5) 1 A F"
    have first: "execute (14 + f) c = Some (Inr (10, ?c1))"
      using push_AF [of c "4 + f"] push 4 by (simp add: PUSH_code_def)
    have second: "execute (14 + f') ?c1 = Some (Inr (10, popped ?c1 (Byte 0xF1) 1 A F))"
      if "memory_holds ?c1 (r_PC (reg ?c1)) (POP_code rr)"
      using pop_AF [of ?c1 "4 + f'"] that 4 by (simp add: POP_code_def)
    have "reg (popped ?c1 (Byte 0xF1) 1 A F) =
        (reg c)\<lparr>r_PC := r_PC (reg c) + of_nat (length (PUSH_code rr) + length (POP_code rr))\<rparr>"
      using 4 by (simp add: reg_popped_pushed PUSH_code_def POP_code_def)
    with first second show ?thesis
      by blast
  next

    case 5
    let ?c1 = "pushed c (Tuple [0xDD, 0xE5]) 2 IXH IXL"
    have first: "execute (14 + f) c = Some (Inr (14, ?c1))"
      using push_IX [of c f] push 5 by (simp add: PUSH_code_def)
    have second: "execute (14 + f') ?c1 = Some (Inr (14, popped ?c1 (Tuple [0xDD, 0xE1]) 2 IXH IXL))"
      if "memory_holds ?c1 (r_PC (reg ?c1)) (POP_code rr)"
      using pop_IX [of ?c1 f'] that 5 by (simp add: POP_code_def)
    have "reg (popped ?c1 (Tuple [0xDD, 0xE1]) 2 IXH IXL) =
        (reg c)\<lparr>r_PC := r_PC (reg c) + of_nat (length (PUSH_code rr) + length (POP_code rr))\<rparr>"
      using 5 by (simp add: reg_popped_pushed PUSH_code_def POP_code_def)
    with first second show ?thesis
      by blast
  next

    case 6
    let ?c1 = "pushed c (Tuple [0xFD, 0xE5]) 2 IYH IYL"
    have first: "execute (14 + f) c = Some (Inr (14, ?c1))"
      using push_IY [of c f] push 6 by (simp add: PUSH_code_def)
    have second: "execute (14 + f') ?c1 = Some (Inr (14, popped ?c1 (Tuple [0xFD, 0xE1]) 2 IYH IYL))"
      if "memory_holds ?c1 (r_PC (reg ?c1)) (POP_code rr)"
      using pop_IY [of ?c1 f'] that 6 by (simp add: POP_code_def)
    have "reg (popped ?c1 (Tuple [0xFD, 0xE1]) 2 IYH IYL) =
        (reg c)\<lparr>r_PC := r_PC (reg c) + of_nat (length (PUSH_code rr) + length (POP_code rr))\<rparr>"
      using 6 by (simp add: reg_popped_pushed PUSH_code_def POP_code_def)
    with first second show ?thesis
      by blast

  qed
qed


theorem push_pop_restores_witness:
  "BC \<in> {BC, DE, HL, AF, IX, IY} \<and>
   memory_holds (blank_cpu (program [0xC5, 0xC1])) (r_PC (reg (blank_cpu (program [0xC5, 0xC1])))) (PUSH_code BC) \<and>
   (\<exists>n1 c1 n2 c2.
      execute 14 (blank_cpu (program [0xC5, 0xC1])) = Some (Inr (n1, c1)) \<and>
      memory_holds c1 (r_PC (reg c1)) (POP_code BC) \<and>
      execute 14 c1 = Some (Inr (n2, c2)) \<and>
      reg c2 = blank_registers\<lparr>r_PC := 2\<rparr>)"
proof -
  let ?c0 = "blank_cpu (program [0xC5, 0xC1])"
  have holds: "memory_holds ?c0 (r_PC (reg ?c0)) (PUSH_code BC)"
    by (simp add: PUSH_code_def blank_cpu_def blank_registers_def program_def)
  from push_pop_restores [of BC ?c0 0 0] holds
  obtain n1 c1 where first: "execute 14 ?c0 = Some (Inr (n1, c1))"
    and rest: "memory_holds c1 (r_PC (reg c1)) (POP_code BC) \<longrightarrow>
      (\<exists>n2 c2. execute 14 c1 = Some (Inr (n2, c2)) \<and>
         reg c2 = (reg ?c0)\<lparr>r_PC := r_PC (reg ?c0) + of_nat (length (PUSH_code BC) + length (POP_code BC))\<rparr>)"
    by auto
  have "execute 14 ?c0 = Some (Inr (10, pushed ?c0 (Byte 0xC5) 1 B C))"
    using push_BC [of ?c0 4] holds by (simp add: PUSH_code_def)
  with first have c1: "c1 = pushed ?c0 (Byte 0xC5) 1 B C"
    by simp
  have pop: "memory_holds c1 (r_PC (reg c1)) (POP_code BC)"
    unfolding c1
    by (simp add: POP_code_def pushed_def blank_cpu_def blank_registers_def program_def)
  with rest obtain n2 c2 where "execute 14 c1 = Some (Inr (n2, c2))"
    and "reg c2 = (reg ?c0)\<lparr>r_PC := r_PC (reg ?c0) + of_nat (length (PUSH_code BC) + length (POP_code BC))\<rparr>"
    by auto
  then have "execute 14 c1 = Some (Inr (n2, c2)) \<and> reg c2 = blank_registers\<lparr>r_PC := 2\<rparr>"
    by (simp add: PUSH_code_def POP_code_def blank_cpu_def blank_registers_def)
  with holds first pop show ?thesis
    by blast
qed

section \<open>The interrupt response in mode 2\<close>

lemma config_suspended:
  "\<lparr>the_cpu = c, pipeline = m # ms, data_source = d\<rparr> =
     suspended m (at m) \<lparr>cpu = c, kwargs = bag m, queued = ms, ds = d\<rparr>"
  by (simp add: suspended_def)

lemma fuel_19:
  "19 + f = Suc (Suc (Suc (Suc (Suc (Suc (Suc (Suc (Suc (Suc (Suc (Suc (Suc (Suc (Suc (Suc (Suc (Suc (Suc f))))))))))))))))))"
  by simp

lemmas im2_simps =
  interrupt_response_def config_suspended exec_simps next_or_zero_def apply_transform_def
  combine_def high_after_low_def resolve_address_def

lemma im2_overlapping_stack:
  "accept_interrupt (19 + f) (im2_cpu 0x8002 0x1234) False (Some ack_zero) =
     Some (Inr (19,
       (im2_cpu 0x8002 0x1234)
         \<lparr>most_recent_instruction := Some (Marker ''INT2''),
          membus := im2_memory(0x8001 := 0x12, 0x8000 := 0x34),
          reg := (reg (im2_cpu 0x8002 0x1234))\<lparr>r_SP := 0x8000, r_PC := 0x1234\<rparr>\<rparr>))"
  unfolding fuel_19 accept_interrupt_def
  by (simp add: im2_simps im2_cpu_def im2_memory_def blank_cpu_def blank_registers_def ack_zero_def)

text \<open>
  Claim C5, as stated: from interrupt mode 2 with I = \<^verbatim>\<open>0x80\<close>, the bytes \<^verbatim>\<open>0x00\<close> and
  \<^verbatim>\<open>0x90\<close> at \<^verbatim>\<open>0x8000\<close> and \<^verbatim>\<open>0x8001\<close> and a data source yielding \<^verbatim>\<open>0x00\<close>, the
  pipeline of \<^verbatim>\<open>interrupt_response\<close> loads PC with \<^verbatim>\<open>0x9000\<close> and sets IFF1 = IFF2 = 0.
  On the CPU below, with IFF1 = IFF2 = 1, SP = \<^verbatim>\<open>0x8002\<close> and PC = \<^verbatim>\<open>0x1234\<close>, the pipeline
  takes its 19 T-cycles and leaves IFF1 = IFF2 = 1 (no state and no action of the
  pipeline touches them); the two bytes of PC are pushed over the vector, so the word
  fetched at \<^verbatim>\<open>0x8000\<close> and loaded into PC is \<^verbatim>\<open>0x1234\<close>.
\<close>

theorem im2_response_counterexample:
  "accept_interrupt 19 (im2_cpu 0x8002 0x1234) False (Some ack_zero) =
     Some (Inr (19,
       (im2_cpu 0x8002 0x1234)
         \<lparr>most_recent_instruction := Some (Marker ''INT2''),
          membus := im2_memory(0x8001 := 0x12, 0x8000 := 0x34),
          reg := (reg (im2_cpu 0x8002 0x1234))\<lparr>r_SP := 0x8000, r_PC := 0x1234\<rparr>\<rparr>)) \<and>
   iff1 (im2_cpu 0x8002 0x1234) = 1 \<and> iff2 (im2_cpu 0x8002 0x1234) = 1 \<and>
   membus (im2_cpu 0x8002 0x1234) 0x8000 = 0x00 \<and> membus (im2_cpu 0x8002 0x1234) 0x8001 = 0x90 \<and>
   r8 (reg (im2_cpu 0x8002 0x1234)) I = 0x80 \<and> interrupt_mode (im2_cpu 0x8002 0x1234) = 2"
  using im2_overlapping_stack [of 0]
  by (simp add: im2_cpu_def im2_memory_def blank_cpu_def)

text \<open>
  Claim C5, amended. From interrupt mode 2 with I = \<^verbatim>\<open>0x80\<close>, the bytes \<^verbatim>\<open>0x00\<close> and
  \<^verbatim>\<open>0x90\<close> at \<^verbatim>\<open>0x8000\<close> and \<^verbatim>\<open>0x8001\<close>, a data source that yields \<^verbatim>\<open>0x00\<close> first, and
  a stack whose next two bytes (at SP - 1 and SP - 2) are not the two bytes of the vector:
  clocking the pipeline of \<^verbatim>\<open>interrupt_response(nmi=False)\<close> until it is empty takes
  exactly 19 T-cycles, pushes the high and then the low byte of the interrupted PC,
  leaves SP decremented by 2, loads PC with \<^verbatim>\<open>0x9000\<close>, and changes nothing else of the
  CPU but \<^verbatim>\<open>most_recent_instruction\<close>: IFF1 and IFF2 are as they were.
\<close>

theorem im2_response:
  assumes "interrupt_mode c = 2" and "r8 (reg c) I = 0x80"
    and "membus c 0x8000 = 0x00" and "membus c 0x8001 = 0x90"
    and "ack c = 0x00 # rest"
    and "r_SP (reg c) - 1 \<notin> {0x8000, 0x8001}" and "r_SP (reg c) - 2 \<notin> {0x8000, 0x8001}"
  shows "accept_interrupt (19 + f) c False (Some ack) =
     Some (Inr (19,
       c\<lparr>most_recent_instruction := Some (Marker ''INT2''),
         membus := (membus c)(r_SP (reg c) - 1 := word_of_int (uint (r_PC (reg c)) div 256),
                              r_SP (reg c) - 2 := word_of_int (uint (r_PC (reg c)) mod 256)),
         reg := (reg c)\<lparr>r_SP := r_SP (reg c) - 2, r_PC := 0x9000\<rparr>\<rparr>))"
  unfolding fuel_19 accept_interrupt_def using assms
  by (simp add: im2_simps)

theorem im2_response_witness:
  "interrupt_mode (im2_cpu 0x0100 0x1234) = 2 \<and> r8 (reg (im2_cpu 0x0100 0x1234)) I = 0x80 \<and>
   membus (im2_cpu 0x0100 0x1234) 0x8000 = 0x00 \<and> membus (im2_cpu 0x0100 0x1234) 0x8001 = 0x90 \<and>
   ack_zero (im2_cpu 0x0100 0x1234) = 0x00 # [] \<and>
   r_SP (reg (im2_cpu 0x0100 0x1234)) - 1 \<notin> {0x8000, 0x8001} \<and>
   r_SP (reg (im2_cpu 0x0100 0x1234)) - 2 \<notin> {0x8000, 0x8001} \<and>
   accept_interrupt 19 (im2_cpu 0x0100 0x1234) False (Some ack_zero) =
     Some (Inr (19,
       (im2_cpu 0x0100 0x1234)
         \<lparr>most_recent_instruction := Some (Marker ''INT2''),
          membus := im2_memory(0x00FF := 0x12, 0x00FE := 0x34),
          reg := (reg (im2_cpu 0x0100 0x1234))\<lparr>r_SP := 0x00FE, r_PC := 0x9000\<rparr>\<rparr>))"
proof -
  let ?c = "im2_cpu 0x0100 0x1234"
  have h: "interrupt_mode ?c = 2" "r8 (reg ?c) I = 0x80"
    "membus ?c 0x8000 = 0x00" "membus ?c 0x8001 = 0x90"
    "ack_zero ?c = 0x00 # []"
    "r_SP (reg ?c) - 1 \<notin> {0x8000, 0x8001}" "r_SP (reg ?c) - 2 \<notin> {0x8000, 0x8001}"
    by (simp_all add: im2_cpu_def im2_memory_def blank_cpu_def blank_registers_def ack_zero_def)
  from im2_response [of ?c ack_zero "[]" 0] h
  have "accept_interrupt 19 ?c False (Some ack_zero) =
     Some (Inr (19,
       ?c\<lparr>most_recent_instruction := Some (Marker ''INT2''),
          membus := im2_memory(0x00FF := 0x12, 0x00FE := 0x34),
          reg := (reg ?c)\<lparr>r_SP := 0x00FE, r_PC := 0x9000\<rparr>\<rparr>))"
    by (simp add: im2_cpu_def blank_cpu_def blank_registers_def)
  with h show ?thesis
    by blast
qed

end
